theory Spec2Isabelle
  imports Main "HOL-Library.AList" "HOL-Library.Sublist"
begin

section \<open>JSON values and the Python operations the helpers apply to them\<close>

text \<open>
  The helper modules work on what \<^verbatim>\<open>response.json()\<close> returns: nested Python
  dictionaries, lists, strings, integers, booleans and \<^verbatim>\<open>None\<close>. An element is a
  dictionary. \<open>JNull\<close> is Python's \<^verbatim>\<open>None\<close>, also where a function returns
  \<^verbatim>\<open>None\<close>. A dictionary is an association list in insertion order; lookups take
  the first entry of a key (a parsed JSON object has each key once). JSON numbers are
  Python ints here: floating-point payloads are outside this model.
\<close>

datatype json =
    JNull
  | JBool bool
  | JInt int
  | JStr string
  | JList "json list"
  | JObj "(string \<times> json) list"

text \<open>
  The exceptions the modelled code can raise. \<open>ValueError msg status\<close> is the
  \<^verbatim>\<open>ValueError\<close> the helpers raise themselves, with the fixed part of its message
  and the HTTP status it reports (if any); \<open>JSONDecodeError\<close> is raised by
  \<^verbatim>\<open>response.json()\<close> on a body that is not JSON, \<open>RequestException\<close> by the
  HTTP session, \<open>RecursionError\<close> by the interpreter at its recursion limit.
\<close>

datatype py_error =
    TypeError
  | AttributeError
  | KeyError
  | IndexError
  | ValueError string "int option"
  | JSONDecodeError
  | RequestException
  | RecursionError

text \<open>Truth value of an object in a condition (\<^verbatim>\<open>if x:\<close>).\<close>

fun truthy :: "json \<Rightarrow> bool" where
  "truthy JNull = False"
| "truthy (JBool b) = b"
| "truthy (JInt n) = (n \<noteq> 0)"
| "truthy (JStr s) = (s \<noteq> [])"
| "truthy (JList xs) = (xs \<noteq> [])"
| "truthy (JObj kvs) = (kvs \<noteq> [])"

text \<open>Lists and dictionaries are unhashable: they raise TypeError as a key or set member.\<close>

fun hashable :: "json \<Rightarrow> bool" where
  "hashable (JList xs) = False"
| "hashable (JObj kvs) = False"
| "hashable v = True"

text \<open>As keys, \<^verbatim>\<open>True\<close> and \<^verbatim>\<open>1\<close> (and \<^verbatim>\<open>False\<close> and \<^verbatim>\<open>0\<close>) are the same key.\<close>

fun py_key :: "json \<Rightarrow> json" where
  "py_key (JBool b) = JInt (if b then 1 else 0)"
| "py_key v = v"

text \<open>
  Python's \<^verbatim>\<open>==\<close> on these values: booleans compare as the integers 0 and 1,
  lists elementwise, dictionaries by their key sets and the values under each key.
\<close>

fun py_eq :: "json \<Rightarrow> json \<Rightarrow> bool"
  and py_eq_list :: "json list \<Rightarrow> json list \<Rightarrow> bool"
  and py_eq_sub :: "(string \<times> json) list \<Rightarrow> (string \<times> json) list \<Rightarrow> bool"
  and py_eq_at :: "string \<Rightarrow> json \<Rightarrow> (string \<times> json) list \<Rightarrow> bool" where
  "py_eq JNull b = (b = JNull)"
| "py_eq (JBool x) b =
     (case b of JBool y \<Rightarrow> x = y | JInt n \<Rightarrow> (if x then 1 else 0) = n | _ \<Rightarrow> False)"
| "py_eq (JInt m) b =
     (case b of JBool y \<Rightarrow> m = (if y then 1 else 0) | JInt n \<Rightarrow> m = n | _ \<Rightarrow> False)"
| "py_eq (JStr s) b = (b = JStr s)"
| "py_eq (JList xs) b = (case b of JList ys \<Rightarrow> py_eq_list xs ys | _ \<Rightarrow> False)"
| "py_eq (JObj kvs) b =
     (case b of JObj kws \<Rightarrow> length kvs = length kws \<and> py_eq_sub kvs kws | _ \<Rightarrow> False)"
| "py_eq_list [] ys = (ys = [])"
| "py_eq_list (x # xs) ys =
     (case ys of [] \<Rightarrow> False | y # ys' \<Rightarrow> py_eq x y \<and> py_eq_list xs ys')"
| "py_eq_sub [] kws = True"
| "py_eq_sub ((k, v) # kvs) kws = (py_eq_at k v kws \<and> py_eq_sub kvs kws)"
| "py_eq_at k v [] = False"
| "py_eq_at k v ((k', w) # kws) = (if k = k' then py_eq v w else py_eq_at k v kws)"

text \<open>\<^verbatim>\<open>d.get(k)\<close> and \<^verbatim>\<open>d.get(k, default)\<close>: only a dictionary has \<^verbatim>\<open>get\<close>.\<close>

definition py_get_default :: "json \<Rightarrow> string \<Rightarrow> json \<Rightarrow> py_error + json" where
  "py_get_default d k dflt =
     (case d of
        JObj kvs \<Rightarrow> (case map_of kvs k of None \<Rightarrow> Inr dflt | Some v \<Rightarrow> Inr v)
      | _ \<Rightarrow> Inl AttributeError)"

definition py_get :: "json \<Rightarrow> string \<Rightarrow> py_error + json" where
  "py_get d k = py_get_default d k JNull"

text \<open>\<^verbatim>\<open>d[k]\<close> with a string key.\<close>

definition py_subscript :: "json \<Rightarrow> string \<Rightarrow> py_error + json" where
  "py_subscript d k =
     (case d of
        JObj kvs \<Rightarrow> (case map_of kvs k of None \<Rightarrow> Inl KeyError | Some v \<Rightarrow> Inr v)
      | _ \<Rightarrow> Inl TypeError)"

text \<open>\<^verbatim>\<open>k in d\<close> with a string \<open>k\<close>: key of a dictionary, member of a list, substring of a string.\<close>

definition py_contains :: "string \<Rightarrow> json \<Rightarrow> py_error + bool" where
  "py_contains k d =
     (case d of
        JObj kvs \<Rightarrow> Inr (map_of kvs k \<noteq> None)
      | JList xs \<Rightarrow> Inr (JStr k \<in> set xs)
      | JStr s \<Rightarrow> Inr (sublist k s)
      | _ \<Rightarrow> Inl TypeError)"

text \<open>\<^verbatim>\<open>len(x)\<close>.\<close>

definition py_len :: "json \<Rightarrow> py_error + nat" where
  "py_len x =
     (case x of
        JList xs \<Rightarrow> Inr (length xs)
      | JObj kvs \<Rightarrow> Inr (length kvs)
      | JStr s \<Rightarrow> Inr (length s)
      | _ \<Rightarrow> Inl TypeError)"

text \<open>What a \<^verbatim>\<open>for\<close> loop iterates over: a dictionary yields its keys, a string its characters.\<close>

definition py_iter :: "json \<Rightarrow> py_error + json list" where
  "py_iter x =
     (case x of
        JList xs \<Rightarrow> Inr xs
      | JObj kvs \<Rightarrow> Inr (map (\<lambda>kv. JStr (fst kv)) kvs)
      | JStr s \<Rightarrow> Inr (map (\<lambda>c. JStr [c]) s)
      | _ \<Rightarrow> Inl TypeError)"

text \<open>Decimal digits of an integer, as an f-string prints it.\<close>

fun str_nat :: "nat \<Rightarrow> string" where
  "str_nat n =
     (if n < 10 then [char_of (48 + n)] else str_nat (n div 10) @ [char_of (48 + n mod 10)])"

definition str_int :: "int \<Rightarrow> string" where
  "str_int i = (if i < 0 then CHR ''-'' # str_nat (nat (- i)) else str_nat (nat i))"

section \<open>The remote server and the state of a helper module\<close>

text \<open>
  \<^verbatim>\<open>session.get\<close> and \<^verbatim>\<open>session.post\<close> either raise or return a response with a
  status code and a body; \<open>None\<close> as body is one that \<^verbatim>\<open>response.json()\<close> cannot
  parse. A query is posted with the property and the value it constrains (the value as
  the caller passed it: the f-string that prints it into the body is a function of it).
  The remote may answer the same request differently at different times, so it is a
  function of the number of requests issued before.
\<close>

datatype request = Get string | Post string string json

datatype response = Response int "json option" | ConnectionFailure

type_synonym remote = "nat \<Rightarrow> request \<Rightarrow> response"

text \<open>
  The module's state: the global \<^verbatim>\<open>ELEMENT_CACHE\<close> (commit URL to a dictionary from
  element id to element), the memo tables of the two \<^verbatim>\<open>lru_cache\<close> decorators (most
  recently used first), and the log of the requests sent so far.
\<close>

record state =
  ELEMENT_CACHE :: "string \<rightharpoonup> (json \<times> json) list"
  element_memo :: "((string \<times> json) \<times> json) list"
  kind_memo :: "((string \<times> string \<times> string \<times> json) \<times> json) list"
  requests :: "request list"

definition empty_state :: state where
  "empty_state = \<lparr>ELEMENT_CACHE = Map.empty, element_memo = [], kind_memo = [], requests = []\<rparr>"

definition send :: "remote \<Rightarrow> request \<Rightarrow> state \<Rightarrow> response \<times> state" where
  "send remote rq st = (remote (length (requests st)) rq, st\<lparr>requests := requests st @ [rq]\<rparr>)"

definition get_commit_url :: "string \<Rightarrow> string \<Rightarrow> string \<Rightarrow> string" where
  "get_commit_url server_url project_id commit_id =
     server_url @ ''/projects/'' @ project_id @ ''/commits/'' @ commit_id"

section \<open>Fetching one element\<close>

text \<open>
  The body of \<^verbatim>\<open>get_element_fromAPI\<close> inside its \<^verbatim>\<open>try\<close>, the same in both helper
  modules: look in \<^verbatim>\<open>ELEMENT_CACHE\<close>, else request the element, take the first item of
  a list payload, store a truthy element and return it. A status other than 200 falls off
  the end of the function, which returns \<^verbatim>\<open>None\<close>.
\<close>

definition cache_get :: "state \<Rightarrow> string \<Rightarrow> json \<Rightarrow> json option" where
  "cache_get st query_url element_id =
     (case ELEMENT_CACHE st query_url of
        None \<Rightarrow> None
      | Some entry \<Rightarrow> map_of entry (py_key element_id))"

definition cache_put :: "string \<Rightarrow> json \<Rightarrow> json \<Rightarrow> state \<Rightarrow> state" where
  "cache_put query_url element_id element st =
     (let entry = (case ELEMENT_CACHE st query_url of None \<Rightarrow> [] | Some en \<Rightarrow> en)
      in st\<lparr>ELEMENT_CACHE :=
              (ELEMENT_CACHE st)(query_url \<mapsto> AList.update (py_key element_id) element entry)\<rparr>)"

definition first_of_list :: "json \<Rightarrow> json" where
  "first_of_list element =
     (case element of
        JList xs \<Rightarrow> (case xs of [] \<Rightarrow> JNull | x # _ \<Rightarrow> x)
      | _ \<Rightarrow> element)"

definition request_element :: "remote \<Rightarrow> string \<Rightarrow> json \<Rightarrow> state \<Rightarrow> (py_error + json) \<times> state" where
  "request_element remote query_url element_id st =
     (case element_id of
        JStr i \<Rightarrow>
          (case send remote (Get (query_url @ ''/elements/'' @ i)) st of
             (ConnectionFailure, st') \<Rightarrow> (Inl RequestException, st')
           | (Response status body, st') \<Rightarrow>
               if status = 200 then
                 (case body of
                    None \<Rightarrow> (Inl JSONDecodeError, st')
                  | Some payload \<Rightarrow>
                      (let element = first_of_list payload
                       in if truthy element
                          then (Inr element, cache_put query_url element_id element st')
                          else (Inr element, st')))
               else (Inr JNull, st'))
      | _ \<Rightarrow> (Inl TypeError, st))"

definition element_try_body :: "remote \<Rightarrow> string \<Rightarrow> json \<Rightarrow> state \<Rightarrow> (py_error + json) \<times> state" where
  "element_try_body remote query_url element_id st =
     (case ELEMENT_CACHE st query_url of
        None \<Rightarrow> request_element remote query_url element_id st
      | Some entry \<Rightarrow>
          if \<not> hashable element_id then (Inl TypeError, st)
          else (case map_of entry (py_key element_id) of
                  None \<Rightarrow> request_element remote query_url element_id st
                | Some cached_element \<Rightarrow>
                    if truthy cached_element then (Inr cached_element, st)
                    else request_element remote query_url element_id st))"

text \<open>
  \<^verbatim>\<open>api/sysmod_api_helpers.py\<close>: the decorator is commented out, and the handler
  prints the exception and falls off the end, so the function returns \<^verbatim>\<open>None\<close>.
\<close>

definition get_element_fromAPI_api :: "remote \<Rightarrow> string \<Rightarrow> json \<Rightarrow> state \<Rightarrow> (py_error + json) \<times> state" where
  "get_element_fromAPI_api remote query_url element_id st =
     (case element_try_body remote query_url element_id st of
        (Inl e, st') \<Rightarrow> (Inr JNull, st')
      | (Inr v, st') \<Rightarrow> (Inr v, st'))"

text \<open>
  \<^verbatim>\<open>mbse4u_sysmlv2_api_helpers.py\<close>: the handler re-raises, and the function is
  wrapped in \<^verbatim>\<open>lru_cache(maxsize=2048)\<close>. The wrapper hashes the arguments, returns the
  memoized result of an earlier call with the same arguments (making it the most recently
  used), and otherwise calls the function and memoizes what it returns, \<^verbatim>\<open>None\<close>
  included, dropping the least recently used entry beyond 2048. A raised exception is not
  memoized.
\<close>

definition lru_hit :: "'k \<Rightarrow> 'v \<Rightarrow> ('k \<times> 'v) list \<Rightarrow> ('k \<times> 'v) list" where
  "lru_hit key v memo = (key, v) # filter (\<lambda>p. fst p \<noteq> key) memo"

definition lru_store :: "nat \<Rightarrow> 'k \<Rightarrow> 'v \<Rightarrow> ('k \<times> 'v) list \<Rightarrow> ('k \<times> 'v) list" where
  "lru_store maxsize key v memo = take maxsize ((key, v) # memo)"

definition get_element_fromAPI :: "remote \<Rightarrow> string \<Rightarrow> json \<Rightarrow> state \<Rightarrow> (py_error + json) \<times> state" where
  "get_element_fromAPI remote query_url element_id st =
     (if \<not> hashable element_id then (Inl TypeError, st)
      else
        (let key = (query_url, py_key element_id)
         in case map_of (element_memo st) key of
              Some v \<Rightarrow> (Inr v, st\<lparr>element_memo := lru_hit key v (element_memo st)\<rparr>)
            | None \<Rightarrow>
                (case element_try_body remote query_url element_id st of
                   (Inl e, st') \<Rightarrow> (Inl e, st')
                 | (Inr v, st') \<Rightarrow>
                     (Inr v, st'\<lparr>element_memo := lru_store 2048 key v (element_memo st')\<rparr>))))"

section \<open>Cache predicates and runs of resolve calls\<close>

text \<open>
  \<open>stored\<close>: \<^verbatim>\<open>ELEMENT_CACHE\<close> holds a truthy element under the context and id, which is
  what \<^verbatim>\<open>get_element_fromAPI\<close> takes as a cache hit. \<open>memo_backed\<close>: every entry of the
  \<^verbatim>\<open>lru_cache\<close> memo table answers as \<^verbatim>\<open>ELEMENT_CACHE\<close> would; it holds when the
  module is loaded and every call of \<^verbatim>\<open>get_element_fromAPI\<close> keeps it (a
  \<^verbatim>\<open>load_model_cache\<close> of a context with memoized elements can end it).
  \<open>resolve_all\<close> runs a sequence of calls, discarding their results.
\<close>

definition stored :: "state \<Rightarrow> string \<Rightarrow> json \<Rightarrow> json \<Rightarrow> bool" where
  "stored st query_url element_id element =
     (hashable element_id \<and> truthy element \<and> cache_get st query_url element_id = Some element)"

definition memo_backed :: "state \<Rightarrow> bool" where
  "memo_backed st =
     (\<forall>q k v. map_of (element_memo st) (q, py_key k) = Some v \<longrightarrow>
        (if truthy v then cache_get st q k = Some v
         else (\<forall>c. cache_get st q k = Some c \<longrightarrow> \<not> truthy c)))"

fun resolve_all :: "remote \<Rightarrow> (string \<times> json) list \<Rightarrow> state \<Rightarrow> state" where
  "resolve_all remote [] st = st"
| "resolve_all remote ((q, i) # calls) st = resolve_all remote calls (snd (get_element_fromAPI remote q i st))"

section \<open>Concrete inputs\<close>

text \<open>The commit URL of \<^verbatim>\<open>test_caching.py\<close>, its elements, and a remote that serves one.\<close>

definition demo_url :: string where
  "demo_url = ''http://mock-server/projects/proj1/commits/commit1''"

definition demo_element :: "string \<Rightarrow> json" where
  "demo_element i = JObj [(''@id'', JStr i), (''name'', JStr ''Network Element'')]"

definition remote_ok :: remote where
  "remote_ok n rq = Response 200 (Some (demo_element ''el1''))"

text \<open>A remote where the element is not there yet at the first request and is served afterwards.\<close>

definition remote_late :: remote where
  "remote_late n rq = (if n = 0 then Response 404 None else Response 200 (Some (demo_element ''el1'')))"

section \<open>Loading the whole model into the cache\<close>

text \<open>
  The loop of \<^verbatim>\<open>load_model_cache\<close> that fills the fresh dictionary
  \<^verbatim>\<open>cache_entry\<close>: an element with an \<^verbatim>\<open>'@id'\<close> is stored under it, a later
  element replacing an earlier one with the same id.
\<close>

fun populate :: "json list \<Rightarrow> (json \<times> json) list \<Rightarrow> py_error + (json \<times> json) list" where
  "populate [] cache_entry = Inr cache_entry"
| "populate (el # els) cache_entry =
     (case py_contains ''@id'' el of
        Inl e \<Rightarrow> Inl e
      | Inr has_id \<Rightarrow>
          if has_id then
            (case py_subscript el ''@id'' of
               Inl e \<Rightarrow> Inl e
             | Inr k \<Rightarrow>
                 if hashable k then populate els (AList.update (py_key k) el cache_entry)
                 else Inl TypeError)
          else populate els cache_entry)"

text \<open>
  \<^verbatim>\<open>load_model_cache\<close>: one request for all elements of the commit; a status other
  than 200 and a payload that is not a list raise \<^verbatim>\<open>ValueError\<close> (the length of the
  payload is printed before its type is checked). The dictionary built from the payload
  is assigned to \<^verbatim>\<open>ELEMENT_CACHE[commit_url]\<close>, and its length returned.
  \<^verbatim>\<open>mbse4u_sysmlv2_api_helpers.py\<close> takes the page size as a parameter;
  \<^verbatim>\<open>api/sysmod_api_helpers.py\<close> fixes it at 512.
\<close>

definition load_model_cache ::
  "remote \<Rightarrow> string \<Rightarrow> string \<Rightarrow> string \<Rightarrow> int \<Rightarrow> state \<Rightarrow> (py_error + nat) \<times> state" where
  "load_model_cache remote server_url project_id commit_id page_size st =
     (let commit_url = server_url @ ''/projects/'' @ project_id @ ''/commits/'' @ commit_id;
          elements_url = commit_url @ ''/elements?page%5Bsize%5D='' @ str_int page_size
      in case send remote (Get elements_url) st of
           (ConnectionFailure, st') \<Rightarrow> (Inl RequestException, st')
         | (Response status body, st') \<Rightarrow>
             if status \<noteq> 200
             then (Inl (ValueError ''Failed to load elements for cache.'' (Some status)), st')
             else
               (case body of
                  None \<Rightarrow> (Inl JSONDecodeError, st')
                | Some elements \<Rightarrow>
                    (case py_len elements of
                       Inl e \<Rightarrow> (Inl e, st')
                     | Inr n \<Rightarrow>
                         (case elements of
                            JList els \<Rightarrow>
                              (case populate els [] of
                                 Inl e \<Rightarrow> (Inl e, st')
                               | Inr cache_entry \<Rightarrow>
                                   (Inr (length cache_entry),
                                    st'\<lparr>ELEMENT_CACHE := (ELEMENT_CACHE st')(commit_url \<mapsto> cache_entry)\<rparr>))
                          | _ \<Rightarrow> (Inl (ValueError ''Expected list of elements'' None), st')))))"

definition load_model_cache_api ::
  "remote \<Rightarrow> string \<Rightarrow> string \<Rightarrow> string \<Rightarrow> state \<Rightarrow> (py_error + nat) \<times> state" where
  "load_model_cache_api remote server_url project_id commit_id st =
     load_model_cache remote server_url project_id commit_id 512 st"

text \<open>
  The key under which the loop of \<^verbatim>\<open>load_model_cache\<close> stores an element: the value
  of its \<^verbatim>\<open>'@id'\<close>, if \<^verbatim>\<open>'@id' in el\<close> holds. \<open>batch_lookup\<close> is the dictionary
  the specification of a replacing warm describes: an id is mapped to the last element
  of the batch that carries it.
\<close>

definition id_key :: "json \<Rightarrow> json option" where
  "id_key el =
     (case py_contains ''@id'' el of
        Inr True \<Rightarrow> (case py_subscript el ''@id'' of Inr k \<Rightarrow> Some (py_key k) | Inl _ \<Rightarrow> None)
      | _ \<Rightarrow> None)"

definition batch_lookup :: "json list \<Rightarrow> json \<Rightarrow> json option" where
  "batch_lookup els k =
     (case filter (\<lambda>el. id_key el = Some (py_key k)) els of
        [] \<Rightarrow> None
      | x # xs \<Rightarrow> Some (last (x # xs)))"

text \<open>A remote that serves one batch to the first request and a disjoint one afterwards.\<close>

definition remote_batches :: remote where
  "remote_batches n rq =
     (if n = 0 then Response 200 (Some (JList [demo_element ''el1'']))
      else Response 200 (Some (JList [demo_element ''el2''])))"

text \<open>A remote that serves the element \<open>el3\<close> alone first and the batch with \<open>el2\<close> afterwards.\<close>

definition remote_put_then_batch :: remote where
  "remote_put_then_batch n rq =
     (if n = 0 then Response 200 (Some (demo_element ''el3''))
      else Response 200 (Some (JList [demo_element ''el2''])))"

text \<open>The states after one and two warms, and after an individual store followed by a warm.\<close>

definition first_warm :: state where
  "first_warm =
     snd (load_model_cache remote_batches ''http://mock-server'' ''proj1'' ''commit1'' 256 empty_state)"

definition second_warm :: state where
  "second_warm =
     snd (load_model_cache remote_batches ''http://mock-server'' ''proj1'' ''commit1'' 256 first_warm)"

definition after_put :: state where
  "after_put = snd (get_element_fromAPI_api remote_put_then_batch demo_url (JStr ''el3'') empty_state)"

definition put_then_warm :: state where
  "put_then_warm =
     snd (load_model_cache_api remote_put_then_batch ''http://mock-server'' ''proj1'' ''commit1'' after_put)"

text \<open>An individual store in \<^verbatim>\<open>mbse4u_sysmlv2_api_helpers.py\<close>, followed by a warm.\<close>

definition after_put_memo :: state where
  "after_put_memo = snd (get_element_fromAPI remote_put_then_batch demo_url (JStr ''el3'') empty_state)"

definition put_then_warm_memo :: state where
  "put_then_warm_memo =
     snd (load_model_cache remote_put_then_batch ''http://mock-server'' ''proj1'' ''commit1'' 256 after_put_memo)"

section \<open>Runs of resolve and warm calls\<close>

text \<open>
  A client of the module calls \<^verbatim>\<open>get_element_fromAPI\<close> and \<^verbatim>\<open>load_model_cache\<close>
  in any order; no other function writes \<^verbatim>\<open>ELEMENT_CACHE\<close> or the memo table.
  \<open>run\<close> executes such a sequence in \<^verbatim>\<open>mbse4u_sysmlv2_api_helpers.py\<close>, discarding
  the results (an exception raised by a call is caught by the client).
  \<open>run_api\<close> is the same for \<^verbatim>\<open>api/sysmod_api_helpers.py\<close>, where
  \<^verbatim>\<open>load_model_cache\<close> has no page size parameter.
  \<open>warms q c\<close>: the call \<open>c\<close> is a \<^verbatim>\<open>load_model_cache\<close> of the context \<open>q\<close>.
\<close>

datatype call = Resolve string json | Warm string string string int

fun run :: "remote \<Rightarrow> call list \<Rightarrow> state \<Rightarrow> state" where
  "run remote [] st = st"
| "run remote (Resolve q i # calls) st = run remote calls (snd (get_element_fromAPI remote q i st))"
| "run remote (Warm server_url project_id commit_id page_size # calls) st =
     run remote calls (snd (load_model_cache remote server_url project_id commit_id page_size st))"

fun run_api :: "remote \<Rightarrow> call list \<Rightarrow> state \<Rightarrow> state" where
  "run_api remote [] st = st"
| "run_api remote (Resolve q i # calls) st = run_api remote calls (snd (get_element_fromAPI_api remote q i st))"
| "run_api remote (Warm server_url project_id commit_id page_size # calls) st =
     run_api remote calls (snd (load_model_cache_api remote server_url project_id commit_id st))"

definition warms :: "string \<Rightarrow> call \<Rightarrow> bool" where
  "warms q c =
     (case c of
        Resolve _ _ \<Rightarrow> False
      | Warm server_url project_id commit_id _ \<Rightarrow> get_commit_url server_url project_id commit_id = q)"

text \<open>
  \<open>memo_agrees\<close>: the \<^verbatim>\<open>lru_cache\<close> memo table has no element for the context and id,
  or the one that \<^verbatim>\<open>ELEMENT_CACHE\<close> holds. \<open>held\<close>: \<^verbatim>\<open>ELEMENT_CACHE\<close> holds the
  element, and the memo table has nothing else for the context and id.
\<close>

definition memo_agrees :: "state \<Rightarrow> string \<Rightarrow> json \<Rightarrow> bool" where
  "memo_agrees st query_url element_id =
     (case map_of (element_memo st) (query_url, py_key element_id) of
        None \<Rightarrow> True
      | Some v \<Rightarrow> truthy v \<longrightarrow> cache_get st query_url element_id = Some v)"

definition held :: "state \<Rightarrow> string \<Rightarrow> json \<Rightarrow> json \<Rightarrow> bool" where
  "held st query_url element_id element =
     (stored st query_url element_id element \<and>
      (case map_of (element_memo st) (query_url, py_key element_id) of
         None \<Rightarrow> True
       | Some v \<Rightarrow> v = element))"

text \<open>
  A remote that serves the element \<open>el3\<close> to the first request, the batch \<open>[el2]\<close> to
  the second, and answers 404 afterwards.
\<close>

definition remote_then_gone :: remote where
  "remote_then_gone n rq =
     (if n = 0 then Response 200 (Some (demo_element ''el3''))
      else if n = 1 then Response 200 (Some (JList [demo_element ''el2'']))
      else Response 404 None)"

text \<open>
  In \<^verbatim>\<open>api/sysmod_api_helpers.py\<close>: \<open>el3\<close> is resolved, then its context is warmed.
\<close>

definition api_resolved :: state where
  "api_resolved = snd (get_element_fromAPI_api remote_then_gone demo_url (JStr ''el3'') empty_state)"

definition api_warmed :: state where
  "api_warmed =
     snd (load_model_cache_api remote_then_gone ''http://mock-server'' ''proj1'' ''commit1'' api_resolved)"

text \<open>
  In \<^verbatim>\<open>mbse4u_sysmlv2_api_helpers.py\<close>: \<open>el3\<close> is resolved, its context is warmed,
  \<open>el3\<close> is resolved again, and then 2048 other ids of the context are resolved.
\<close>

definition other_id :: "nat \<Rightarrow> string" where
  "other_id k = replicate (Suc k) CHR ''x''"

definition other_calls :: "nat \<Rightarrow> call list" where
  "other_calls n = map (\<lambda>k. Resolve demo_url (JStr (other_id k))) [0..<n]"

definition memo_resolved :: state where
  "memo_resolved = snd (get_element_fromAPI remote_then_gone demo_url (JStr ''el3'') empty_state)"

definition memo_warmed :: state where
  "memo_warmed =
     snd (load_model_cache remote_then_gone ''http://mock-server'' ''proj1'' ''commit1'' 256 memo_resolved)"

definition memo_served :: state where
  "memo_served = snd (get_element_fromAPI remote_then_gone demo_url (JStr ''el3'') memo_warmed)"

definition memo_evicted :: state where
  "memo_evicted = run remote_then_gone (other_calls 2048) memo_served"

section \<open>Sequencing calls that can raise\<close>

text \<open>
  A call takes the module state and returns a value or an exception, and the new state.
  \<open>and_then\<close> runs the next statement on the value, or propagates the exception;
  \<open>lift\<close> is a step that leaves the state alone; \<open>catch_all\<close> is
  \<^verbatim>\<open>try: ... except Exception: return dflt\<close>.
\<close>

type_synonym 'a exec = "state \<Rightarrow> (py_error + 'a) \<times> state"

definition ret :: "'a \<Rightarrow> 'a exec" where
  "ret v st = (Inr v, st)"

definition lift :: "py_error + 'a \<Rightarrow> 'a exec" where
  "lift r st = (r, st)"

definition and_then :: "'a exec \<Rightarrow> ('a \<Rightarrow> 'b exec) \<Rightarrow> 'b exec" where
  "and_then m f st = (case m st of (Inl e, st') \<Rightarrow> (Inl e, st') | (Inr v, st') \<Rightarrow> f v st')"

definition catch_all :: "'a exec \<Rightarrow> 'a \<Rightarrow> 'a exec" where
  "catch_all m dflt st = (case m st of (Inl e, st') \<Rightarrow> (Inr dflt, st') | (Inr v, st') \<Rightarrow> (Inr v, st'))"

section \<open>Bulk queries\<close>

definition query_results_url :: "string \<Rightarrow> string \<Rightarrow> string \<Rightarrow> string" where
  "query_results_url server_url project_id commit_id =
     server_url @ ''/projects/'' @ project_id @ ''/query-results?commitId='' @ commit_id"

text \<open>
  The \<^verbatim>\<open>try\<close> block shared by the query functions: post the query, return the payload
  of a response with status 200, raise \<^verbatim>\<open>ValueError\<close> with the status otherwise.
\<close>

definition post_query :: "remote \<Rightarrow> string \<Rightarrow> string \<Rightarrow> json \<Rightarrow> string \<Rightarrow> json exec" where
  "post_query remote url property val failure st =
     (case send remote (Post url property val) st of
        (ConnectionFailure, st') \<Rightarrow> (Inl RequestException, st')
      | (Response status body, st') \<Rightarrow>
          if status = 200 then
            (case body of None \<Rightarrow> (Inl JSONDecodeError, st') | Some payload \<Rightarrow> (Inr payload, st'))
          else (Inl (ValueError failure (Some status)), st'))"

text \<open>
  \<^verbatim>\<open>get_elements_byKind_fromAPI\<close> of \<^verbatim>\<open>mbse4u_sysmlv2_api_helpers.py\<close>: the handler
  around the whole body prints the exception and returns the empty list.
\<close>

definition get_elements_byKind_fromAPI :: "remote \<Rightarrow> string \<Rightarrow> string \<Rightarrow> string \<Rightarrow> json \<Rightarrow> json exec" where
  "get_elements_byKind_fromAPI remote server_url project_id commit_id kind =
     catch_all
       (post_query remote (query_results_url server_url project_id commit_id) ''@type'' kind
          ''Failed to query kinds.'')
       (JList [])"

text \<open>
  In \<^verbatim>\<open>api/sysmod_api_helpers.py\<close> the same function is wrapped in
  \<^verbatim>\<open>lru_cache(maxsize=128)\<close>.
\<close>

definition get_elements_byKind_fromAPI_api :: "remote \<Rightarrow> string \<Rightarrow> string \<Rightarrow> string \<Rightarrow> json \<Rightarrow> json exec" where
  "get_elements_byKind_fromAPI_api remote server_url project_id commit_id kind st =
     (if \<not> hashable kind then (Inl TypeError, st)
      else
        (let key = (server_url, project_id, commit_id, py_key kind)
         in case map_of (kind_memo st) key of
              Some v \<Rightarrow> (Inr v, st\<lparr>kind_memo := lru_hit key v (kind_memo st)\<rparr>)
            | None \<Rightarrow>
                (case get_elements_byKind_fromAPI remote server_url project_id commit_id kind st of
                   (Inl e, st') \<Rightarrow> (Inl e, st')
                 | (Inr v, st') \<Rightarrow>
                     (Inr v, st'\<lparr>kind_memo := lru_store 128 key v (kind_memo st')\<rparr>))))"

text \<open>A remote that answers every request with status 500.\<close>

definition remote_down :: remote where
  "remote_down n rq = Response 500 None"

text \<open>\<^verbatim>\<open>xs.append(v)\<close> and \<^verbatim>\<open>xs[0]\<close>.\<close>

definition py_append :: "json \<Rightarrow> json \<Rightarrow> py_error + json" where
  "py_append xs v = (case xs of JList ys \<Rightarrow> Inr (JList (ys @ [v])) | _ \<Rightarrow> Inl AttributeError)"

definition py_first :: "json \<Rightarrow> py_error + json" where
  "py_first xs =
     (case xs of
        JList ys \<Rightarrow> (case ys of [] \<Rightarrow> Inl IndexError | y # _ \<Rightarrow> Inr y)
      | JStr s \<Rightarrow> (case s of [] \<Rightarrow> Inl IndexError | c # _ \<Rightarrow> Inr (JStr [c]))
      | JObj kvs \<Rightarrow> Inl KeyError
      | _ \<Rightarrow> Inl TypeError)"

text \<open>
  \<^verbatim>\<open>get_elements_byProperty_fromAPI\<close>. Its three nested loops, innermost first: over
  the owned relationships of an element \<open>el\<close> of the same type, collecting \<open>el\<close> once
  for each \<^verbatim>\<open>Redefinition\<close> whose redefined feature has the property value; over the
  elements of the same type; over the elements of the query response.
\<close>

fun redefinition_loop ::
  "remote \<Rightarrow> string \<Rightarrow> string \<Rightarrow> string \<Rightarrow> json \<Rightarrow> json list \<Rightarrow> json list \<Rightarrow> json list exec" where
  "redefinition_loop remote commit_url property val el [] additional_elements = ret additional_elements"
| "redefinition_loop remote commit_url property val el (relationshipID # rest) additional_elements =
     and_then (lift (py_subscript relationshipID ''@id'')) (\<lambda>rid.
     and_then (get_element_fromAPI remote commit_url rid) (\<lambda>relationship.
     and_then (lift (py_get relationship ''@type'')) (\<lambda>ty.
       if py_eq ty (JStr ''Redefinition'') then
         and_then (lift (py_get relationship ''redefinedFeature'')) (\<lambda>redefinedFeature.
         and_then (lift (py_get redefinedFeature ''@id'')) (\<lambda>redefinedFeatureID.
         and_then (get_element_fromAPI remote commit_url redefinedFeatureID) (\<lambda>redefinedElement.
         and_then (lift (py_get redefinedElement property)) (\<lambda>pv.
           redefinition_loop remote commit_url property val el rest
             (if py_eq pv (JStr val) then additional_elements @ [el] else additional_elements)))))
       else redefinition_loop remote commit_url property val el rest additional_elements)))"

fun same_type_loop ::
  "remote \<Rightarrow> string \<Rightarrow> string \<Rightarrow> string \<Rightarrow> json \<Rightarrow> json list \<Rightarrow> json list \<Rightarrow> json list exec" where
  "same_type_loop remote commit_url property val element [] additional_elements = ret additional_elements"
| "same_type_loop remote commit_url property val element (el # els) additional_elements =
     and_then (lift (py_get el ''@id'')) (\<lambda>el_id.
     and_then (lift (py_get element ''@id'')) (\<lambda>element_id.
       if \<not> py_eq el_id element_id then
         and_then (lift (py_get_default el ''ownedRelationship'' (JList []))) (\<lambda>rels.
         and_then (lift (py_iter rels)) (\<lambda>rel_list.
         and_then (redefinition_loop remote commit_url property val el rel_list additional_elements)
           (\<lambda>additional_elements'.
              same_type_loop remote commit_url property val element els additional_elements')))
       else same_type_loop remote commit_url property val element els additional_elements))"

fun element_loop ::
  "remote \<Rightarrow> string \<Rightarrow> string \<Rightarrow> string \<Rightarrow> string \<Rightarrow> string \<Rightarrow> json list \<Rightarrow> json list \<Rightarrow> json list exec" where
  "element_loop remote server_url project_id commit_id property val [] additional_elements =
     ret additional_elements"
| "element_loop remote server_url project_id commit_id property val (element # elements) additional_elements =
     and_then (lift (py_get_default element ''@type'' (JStr ''''))) (\<lambda>kind.
     and_then (get_elements_byKind_fromAPI remote server_url project_id commit_id kind) (\<lambda>elementsOfSameType.
     and_then (lift (py_iter elementsOfSameType)) (\<lambda>same.
     and_then (same_type_loop remote (get_commit_url server_url project_id commit_id) property val
                 element same additional_elements)
       (\<lambda>additional_elements'.
          element_loop remote server_url project_id commit_id property val elements additional_elements'))))"

text \<open>
  The list of additional elements is appended to the response as one item
  (\<^verbatim>\<open>query_response_json.append(additional_elements)\<close>); any exception in the body
  makes the function return the empty list.
\<close>

definition get_elements_byProperty_fromAPI ::
  "remote \<Rightarrow> string \<Rightarrow> string \<Rightarrow> string \<Rightarrow> string \<Rightarrow> string \<Rightarrow> json exec" where
  "get_elements_byProperty_fromAPI remote server_url project_id commit_id property val =
     catch_all
       (and_then (post_query remote (query_results_url server_url project_id commit_id) property (JStr val)
                    ''Failed to query elements.'') (\<lambda>query_response_json.
        and_then (lift (py_iter query_response_json)) (\<lambda>elements.
        and_then (element_loop remote server_url project_id commit_id property val elements [])
          (\<lambda>additional_elements.
             lift (py_append query_response_json (JList additional_elements))))))
       (JList [])"

section \<open>Specialization\<close>

text \<open>
  \<^verbatim>\<open>check_specialization_hierarchy\<close> and the loop over the owned specializations in
  its body. The set \<^verbatim>\<open>visited\<close> is one object shared by all recursive calls of a
  top-level call, so it is passed in and returned; it is kept as the list of ids in the
  order they were added. The first argument is the recursion depth the interpreter still
  allows: at depth 0 the call raises \<^verbatim>\<open>RecursionError\<close>.
\<close>

function check_specialization_hierarchy ::
    "nat \<Rightarrow> remote \<Rightarrow> string \<Rightarrow> json \<Rightarrow> json \<Rightarrow> json list \<Rightarrow> (bool \<times> json list) exec"
  and specialization_loop ::
    "nat \<Rightarrow> remote \<Rightarrow> string \<Rightarrow> json list \<Rightarrow> json \<Rightarrow> json list \<Rightarrow> (bool \<times> json list) exec" where
  "check_specialization_hierarchy 0 remote query_url element super_element visited =
     lift (Inl RecursionError)"
| "check_specialization_hierarchy (Suc depth) remote query_url element super_element visited =
     and_then (lift (py_get element ''@id'')) (\<lambda>el_id.
       if \<not> hashable el_id then lift (Inl TypeError)
       else if py_key el_id \<in> set visited then ret (False, visited)
       else
         and_then (lift (py_get element ''name'')) (\<lambda>_.
         and_then (lift (py_get super_element ''name'')) (\<lambda>_.
         and_then (lift (py_get super_element ''@id'')) (\<lambda>super_id.
           if py_eq el_id super_id then ret (True, visited @ [py_key el_id])
           else
             and_then (lift (py_get_default element ''ownedSpecialization'' (JList []))) (\<lambda>refs.
             and_then (lift (py_iter refs)) (\<lambda>rel_refs.
               specialization_loop depth remote query_url rel_refs super_element
                 (visited @ [py_key el_id])))))))"
| "specialization_loop depth remote query_url [] super_element visited = ret (False, visited)"
| "specialization_loop depth remote query_url (rel_ref # rest) super_element visited =
     and_then (lift (py_subscript rel_ref ''@id'')) (\<lambda>rel_id.
     and_then (get_element_fromAPI remote query_url rel_id) (\<lambda>rel.
       if truthy rel then
         and_then (lift (py_get rel ''general'')) (\<lambda>general.
           if truthy general then
             and_then (lift (py_subscript general ''@id'')) (\<lambda>general_id.
             and_then (get_element_fromAPI remote query_url general_id) (\<lambda>general_el.
               if truthy general_el then
                 and_then (check_specialization_hierarchy depth remote query_url general_el super_element visited)
                   (\<lambda>r. if fst r then ret (True, snd r)
                        else specialization_loop depth remote query_url rest super_element (snd r))
               else specialization_loop depth remote query_url rest super_element visited))
           else specialization_loop depth remote query_url rest super_element visited)
       else specialization_loop depth remote query_url rest super_element visited))"
  by pat_completeness auto

termination
  by (relation "measures
        [\<lambda>x. case x of Inl (depth, _) \<Rightarrow> 2 * depth | Inr (depth, _) \<Rightarrow> 2 * depth + 1,
         \<lambda>x. case x of Inl _ \<Rightarrow> 0 | Inr (_, _, _, rel_refs, _) \<Rightarrow> length rel_refs]")
    auto

text \<open>
  \<^verbatim>\<open>find_elements_specializing\<close>: the supertype is the first item of what the
  qualified-name query returns; the loop keeps the candidates (of the requested kind, if
  one is given) that specialize it and whose id differs from its id.
\<close>

fun specializing_loop ::
  "nat \<Rightarrow> remote \<Rightarrow> string \<Rightarrow> json list \<Rightarrow> json \<Rightarrow> string option \<Rightarrow> json list \<Rightarrow> json list exec" where
  "specializing_loop depth remote query_url [] super_element element_kind found_elements =
     ret found_elements"
| "specializing_loop depth remote query_url (el # els) super_element element_kind found_elements =
     and_then
       (case element_kind of
          None \<Rightarrow> ret False
        | Some k \<Rightarrow>
            if k = [] then ret False
            else and_then (lift (py_get el ''@type'')) (\<lambda>ty. ret (\<not> py_eq ty (JStr k))))
       (\<lambda>skip.
          if skip then specializing_loop depth remote query_url els super_element element_kind found_elements
          else
            and_then (check_specialization_hierarchy depth remote query_url el super_element [])
              (\<lambda>r.
                 if fst r then
                   and_then (lift (py_get el ''@id'')) (\<lambda>el_id.
                   and_then (lift (py_get super_element ''@id'')) (\<lambda>super_id.
                     specializing_loop depth remote query_url els super_element element_kind
                       (if \<not> py_eq el_id super_id then found_elements @ [el] else found_elements)))
                 else specializing_loop depth remote query_url els super_element element_kind found_elements))"

definition find_elements_specializing ::
  "nat \<Rightarrow> remote \<Rightarrow> string \<Rightarrow> string \<Rightarrow> string \<Rightarrow> json list \<Rightarrow> string \<Rightarrow> string option \<Rightarrow> json list exec" where
  "find_elements_specializing depth remote server_url project_id commit_id elements super_element_name element_kind =
     and_then (get_elements_byProperty_fromAPI remote server_url project_id commit_id
                 ''qualifiedName'' super_element_name) (\<lambda>super_elements.
       if truthy super_elements then
         and_then (lift (py_first super_elements)) (\<lambda>super_element.
         and_then (lift (py_get super_element ''name'')) (\<lambda>_.
           specializing_loop depth remote (get_commit_url server_url project_id commit_id)
             elements super_element element_kind []))
       else ret [])"

text \<open>An element, and a remote that answers every request with the list holding it.\<close>

definition demo_part :: json where
  "demo_part = JObj [(''@id'', JStr ''x''), (''@type'', JStr ''PartDefinition''),
                     (''qualifiedName'', JStr ''SYSMOD::Project'')]"

definition remote_one :: remote where
  "remote_one n rq = Response 200 (Some (JList [demo_part]))"

text \<open>
  Two elements that specialize each other, their two specialization relationships, a
  third element, and a module state whose cache holds the four elements of the cycle.
\<close>

definition cycle_A :: json where
  "cycle_A = JObj [(''@id'', JStr ''A''), (''ownedSpecialization'', JList [JObj [(''@id'', JStr ''rA'')]])]"

definition cycle_B :: json where
  "cycle_B = JObj [(''@id'', JStr ''B''), (''ownedSpecialization'', JList [JObj [(''@id'', JStr ''rB'')]])]"

definition cycle_rA :: json where
  "cycle_rA = JObj [(''@id'', JStr ''rA''), (''@type'', JStr ''Specialization''),
                    (''general'', JObj [(''@id'', JStr ''B'')])]"

definition cycle_rB :: json where
  "cycle_rB = JObj [(''@id'', JStr ''rB''), (''@type'', JStr ''Specialization''),
                    (''general'', JObj [(''@id'', JStr ''A'')])]"

definition cycle_target :: json where
  "cycle_target = JObj [(''@id'', JStr ''T''), (''name'', JStr ''Target'')]"

definition cycle_state :: state where
  "cycle_state = \<lparr>ELEMENT_CACHE = [demo_url \<mapsto>
        [(JStr ''A'', cycle_A), (JStr ''B'', cycle_B), (JStr ''rA'', cycle_rA), (JStr ''rB'', cycle_rB)]],
      element_memo = [], kind_memo = [], requests = []\<rparr>"

section \<open>Elements annotated by metadata\<close>

text \<open>
  \<^verbatim>\<open>get_metadatausage_annotatedElement_ids\<close>. What one matching usage contributes:
  the truthy \<^verbatim>\<open>'@id'\<close>s of the items of a non-empty \<^verbatim>\<open>annotatedElement\<close> list (or
  the one of a dictionary), and the usage's own \<^verbatim>\<open>'@id'\<close> when \<^verbatim>\<open>annotatedElement\<close>
  is missing or falsy.
\<close>

fun annotated_ids :: "json list \<Rightarrow> py_error + json list" where
  "annotated_ids [] = Inr []"
| "annotated_ids (annotated # rest) =
     (case py_get annotated ''@id'' of
        Inl e \<Rightarrow> Inl e
      | Inr annotated_id \<Rightarrow>
          (case annotated_ids rest of
             Inl e \<Rightarrow> Inl e
           | Inr ids \<Rightarrow> Inr (if truthy annotated_id then annotated_id # ids else ids)))"

definition usage_contribution :: "json \<Rightarrow> py_error + json list" where
  "usage_contribution item =
     (case py_get_default item ''annotatedElement'' (JList []) of
        Inl e \<Rightarrow> Inl e
      | Inr annotated_elements \<Rightarrow>
          if truthy annotated_elements then
            (case annotated_elements of
               JList xs \<Rightarrow> annotated_ids xs
             | JObj kvs \<Rightarrow>
                 (case py_get annotated_elements ''@id'' of
                    Inl e \<Rightarrow> Inl e
                  | Inr annotated_id \<Rightarrow> Inr (if truthy annotated_id then [annotated_id] else []))
             | _ \<Rightarrow> Inr [])
          else
            (case py_get item ''@id'' of Inl e \<Rightarrow> Inl e | Inr own_id \<Rightarrow> Inr [own_id]))"

text \<open>\<^verbatim>\<open>results[key].append(...)\<close> for each of \<open>ids\<close>: the dictionary has each key once.\<close>

definition results_append :: "string \<Rightarrow> json list \<Rightarrow> (string \<times> json list) list \<Rightarrow> (string \<times> json list) list" where
  "results_append key ids results = map (\<lambda>(k, old). if k = key then (k, old @ ids) else (k, old)) results"

text \<open>The loop over the requested definitions for one usage, and the loop over the usages.\<close>

fun definition_loop ::
  "json \<Rightarrow> json \<Rightarrow> (string \<times> json) list \<Rightarrow> (string \<times> json list) list \<Rightarrow> py_error + (string \<times> json list) list" where
  "definition_loop item metadata_id [] results = Inr results"
| "definition_loop item metadata_id ((key, metadefinition_id) # rest) results =
     (if py_eq metadata_id metadefinition_id then
        (case usage_contribution item of
           Inl e \<Rightarrow> Inl e
         | Inr ids \<Rightarrow> definition_loop item metadata_id rest (results_append key ids results))
      else definition_loop item metadata_id rest results)"

definition metadata_id_of :: "json \<Rightarrow> py_error + json" where
  "metadata_id_of item =
     (case py_get item ''metadataDefinition'' of
        Inl e \<Rightarrow> Inl e
      | Inr metadata \<Rightarrow>
          (case metadata of JObj kvs \<Rightarrow> py_get metadata ''@id'' | _ \<Rightarrow> Inr (JStr ''Unknown'')))"

fun usage_loop ::
  "json list \<Rightarrow> (string \<times> json) list \<Rightarrow> (string \<times> json list) list \<Rightarrow> py_error + (string \<times> json list) list" where
  "usage_loop [] metadefinition_dict results = Inr results"
| "usage_loop (item # items) metadefinition_dict results =
     (case metadata_id_of item of
        Inl e \<Rightarrow> Inl e
      | Inr metadata_id \<Rightarrow>
          (case definition_loop item metadata_id metadefinition_dict results of
             Inl e \<Rightarrow> Inl e
           | Inr results' \<Rightarrow> usage_loop items metadefinition_dict results'))"

text \<open>
  The function in \<^verbatim>\<open>mbse4u_sysmlv2_api_helpers.py\<close> (which prints the length of what
  the query returned) and in \<^verbatim>\<open>api/sysmod_api_helpers.py\<close> (whose query is memoized).
\<close>

definition get_metadatausage_annotatedElement_ids ::
  "remote \<Rightarrow> string \<Rightarrow> string \<Rightarrow> string \<Rightarrow> (string \<times> json) list \<Rightarrow> (string \<times> json list) list exec" where
  "get_metadatausage_annotatedElement_ids remote server_url project_id commit_id metadefinition_dict =
     and_then (get_elements_byKind_fromAPI remote server_url project_id commit_id (JStr ''MetadataUsage''))
       (\<lambda>metadata_usages.
     and_then (lift (py_len metadata_usages)) (\<lambda>_.
     and_then (lift (py_iter metadata_usages)) (\<lambda>items.
       lift (usage_loop items metadefinition_dict (map (\<lambda>(k, d). (k, [])) metadefinition_dict)))))"

definition get_metadatausage_annotatedElement_ids_api ::
  "remote \<Rightarrow> string \<Rightarrow> string \<Rightarrow> string \<Rightarrow> (string \<times> json) list \<Rightarrow> (string \<times> json list) list exec" where
  "get_metadatausage_annotatedElement_ids_api remote server_url project_id commit_id metadefinition_dict =
     and_then (get_elements_byKind_fromAPI_api remote server_url project_id commit_id (JStr ''MetadataUsage''))
       (\<lambda>metadata_usages.
     and_then (lift (py_iter metadata_usages)) (\<lambda>items.
       lift (usage_loop items metadefinition_dict (map (\<lambda>(k, d). (k, [])) metadefinition_dict))))"

text \<open>
  The specification's words: a usage matches a definition id when its
  \<^verbatim>\<open>metadataDefinition\<close> reference has that id; it stands for the ids in its
  \<^verbatim>\<open>annotatedElement\<close> list or, if that list is empty, for its own id. \<open>field\<close> reads a
  field of an element (\<open>JNull\<close> when it is missing).
\<close>

definition field :: "json \<Rightarrow> string \<Rightarrow> json" where
  "field el k = (case el of JObj kvs \<Rightarrow> (case map_of kvs k of None \<Rightarrow> JNull | Some v \<Rightarrow> v) | _ \<Rightarrow> JNull)"

definition spec_annotated_ids :: "json \<Rightarrow> json list" where
  "spec_annotated_ids usage =
     (case field usage ''annotatedElement'' of
        JList (x # xs) \<Rightarrow> map (\<lambda>r. field r ''@id'') (x # xs)
      | _ \<Rightarrow> [field usage ''@id''])"

definition spec_matches :: "json \<Rightarrow> json \<Rightarrow> bool" where
  "spec_matches definition_id usage = py_eq (field (field usage ''metadataDefinition'') ''@id'') definition_id"

definition spec_annotatedElementIds :: "json list \<Rightarrow> (string \<times> json) list \<Rightarrow> (string \<times> json list) list" where
  "spec_annotatedElementIds usages defIdsByKey =
     map (\<lambda>(key, definition_id).
            (key, concat (map spec_annotated_ids (filter (spec_matches definition_id) usages))))
       defIdsByKey"

text \<open>
  A well-formed metadata usage: a dictionary whose \<^verbatim>\<open>metadataDefinition\<close> is a
  reference and whose \<^verbatim>\<open>annotatedElement\<close>, if present, is a list of references with
  (truthy) ids.
\<close>

definition is_reference :: "json \<Rightarrow> bool" where
  "is_reference r = (case r of JObj kvs \<Rightarrow> (case map_of kvs ''@id'' of Some i \<Rightarrow> truthy i | None \<Rightarrow> False) | _ \<Rightarrow> False)"

definition wf_usage :: "json \<Rightarrow> bool" where
  "wf_usage usage =
     (case usage of
        JObj kvs \<Rightarrow>
          (case map_of kvs ''metadataDefinition'' of Some (JObj m) \<Rightarrow> True | _ \<Rightarrow> False)
          \<and> (case map_of kvs ''annotatedElement'' of
                None \<Rightarrow> True
              | Some (JList xs) \<Rightarrow> list_all is_reference xs
              | Some _ \<Rightarrow> False)
      | _ \<Rightarrow> False)"

text \<open>
  Three metadata usages: one of the definition \<open>D\<close> with an empty \<^verbatim>\<open>annotatedElement\<close>
  list, one of \<open>D\<close> annotating two elements, one of another definition; and a remote
  that answers every query with them.
\<close>

definition demo_usages :: "json list" where
  "demo_usages =
     [JObj [(''@id'', JStr ''u1''), (''@type'', JStr ''MetadataUsage''),
            (''metadataDefinition'', JObj [(''@id'', JStr ''D'')]), (''annotatedElement'', JList [])],
      JObj [(''@id'', JStr ''u2''), (''@type'', JStr ''MetadataUsage''),
            (''metadataDefinition'', JObj [(''@id'', JStr ''D'')]),
            (''annotatedElement'', JList [JObj [(''@id'', JStr ''e1'')], JObj [(''@id'', JStr ''e2'')]])],
      JObj [(''@id'', JStr ''u3''), (''@type'', JStr ''MetadataUsage''),
            (''metadataDefinition'', JObj [(''@id'', JStr ''other'')]),
            (''annotatedElement'', JList [JObj [(''@id'', JStr ''e3'')]])]]"

definition remote_usages :: remote where
  "remote_usages n rq = Response 200 (Some (JList demo_usages))"

section \<open>Feature values\<close>

text \<open>
  \<^verbatim>\<open>get_elements_fromAPI\<close>: each id is resolved inside its own \<^verbatim>\<open>try\<close>; an exception
  skips the id, a list result is spliced in, anything else (\<^verbatim>\<open>None\<close> included) is
  appended.
\<close>

fun get_elements_fromAPI :: "remote \<Rightarrow> string \<Rightarrow> json list \<Rightarrow> json list \<Rightarrow> json list exec" where
  "get_elements_fromAPI remote query_url [] elements = ret elements"
| "get_elements_fromAPI remote query_url (element_id # rest) elements =
     (\<lambda>st. case get_element_fromAPI remote query_url element_id st of
        (Inl e, st') \<Rightarrow> get_elements_fromAPI remote query_url rest elements st'
      | (Inr element_json, st') \<Rightarrow>
          (case element_json of
             JList xs \<Rightarrow> get_elements_fromAPI remote query_url rest (elements @ xs) st'
           | _ \<Rightarrow> get_elements_fromAPI remote query_url rest (elements @ [element_json]) st'))"

text \<open>
  \<^verbatim>\<open>get_attribute_value_from_usage\<close>. \<open>interpret_value\<close> is the block under
  \<^verbatim>\<open>if value:\<close>; it yields \<open>Some v\<close> where the function returns \<open>v\<close> and \<open>None\<close>
  where the loop over the owned relationships goes on.
\<close>

definition interpret_value :: "remote \<Rightarrow> string \<Rightarrow> json \<Rightarrow> json option exec" where
  "interpret_value remote query_url val =
     and_then (lift (py_get val ''@id'')) (\<lambda>_.
     and_then (lift (py_contains ''value'' val)) (\<lambda>has_value.
       if has_value then and_then (lift (py_subscript val ''value'')) (\<lambda>v. ret (Some v))
       else
         and_then (lift (py_get val ''@type'')) (\<lambda>ty.
         and_then
           (if py_eq ty (JStr ''FeatureReferenceExpression'') then
              and_then (lift (py_get val ''referent'')) (\<lambda>referent.
              and_then (lift (py_get referent ''@id'')) (\<lambda>referent_id.
              and_then (get_element_fromAPI remote query_url referent_id) (\<lambda>enumeration.
                if truthy enumeration
                then and_then (lift (py_get enumeration ''declaredName'')) (\<lambda>n. ret (Some n))
                else ret None)))
            else ret None)
           (\<lambda>returned.
              case returned of
                Some v \<Rightarrow> ret (Some v)
              | None \<Rightarrow>
                  and_then (lift (py_get val ''@type'')) (\<lambda>ty'.
                    if py_eq ty' (JStr ''EnumerationUsage'')
                    then and_then (lift (py_get val ''name'')) (\<lambda>n. ret (Some n))
                    else ret None)))))"

fun relationship_loop :: "remote \<Rightarrow> string \<Rightarrow> json list \<Rightarrow> json exec" where
  "relationship_loop remote query_url [] = ret JNull"
| "relationship_loop remote query_url (rel_ref # rest) =
     and_then (lift (py_subscript rel_ref ''@id'')) (\<lambda>rel_id.
     and_then (get_element_fromAPI remote query_url rel_id) (\<lambda>rel.
     and_then (lift (py_get rel ''@id'')) (\<lambda>_.
     and_then (lift (py_get rel ''@type'')) (\<lambda>ty.
       if truthy rel \<and> py_eq ty (JStr ''FeatureValue'') then
         and_then (lift (py_get rel ''value'')) (\<lambda>value_id.
           if truthy value_id then
             and_then (lift (py_get value_id ''@id'')) (\<lambda>vid.
             and_then (get_element_fromAPI remote query_url vid) (\<lambda>value0.
             and_then (lift (py_get value0 ''@type'')) (\<lambda>vty.
             and_then
               (if py_eq vty (JStr ''FeatureChainExpression'') then
                  and_then (lift (py_get value0 ''targetFeature'')) (\<lambda>target.
                  and_then (lift (py_get target ''@id'')) (\<lambda>target_id.
                    get_element_fromAPI remote query_url target_id))
                else ret value0)
               (\<lambda>val.
                  if truthy val then
                    and_then (interpret_value remote query_url val) (\<lambda>returned.
                      case returned of
                        Some v \<Rightarrow> ret v
                      | None \<Rightarrow> relationship_loop remote query_url rest)
                  else relationship_loop remote query_url rest))))
           else relationship_loop remote query_url rest)
       else relationship_loop remote query_url rest))))"

definition get_attribute_value_from_usage :: "remote \<Rightarrow> string \<Rightarrow> json \<Rightarrow> json exec" where
  "get_attribute_value_from_usage remote query_url attr_usage =
     and_then (lift (py_get attr_usage ''@id'')) (\<lambda>_.
     and_then (lift (py_get_default attr_usage ''ownedRelationship'' (JList []))) (\<lambda>rels.
     and_then (lift (py_len rels)) (\<lambda>_.
     and_then (lift (py_iter rels)) (\<lambda>rel_refs.
       relationship_loop remote query_url rel_refs))))"

text \<open>
  \<^verbatim>\<open>get_feature\<close>: the ids of the owner's direct features of the kind (through the
  fixed table from kind to edge role), the scan of the resolved features for one of the
  kind and name, then the scan of \<^verbatim>\<open>owner.get('inheritedFeature')\<close>, whose length is
  printed first.
\<close>

definition feature_kind_mapping :: "string \<Rightarrow> string option" where
  "feature_kind_mapping feature_kind =
     map_of [(''AttributeUsage'', ''ownedFeature''), (''PartUsage'', ''ownedPart''),
             (''ItemUsage'', ''ownedItem''), (''PortUsage'', ''ownedPort''),
             (''ReferenceUsage'', ''ownedReference'')] feature_kind"

fun ids_of_refs :: "json list \<Rightarrow> py_error + json list" where
  "ids_of_refs [] = Inr []"
| "ids_of_refs (p # ps) =
     (case py_subscript p ''@id'' of
        Inl e \<Rightarrow> Inl e
      | Inr i \<Rightarrow> (case ids_of_refs ps of Inl e \<Rightarrow> Inl e | Inr ids \<Rightarrow> Inr (i # ids)))"

definition feature_ids_of :: "json \<Rightarrow> string \<Rightarrow> py_error + json list" where
  "feature_ids_of owner feature_kind =
     (case (case feature_kind_mapping feature_kind of
              None \<Rightarrow> (case owner of JObj kvs \<Rightarrow> Inr (JList []) | _ \<Rightarrow> Inl AttributeError)
            | Some role \<Rightarrow> py_get_default owner role (JList [])) of
        Inl e \<Rightarrow> Inl e
      | Inr refs \<Rightarrow> (case py_iter refs of Inl e \<Rightarrow> Inl e | Inr ps \<Rightarrow> ids_of_refs ps))"

fun find_usage :: "string \<Rightarrow> string \<Rightarrow> json list \<Rightarrow> py_error + json option" where
  "find_usage feature_kind feature_name [] = Inr None"
| "find_usage feature_kind feature_name (usage # rest) =
     (case py_get usage ''@type'' of
        Inl e \<Rightarrow> Inl e
      | Inr ty \<Rightarrow>
          if py_eq (JStr feature_kind) ty then
            (case py_get usage ''name'' of
               Inl e \<Rightarrow> Inl e
             | Inr n \<Rightarrow>
                 if py_eq n (JStr feature_name) then Inr (Some usage)
                 else find_usage feature_kind feature_name rest)
          else find_usage feature_kind feature_name rest)"

fun inherited_loop :: "remote \<Rightarrow> string \<Rightarrow> string \<Rightarrow> string \<Rightarrow> json list \<Rightarrow> json exec" where
  "inherited_loop remote query_url feature_kind feature_name [] = ret JNull"
| "inherited_loop remote query_url feature_kind feature_name (inherited_feature_id # rest) =
     and_then (lift (py_get inherited_feature_id ''@id'')) (\<lambda>i.
     and_then (get_element_fromAPI remote query_url i) (\<lambda>inherited_feature.
     and_then (lift (py_get inherited_feature ''@type'')) (\<lambda>ty.
       if py_eq (JStr feature_kind) ty then
         and_then (lift (py_get inherited_feature ''name'')) (\<lambda>n.
           if py_eq n (JStr feature_name) then ret inherited_feature
           else inherited_loop remote query_url feature_kind feature_name rest)
       else inherited_loop remote query_url feature_kind feature_name rest)))"

definition get_feature ::
  "remote \<Rightarrow> string \<Rightarrow> string \<Rightarrow> string \<Rightarrow> json \<Rightarrow> string \<Rightarrow> string \<Rightarrow> json exec" where
  "get_feature remote server_url project_id commit_id owner feature_name feature_kind =
     and_then (lift (py_get owner ''@id'')) (\<lambda>_.
     and_then (lift (feature_ids_of owner feature_kind)) (\<lambda>feature_ids.
     and_then (get_elements_fromAPI remote (get_commit_url server_url project_id commit_id) feature_ids [])
       (\<lambda>owned_usages.
     and_then (lift (find_usage feature_kind feature_name owned_usages)) (\<lambda>found.
       case found of
         Some usage \<Rightarrow> ret usage
       | None \<Rightarrow>
           and_then (lift (py_get owner ''inheritedFeature'')) (\<lambda>inherited_features_ids.
           and_then (lift (py_len inherited_features_ids)) (\<lambda>_.
           and_then (lift (py_iter inherited_features_ids)) (\<lambda>refs.
             inherited_loop remote (get_commit_url server_url project_id commit_id)
               feature_kind feature_name refs)))))))"

definition get_feature_value ::
  "remote \<Rightarrow> string \<Rightarrow> string \<Rightarrow> string \<Rightarrow> json \<Rightarrow> string \<Rightarrow> string \<Rightarrow> json exec" where
  "get_feature_value remote server_url project_id commit_id owner feature_name feature_kind =
     and_then (lift (py_get owner ''@id'')) (\<lambda>_.
     and_then (get_feature remote server_url project_id commit_id owner feature_name feature_kind)
       (\<lambda>feature.
          if \<not> truthy feature then ret JNull
          else get_attribute_value_from_usage remote (get_commit_url server_url project_id commit_id) feature))"

text \<open>
  An owner with one direct attribute named \<open>cost\<close> and no \<^verbatim>\<open>inheritedFeature\<close> key, and
  a remote that serves that attribute.
\<close>

definition demo_owner :: json where
  "demo_owner = JObj [(''@id'', JStr ''o1''), (''@type'', JStr ''PartUsage''),
                      (''ownedFeature'', JList [JObj [(''@id'', JStr ''f1'')]])]"

definition demo_feature :: json where
  "demo_feature = JObj [(''@id'', JStr ''f1''), (''@type'', JStr ''AttributeUsage''), (''name'', JStr ''cost'')]"

definition remote_feature :: remote where
  "remote_feature n rq = Response 200 (Some demo_feature)"

text \<open>
  An attribute usage owning one relationship \<open>r1\<close>; a FeatureValue relationship whose
  value is \<open>v1\<close>; a remote that answers every request with status 404, and one that
  serves \<open>r1\<close> and answers every other request with status 404.
\<close>

definition demo_attr :: json where
  "demo_attr = JObj [(''@id'', JStr ''attr1''), (''@type'', JStr ''AttributeUsage''),
                     (''name'', JStr ''risk''), (''ownedRelationship'', JList [JObj [(''@id'', JStr ''r1'')]])]"

definition demo_feature_value :: json where
  "demo_feature_value = JObj [(''@id'', JStr ''r1''), (''@type'', JStr ''FeatureValue''),
                              (''value'', JObj [(''@id'', JStr ''v1'')])]"

definition remote_not_found :: remote where
  "remote_not_found n rq = Response 404 None"

definition remote_value_missing :: remote where
  "remote_value_missing n rq =
     (if rq = Get (demo_url @ ''/elements/r1'') then Response 200 (Some demo_feature_value)
      else Response 404 None)"

text \<open>Remotes that serve \<open>r1\<close> and, as \<open>v1\<close>, a literal 42 or an enumeration usage HIGH.\<close>

definition remote_literal :: remote where
  "remote_literal n rq =
     (if rq = Get (demo_url @ ''/elements/r1'') then Response 200 (Some demo_feature_value)
      else Response 200 (Some (JObj [(''@id'', JStr ''v1''), (''@type'', JStr ''LiteralInteger''),
                                       (''value'', JInt 42)])))"

definition remote_enumeration :: remote where
  "remote_enumeration n rq =
     (if rq = Get (demo_url @ ''/elements/r1'') then Response 200 (Some demo_feature_value)
      else Response 200 (Some (JObj [(''@id'', JStr ''v1''), (''@type'', JStr ''EnumerationUsage''),
                                       (''name'', JStr ''HIGH'')])))"

text \<open>
  Resolving \<open>i\<close> in the context \<open>q\<close> yields \<open>e\<close>, now and after any further resolve
  calls: the element is in the cache, or the remote keeps serving it.
\<close>

definition resolvable :: "remote \<Rightarrow> state \<Rightarrow> string \<Rightarrow> json \<Rightarrow> json \<Rightarrow> bool" where
  "resolvable remote st q i e =
     (\<forall>calls. fst (get_element_fromAPI remote q i (resolve_all remote calls st)) = Inr e)"

text \<open>A remote that serves the four elements of the cycle by their ids.\<close>

definition remote_cycle :: remote where
  "remote_cycle n rq =
     (if rq = Get (demo_url @ ''/elements/A'') then Response 200 (Some cycle_A)
      else if rq = Get (demo_url @ ''/elements/B'') then Response 200 (Some cycle_B)
      else if rq = Get (demo_url @ ''/elements/rA'') then Response 200 (Some cycle_rA)
      else if rq = Get (demo_url @ ''/elements/rB'') then Response 200 (Some cycle_rB)
      else Response 404 None)"

section \<open>Properties of the element cache\<close>

lemma py_key_idem [simp]: "py_key (py_key k) = py_key k"
  by (cases k) auto

lemma cache_get_put:
  "cache_get (cache_put q i e st) q' k = (if q' = q \<and> py_key k = py_key i then Some e else cache_get st q' k)"
  by (auto simp: cache_get_def cache_put_def Let_def update_conv' split: option.splits)

lemma cache_get_requests [simp]: "cache_get (st\<lparr>requests := r\<rparr>) q k = cache_get st q k"
  by (simp add: cache_get_def)

lemma cache_get_memo [simp]: "cache_get (st\<lparr>element_memo := r\<rparr>) q k = cache_get st q k"
  by (simp add: cache_get_def)

lemma cache_put_fields [simp]:
  "element_memo (cache_put q i e st) = element_memo st"
  "requests (cache_put q i e st) = requests st"
  "kind_memo (cache_put q i e st) = kind_memo st"
  by (simp_all add: cache_put_def Let_def)

lemma request_element_cases:
  assumes "request_element remote q i st = (r, st')"
  shows "((\<forall>q' k. cache_get st' q' k = cache_get st q' k) \<and> element_memo st' = element_memo st \<and> (\<forall>e. r = Inr e \<longrightarrow> \<not> truthy e))
       \<or> (\<exists>e. r = Inr e \<and> truthy e \<and> hashable i \<and> element_memo st' = element_memo st \<and>
            (\<forall>q' k. cache_get st' q' k = (if q' = q \<and> py_key k = py_key i then Some e else cache_get st q' k)))"
proof (cases i)
  case (JStr s)
  obtain resp st1 where snd1: "send remote (Get (q @ ''/elements/'' @ s)) st = (resp, st1)"
    by (cases "send remote (Get (q @ ''/elements/'' @ s)) st") auto
  then have st1: "st1 = st\<lparr>requests := requests st @ [Get (q @ ''/elements/'' @ s)]\<rparr>"
    by (auto simp: send_def)
  show ?thesis
    using assms snd1 unfolding JStr request_element_def
    by (auto simp: st1 Let_def cache_get_put split: response.splits option.splits if_splits)
qed (use assms in \<open>auto simp: request_element_def\<close>)

lemma element_try_body_hit:
  assumes "stored st q i e"
  shows "element_try_body remote q i st = (Inr e, st)"
proof -
  from assms obtain entry where "ELEMENT_CACHE st q = Some entry" "map_of entry (py_key i) = Some e"
    by (auto simp: stored_def cache_get_def split: option.splits)
  then show ?thesis using assms
    by (simp add: stored_def element_try_body_def)
qed

lemma element_try_body_effect:
  assumes "element_try_body remote q i st = (r, st')"
  shows "element_memo st' = element_memo st \<and>
     (((\<forall>q' k. cache_get st' q' k = cache_get st q' k) \<and>
        (\<forall>e. r = Inr e \<longrightarrow> (if truthy e then stored st q i e \<and> st' = st
                               else (\<forall>c. cache_get st q i = Some c \<longrightarrow> \<not> truthy c))))
      \<or> (\<exists>e. r = Inr e \<and> truthy e \<and> hashable i \<and> (\<forall>c. cache_get st q i = Some c \<longrightarrow> \<not> truthy c) \<and>
            (\<forall>q' k. cache_get st' q' k = (if q' = q \<and> py_key k = py_key i then Some e else cache_get st q' k))))"
proof -
  have req: ?thesis
    if "request_element remote q i st = (r, st')" "\<forall>c. cache_get st q i = Some c \<longrightarrow> \<not> truthy c"
    using request_element_cases[OF that(1)] that(2) by (elim disjE) auto
  show ?thesis
  proof (cases "ELEMENT_CACHE st q")
    case None
    then have "request_element remote q i st = (r, st')" "cache_get st q i = None"
      using assms by (simp_all add: element_try_body_def cache_get_def)
    then show ?thesis by (intro req) simp_all
  next
    case (Some entry)
    show ?thesis
    proof (cases "hashable i")
      case False
      then have "r = Inl TypeError" "st' = st"
        using assms Some by (simp_all add: element_try_body_def)
      then show ?thesis by simp
    next
      case True
      show ?thesis
      proof (cases "map_of entry (py_key i)")
        case None
        then have "request_element remote q i st = (r, st')" "cache_get st q i = None"
          using assms Some True by (simp_all add: element_try_body_def cache_get_def)
        then show ?thesis by (intro req) simp_all
      next
        case (Some c)
        note c = this
        show ?thesis
        proof (cases "truthy c")
          case True
          then have "r = Inr c" "st' = st" "stored st q i c"
            using assms \<open>ELEMENT_CACHE st q = Some entry\<close> \<open>hashable i\<close> c
            by (simp_all add: element_try_body_def stored_def cache_get_def)
          then show ?thesis using True by simp
        next
          case False
          then have "request_element remote q i st = (r, st')" "cache_get st q i = Some c"
            using assms \<open>ELEMENT_CACHE st q = Some entry\<close> \<open>hashable i\<close> c
            by (simp_all add: element_try_body_def cache_get_def)
          then show ?thesis using False by (intro req) simp_all
        qed
      qed
    qed
  qed
qed

lemma map_of_filter_neq:
  "map_of (filter (\<lambda>p. fst p \<noteq> key) memo) k = (if k = key then None else map_of memo k)"
  by (induction memo) auto

lemma map_of_lru_hit:
  "map_of (lru_hit key v memo) k = (if k = key then Some v else map_of memo k)"
  by (simp add: lru_hit_def map_of_filter_neq)

lemma map_of_take_Some:
  "map_of (take n xs) k = Some v \<Longrightarrow> map_of xs k = Some v"
proof (induction xs arbitrary: n)
  case Nil
  then show ?case by simp
next
  case (Cons x xs)
  then show ?case by (cases n) (auto split: if_splits)
qed

lemma map_of_lru_store:
  "map_of (lru_store m key v memo) k = Some w \<Longrightarrow> (k = key \<and> w = v) \<or> map_of memo k = Some w"
  unfolding lru_store_def
  by (drule map_of_take_Some) (auto split: if_splits)

lemma memo_backedD:
  "memo_backed st \<Longrightarrow> map_of (element_memo st) (q, py_key k) = Some v \<Longrightarrow>
     (if truthy v then cache_get st q k = Some v else (\<forall>c. cache_get st q k = Some c \<longrightarrow> \<not> truthy c))"
  unfolding memo_backed_def by blast

lemma memo_backedI:
  assumes "\<And>q k v. map_of (element_memo st) (q, py_key k) = Some v \<Longrightarrow>
     (if truthy v then cache_get st q k = Some v else (\<forall>c. cache_get st q k = Some c \<longrightarrow> \<not> truthy c))"
  shows "memo_backed st"
  unfolding memo_backed_def using assms by blast

lemma cache_get_key_cong: "py_key k = py_key i \<Longrightarrow> cache_get s q k = cache_get s q i"
  unfolding cache_get_def by metis

lemma get_element_hit:
  assumes "hashable i" "map_of (element_memo st) (q, py_key i) = Some v"
  shows "get_element_fromAPI remote q i st = (Inr v, st\<lparr>element_memo := lru_hit (q, py_key i) v (element_memo st)\<rparr>)"
  using assms by (simp add: get_element_fromAPI_def)

lemma get_element_miss:
  assumes "hashable i" "map_of (element_memo st) (q, py_key i) = None"
    and "element_try_body remote q i st = (r, st')"
  shows "get_element_fromAPI remote q i st =
     (case r of Inl e \<Rightarrow> (Inl e, st')
      | Inr v \<Rightarrow> (Inr v, st'\<lparr>element_memo := lru_store 2048 (q, py_key i) v (element_memo st')\<rparr>))"
  using assms by (simp add: get_element_fromAPI_def split: sum.splits)

lemma get_element_unhashable:
  "\<not> hashable i \<Longrightarrow> get_element_fromAPI remote q i st = (Inl TypeError, st)"
  by (simp add: get_element_fromAPI_def)

lemma memo_backed_step:
  assumes "memo_backed st"
  shows "memo_backed (snd (get_element_fromAPI remote q i st))"
proof (cases "hashable i")
  case False
  then show ?thesis using assms by (simp add: get_element_unhashable)
next
  case True
  show ?thesis
  proof (cases "map_of (element_memo st) (q, py_key i)")
    case (Some v)
    show ?thesis
      unfolding get_element_hit[OF True Some] snd_conv
    proof (rule memo_backedI)
      fix q' k w
      assume "map_of (element_memo (st\<lparr>element_memo := lru_hit (q, py_key i) v (element_memo st)\<rparr>)) (q', py_key k) = Some w"
      then have "map_of (element_memo st) (q', py_key k) = Some w"
        using Some by (simp add: map_of_lru_hit split: if_splits)
      from memo_backedD[OF assms this]
      show "if truthy w
          then cache_get (st\<lparr>element_memo := lru_hit (q, py_key i) v (element_memo st)\<rparr>) q' k = Some w
          else \<forall>c. cache_get (st\<lparr>element_memo := lru_hit (q, py_key i) v (element_memo st)\<rparr>) q' k = Some c \<longrightarrow> \<not> truthy c"
        by simp
    qed
  next
    case None
    obtain r st' where body: "element_try_body remote q i st = (r, st')"
      by (cases "element_try_body remote q i st") auto
    note eff = element_try_body_effect[OF body]
    have memo': "element_memo st' = element_memo st" using eff by blast
    show ?thesis
    proof (cases r)
      case (Inl e)
      with eff have same: "\<And>q' k. cache_get st' q' k = cache_get st q' k"
        by simp
      have "snd (get_element_fromAPI remote q i st) = st'"
        using get_element_miss[OF True None body] Inl by simp
      moreover have "memo_backed st'"
        by (rule memo_backedI) (use memo_backedD[OF assms] memo' same in simp)
      ultimately show ?thesis by simp
    next
      case (Inr v)
      have res: "snd (get_element_fromAPI remote q i st) = st'\<lparr>element_memo := lru_store 2048 (q, py_key i) v (element_memo st')\<rparr>"
        using get_element_miss[OF True None body] Inr by simp
      have new_ok: "if truthy v then cache_get st' q i = Some v else (\<forall>c. cache_get st' q i = Some c \<longrightarrow> \<not> truthy c)"
        using eff unfolding Inr by (auto simp: stored_def)
      have old_ok: "cache_get st' q' k = cache_get st q' k" if "\<not> (q' = q \<and> py_key k = py_key i)" for q' k
        using eff that unfolding Inr by auto
      show ?thesis
        unfolding res
      proof (rule memo_backedI)
        fix q' k w
        assume "map_of (element_memo (st'\<lparr>element_memo := lru_store 2048 (q, py_key i) v (element_memo st')\<rparr>)) (q', py_key k) = Some w"
        then have "map_of (lru_store 2048 (q, py_key i) v (element_memo st)) (q', py_key k) = Some w"
          using memo' by simp
        from map_of_lru_store[OF this]
        consider (new) "q' = q" "py_key k = py_key i" "w = v"
          | (old) "map_of (element_memo st) (q', py_key k) = Some w" "\<not> (q' = q \<and> py_key k = py_key i)"
          using None by (metis option.distinct(1) prod.inject)
        then have "if truthy w then cache_get st' q' k = Some w else (\<forall>c. cache_get st' q' k = Some c \<longrightarrow> \<not> truthy c)"
        proof cases
          case new
          show ?thesis using new_ok unfolding new(1,3) cache_get_key_cong[OF new(2)] .
        next
          case old
          show ?thesis using memo_backedD[OF assms old(1)] unfolding old_ok[OF old(2)] .
        qed
        then show "if truthy w
           then cache_get (st'\<lparr>element_memo := lru_store 2048 (q, py_key i) v (element_memo st')\<rparr>) q' k = Some w
           else \<forall>c. cache_get (st'\<lparr>element_memo := lru_store 2048 (q, py_key i) v (element_memo st')\<rparr>) q' k = Some c \<longrightarrow> \<not> truthy c"
          by simp
      qed
    qed
  qed
qed

lemma stored_cong:
  assumes "stored st q i e" "\<And>c. truthy c \<Longrightarrow> cache_get st q i = Some c \<Longrightarrow> cache_get st' q i = Some c"
  shows "stored st' q i e"
  using assms by (simp add: stored_def)

lemma element_try_body_keeps:
  assumes "element_try_body remote q i st = (r, st')" "truthy c" "cache_get st q' k = Some c"
  shows "cache_get st' q' k = Some c"
proof -
  note eff = element_try_body_effect[OF assms(1)]
  show ?thesis
  proof (cases "q' = q \<and> py_key k = py_key i")
    case True
    then have "cache_get st q i = Some c"
      using assms(3) cache_get_key_cong[of k i st q] by simp
    then have "\<not> (\<forall>c. cache_get st q i = Some c \<longrightarrow> \<not> truthy c)"
      using assms(2) by blast
    with eff have "\<forall>q' k. cache_get st' q' k = cache_get st q' k" by blast
    then show ?thesis using assms(3) by simp
  next
    case False
    with eff have "cache_get st' q' k = cache_get st q' k" by auto
    then show ?thesis using assms(3) by simp
  qed
qed

lemma element_try_body_requests:
  assumes "stored st q i e"
  shows "requests (snd (element_try_body remote q i st)) = requests st"
  by (simp add: element_try_body_hit[OF assms])

lemma get_element_keeps:
  assumes "truthy c" "cache_get st q' k = Some c"
  shows "cache_get (snd (get_element_fromAPI remote q i st)) q' k = Some c"
proof (cases "hashable i")
  case False
  then show ?thesis using assms by (simp add: get_element_unhashable)
next
  case True
  show ?thesis
  proof (cases "map_of (element_memo st) (q, py_key i)")
    case (Some v)
    show ?thesis unfolding get_element_hit[OF True Some] using assms by simp
  next
    case None
    obtain r st' where body: "element_try_body remote q i st = (r, st')"
      by (cases "element_try_body remote q i st") auto
    have "cache_get st' q' k = Some c"
      by (rule element_try_body_keeps[OF body assms])
    then show ?thesis
      unfolding get_element_miss[OF True None body] by (cases r) simp_all
  qed
qed

lemma stored_step:
  assumes "stored st q' i' e"
  shows "stored (snd (get_element_fromAPI remote q i st)) q' i' e"
  using assms get_element_keeps[of e st q' i' remote q i] by (simp add: stored_def)

lemma get_element_success_stored:
  assumes "memo_backed st" "get_element_fromAPI remote q i st = (Inr e, st')" "truthy e"
  shows "stored st' q i e"
proof -
  have h: "hashable i"
    using assms(2) by (cases "hashable i") (simp_all add: get_element_unhashable)
  show ?thesis
  proof (cases "map_of (element_memo st) (q, py_key i)")
    case (Some v)
    from assms(2) have "v = e" "st' = st\<lparr>element_memo := lru_hit (q, py_key i) v (element_memo st)\<rparr>"
      unfolding get_element_hit[OF h Some] by auto
    moreover have "cache_get st q i = Some e"
      using memo_backedD[OF assms(1) Some] assms(3) \<open>v = e\<close> by simp
    ultimately show ?thesis using h assms(3) by (simp add: stored_def)
  next
    case None
    obtain r st1 where body: "element_try_body remote q i st = (r, st1)"
      by (cases "element_try_body remote q i st") auto
    from assms(2) have r: "r = Inr e" and st': "st' = st1\<lparr>element_memo := lru_store 2048 (q, py_key i) e (element_memo st1)\<rparr>"
      unfolding get_element_miss[OF h None body] by (cases r; simp)+
    from element_try_body_effect[OF body] r assms(3) have "cache_get st1 q i = Some e"
      by (auto simp: stored_def)
    then show ?thesis using h assms(3) st' by (simp add: stored_def)
  qed
qed

lemma get_element_stored_hit:
  assumes "memo_backed st" "stored st q i e"
  shows "fst (get_element_fromAPI remote q i st) = Inr e
       \<and> requests (snd (get_element_fromAPI remote q i st)) = requests st"
proof -
  have h: "hashable i" "truthy e" "cache_get st q i = Some e"
    using assms(2) by (simp_all add: stored_def)
  show ?thesis
  proof (cases "map_of (element_memo st) (q, py_key i)")
    case (Some v)
    have "v = e"
      using memo_backedD[OF assms(1) Some] h(2,3) by (cases "truthy v") auto
    then show ?thesis unfolding get_element_hit[OF h(1) Some] by simp
  next
    case None
    show ?thesis
      unfolding get_element_miss[OF h(1) None element_try_body_hit[OF assms(2)]] by simp
  qed
qed

lemma resolve_all_keeps:
  assumes "memo_backed st" "stored st q i e"
  shows "memo_backed (resolve_all remote calls st) \<and> stored (resolve_all remote calls st) q i e"
  using assms
proof (induction calls arbitrary: st)
  case Nil
  then show ?case by simp
next
  case (Cons c calls)
  obtain q' i' where c: "c = (q', i')" by (cases c)
  show ?case unfolding c resolve_all.simps
    by (rule Cons.IH) (simp_all add: memo_backed_step stored_step Cons.prems)
qed

lemma memo_backed_empty: "memo_backed empty_state"
  by (simp add: memo_backed_def empty_state_def)

lemma get_element_api_eq:
  "element_try_body remote q i st = (r, st') \<Longrightarrow>
   get_element_fromAPI_api remote q i st = (case r of Inl e \<Rightarrow> (Inr JNull, st') | Inr v \<Rightarrow> (Inr v, st'))"
  by (simp add: get_element_fromAPI_api_def split: sum.splits)

lemma get_element_api_keeps:
  assumes "truthy c" "cache_get st q' k = Some c"
  shows "cache_get (snd (get_element_fromAPI_api remote q i st)) q' k = Some c"
proof -
  obtain r st' where body: "element_try_body remote q i st = (r, st')"
    by (cases "element_try_body remote q i st") auto
  have "cache_get st' q' k = Some c"
    by (rule element_try_body_keeps[OF body assms])
  then show ?thesis
    unfolding get_element_api_eq[OF body] by (cases r) simp_all
qed

lemma stored_step_api:
  assumes "stored st q' i' e"
  shows "stored (snd (get_element_fromAPI_api remote q i st)) q' i' e"
  using assms get_element_api_keeps[of e st q' i' remote q i] by (simp add: stored_def)

lemma get_element_api_success_stored:
  assumes "get_element_fromAPI_api remote q i st = (Inr e, st')" "truthy e"
  shows "stored st' q i e"
proof -
  obtain r st1 where body: "element_try_body remote q i st = (r, st1)"
    by (cases "element_try_body remote q i st") auto
  from assms have r: "r = Inr e" and st': "st' = st1"
    unfolding get_element_api_eq[OF body] by (cases r; auto)+
  from element_try_body_effect[OF body] r assms(2) show ?thesis
    unfolding st' by (auto simp: stored_def)
qed

lemma get_element_api_stored_hit:
  assumes "stored st q i e"
  shows "get_element_fromAPI_api remote q i st = (Inr e, st)"
  unfolding get_element_api_eq[OF element_try_body_hit[OF assms]] by simp

lemma demo_first_call:
  "get_element_fromAPI remote_ok demo_url (JStr ''el1'') empty_state =
     (Inr (demo_element ''el1''),
      \<lparr>ELEMENT_CACHE = [demo_url \<mapsto> [(JStr ''el1'', demo_element ''el1'')]],
       element_memo = [((demo_url, JStr ''el1''), demo_element ''el1'')],
       kind_memo = [],
       requests = [Get (demo_url @ ''/elements/el1'')]\<rparr>)"
  by (simp add: get_element_fromAPI_def element_try_body_def request_element_def send_def
      cache_put_def first_of_list_def empty_state_def lru_store_def remote_ok_def demo_element_def Let_def)

lemma demo_first_call_api:
  "get_element_fromAPI_api remote_ok demo_url (JStr ''el1'') empty_state =
     (Inr (demo_element ''el1''),
      \<lparr>ELEMENT_CACHE = [demo_url \<mapsto> [(JStr ''el1'', demo_element ''el1'')]],
       element_memo = [],
       kind_memo = [],
       requests = [Get (demo_url @ ''/elements/el1'')]\<rparr>)"
  by (simp add: get_element_fromAPI_api_def element_try_body_def request_element_def send_def
      cache_put_def first_of_list_def empty_state_def remote_ok_def demo_element_def Let_def)

section \<open>Failed fetches\<close>

lemma request_element_failure:
  assumes "request_element remote q i st = (r, st')" "\<forall>e. r = Inr e \<longrightarrow> \<not> truthy e"
  shows "ELEMENT_CACHE st' = ELEMENT_CACHE st"
proof (cases i)
  case (JStr s)
  obtain resp st1 where snd1: "send remote (Get (q @ ''/elements/'' @ s)) st = (resp, st1)"
    by (cases "send remote (Get (q @ ''/elements/'' @ s)) st") auto
  then have st1: "st1 = st\<lparr>requests := requests st @ [Get (q @ ''/elements/'' @ s)]\<rparr>"
    by (auto simp: send_def)
  show ?thesis
    using assms snd1 unfolding JStr request_element_def
    by (auto simp: st1 Let_def split: response.splits option.splits if_splits)
qed (use assms in \<open>auto simp: request_element_def\<close>)

lemma element_try_body_failure:
  assumes "element_try_body remote q i st = (r, st')" "\<forall>e. r = Inr e \<longrightarrow> \<not> truthy e"
  shows "ELEMENT_CACHE st' = ELEMENT_CACHE st"
proof -
  have "request_element remote q i st = (r, st') \<or> st' = st"
    using assms(1) unfolding element_try_body_def
    by (cases "ELEMENT_CACHE st q"; cases "hashable i"; simp split: option.splits if_splits)
  then show ?thesis using request_element_failure assms(2) by blast
qed

text \<open>
  In \<^verbatim>\<open>api/sysmod_api_helpers.py\<close> a fetch that fails (a status other than 200, an
  empty payload, or an exception, which the handler swallows) returns a falsy value and
  leaves \<^verbatim>\<open>ELEMENT_CACHE\<close> as it was.
\<close>

lemma get_element_api_failure_not_cached:
  assumes "get_element_fromAPI_api remote q i st = (Inr e, st')" "\<not> truthy e"
  shows "ELEMENT_CACHE st' = ELEMENT_CACHE st"
proof -
  obtain r st1 where body: "element_try_body remote q i st = (r, st1)"
    by (cases "element_try_body remote q i st") auto
  from assms have "st' = st1" "\<forall>e. r = Inr e \<longrightarrow> \<not> truthy e"
    unfolding get_element_api_eq[OF body] by (cases r; auto)+
  then show ?thesis using element_try_body_failure[OF body] by simp
qed

text \<open>
  In \<^verbatim>\<open>mbse4u_sysmlv2_api_helpers.py\<close> a raised exception leaves both
  \<^verbatim>\<open>ELEMENT_CACHE\<close> and the memo table as they were.
\<close>

lemma get_element_exception_not_cached:
  assumes "get_element_fromAPI remote q i st = (Inl err, st')"
  shows "ELEMENT_CACHE st' = ELEMENT_CACHE st \<and> element_memo st' = element_memo st"
proof (cases "hashable i")
  case False
  then show ?thesis using assms by (simp add: get_element_unhashable)
next
  case True
  show ?thesis
  proof (cases "map_of (element_memo st) (q, py_key i)")
    case (Some v)
    then show ?thesis using assms unfolding get_element_hit[OF True Some] by simp
  next
    case None
    obtain r st1 where body: "element_try_body remote q i st = (r, st1)"
      by (cases "element_try_body remote q i st") auto
    from assms have "r = Inl err" "st' = st1"
      unfolding get_element_miss[OF True None body] by (cases r; auto)+
    then show ?thesis
      using element_try_body_failure[OF body] element_try_body_effect[OF body] by simp
  qed
qed

text \<open>
  C3 (failed fetches are not cached). At the remote \<open>remote_late\<close>, the first call gets
  status 404 and returns \<^verbatim>\<open>None\<close>. In \<^verbatim>\<open>mbse4u_sysmlv2_api_helpers.py\<close> the
  \<^verbatim>\<open>lru_cache\<close> decorator has memoized that \<^verbatim>\<open>None\<close>: the second call returns
  \<^verbatim>\<open>None\<close> again and sends no request, although the remote would now serve the
  element. In \<^verbatim>\<open>api/sysmod_api_helpers.py\<close>, where the decorator is commented out, the
  second call sends a fresh request and returns the element.
\<close>

theorem failed_fetch_memoized:
  "fst (get_element_fromAPI remote_late demo_url (JStr ''el1'') empty_state) = Inr JNull
   \<and> requests (snd (get_element_fromAPI remote_late demo_url (JStr ''el1'') empty_state))
       = [Get (demo_url @ ''/elements/el1'')]
   \<and> cache_get (snd (get_element_fromAPI remote_late demo_url (JStr ''el1'') empty_state))
        demo_url (JStr ''el1'') = None
   \<and> fst (get_element_fromAPI remote_late demo_url (JStr ''el1'')
        (snd (get_element_fromAPI remote_late demo_url (JStr ''el1'') empty_state))) = Inr JNull
   \<and> requests (snd (get_element_fromAPI remote_late demo_url (JStr ''el1'')
        (snd (get_element_fromAPI remote_late demo_url (JStr ''el1'') empty_state))))
       = [Get (demo_url @ ''/elements/el1'')]
   \<and> fst (get_element_fromAPI_api remote_late demo_url (JStr ''el1'')
        (snd (get_element_fromAPI_api remote_late demo_url (JStr ''el1'') empty_state)))
       = Inr (demo_element ''el1'')
   \<and> requests (snd (get_element_fromAPI_api remote_late demo_url (JStr ''el1'')
        (snd (get_element_fromAPI_api remote_late demo_url (JStr ''el1'') empty_state))))
       = [Get (demo_url @ ''/elements/el1''), Get (demo_url @ ''/elements/el1'')]"
  by (simp add: get_element_fromAPI_def get_element_fromAPI_api_def element_try_body_def
      request_element_def send_def cache_put_def cache_get_def first_of_list_def empty_state_def
      lru_store_def lru_hit_def remote_late_def demo_element_def Let_def)

section \<open>Properties of the bulk load\<close>

lemma demo_commit_url: "get_commit_url ''http://mock-server'' ''proj1'' ''commit1'' = demo_url"
  by (simp add: get_commit_url_def demo_url_def)

lemma load_model_cache_success:
  assumes "load_model_cache remote server_url project_id commit_id page_size st = (Inr n, st')"
  shows "\<exists>els cache_entry.
      remote (length (requests st))
        (Get (get_commit_url server_url project_id commit_id @ ''/elements?page%5Bsize%5D='' @ str_int page_size))
        = Response 200 (Some (JList els))
    \<and> populate els [] = Inr cache_entry
    \<and> n = length cache_entry
    \<and> st' = st\<lparr>requests := requests st @
                [Get (get_commit_url server_url project_id commit_id @ ''/elements?page%5Bsize%5D='' @ str_int page_size)],
              ELEMENT_CACHE := (ELEMENT_CACHE st)(get_commit_url server_url project_id commit_id \<mapsto> cache_entry)\<rparr>"
  using assms
  unfolding load_model_cache_def get_commit_url_def send_def Let_def
  by (auto split: response.splits if_splits option.splits sum.splits json.splits)

lemma populate_lookup:
  assumes "populate els acc = Inr cache_entry"
  shows "map_of cache_entry k =
     (case filter (\<lambda>el. id_key el = Some k) els of
        [] \<Rightarrow> map_of acc k
      | x # xs \<Rightarrow> Some (last (x # xs)))"
  using assms
proof (induction els arbitrary: acc)
  case Nil
  then show ?case by simp
next
  case (Cons x xs)
  show ?case
  proof (cases "py_contains ''@id'' x")
    case (Inl e)
    with Cons.prems show ?thesis by simp
  next
    case (Inr has_id)
    show ?thesis
    proof (cases has_id)
      case False
      then have "id_key x = None" "populate xs acc = Inr cache_entry"
        using Inr Cons.prems by (simp_all add: id_key_def)
      then show ?thesis using Cons.IH[of acc] by simp
    next
      case True
      then obtain i where i: "py_subscript x ''@id'' = Inr i" "hashable i"
        and rest: "populate xs (AList.update (py_key i) x acc) = Inr cache_entry"
        using Cons.prems(1) Inr by (auto split: sum.splits if_splits)
      have key: "id_key x = Some (py_key i)"
        using Inr True i by (simp add: id_key_def)
      show ?thesis
        using Cons.IH[OF rest] key
        by (cases "filter (\<lambda>el. id_key el = Some k) xs") (auto simp: update_conv')
    qed
  qed
qed

lemma populate_distinct:
  assumes "populate els acc = Inr cache_entry" "distinct (map fst acc)"
  shows "distinct (map fst cache_entry)"
  using assms
proof (induction els arbitrary: acc)
  case Nil
  then show ?case by simp
next
  case (Cons x xs)
  show ?case
  proof (cases "py_contains ''@id'' x")
    case (Inl e)
    with Cons.prems show ?thesis by simp
  next
    case (Inr has_id)
    show ?thesis
    proof (cases has_id)
      case False
      with Cons Inr show ?thesis by auto
    next
      case True
      then obtain i where rest: "populate xs (AList.update (py_key i) x acc) = Inr cache_entry"
        using Cons.prems(1) Inr by (auto split: sum.splits if_splits)
      show ?thesis
        by (rule Cons.IH[OF rest]) (simp add: distinct_update Cons.prems(2))
    qed
  qed
qed

lemma populate_length:
  assumes "populate els [] = Inr cache_entry"
  shows "length cache_entry = length (remdups (List.map_filter id_key els))"
proof -
  have d: "distinct (map fst cache_entry)"
    using populate_distinct[OF assms] by simp
  have "k \<in> fst ` set cache_entry \<longleftrightarrow> k \<in> set (List.map_filter id_key els)" for k
  proof -
    have "k \<in> fst ` set cache_entry \<longleftrightarrow> map_of cache_entry k \<noteq> None"
      by (simp add: map_of_eq_None_iff)
    also have "\<dots> \<longleftrightarrow> filter (\<lambda>el. id_key el = Some k) els \<noteq> []"
      unfolding populate_lookup[OF assms] by (simp split: list.splits)
    also have "\<dots> \<longleftrightarrow> k \<in> set (List.map_filter id_key els)"
      by (force simp: filter_empty_conv List.map_filter_def image_iff)
    finally show ?thesis .
  qed
  then have "set (map fst cache_entry) = set (List.map_filter id_key els)"
    by auto
  then have "card (set (map fst cache_entry)) = card (set (List.map_filter id_key els))"
    by (rule arg_cong)
  moreover have "card (set (map fst cache_entry)) = length (map fst cache_entry)"
    by (rule distinct_card[OF d])
  ultimately show ?thesis
    by (simp add: length_remdups_card_conv)
qed


lemma load_model_cache_requests:
  "requests (snd (load_model_cache remote server_url project_id commit_id page_size st)) =
     requests st @ [Get (get_commit_url server_url project_id commit_id @ ''/elements?page%5Bsize%5D='' @ str_int page_size)]"
  unfolding load_model_cache_def get_commit_url_def send_def Let_def
  by (auto split: response.splits if_splits option.splits sum.splits json.splits)

text \<open>
  C2, as amended (warm replaces). A successful \<^verbatim>\<open>load_model_cache\<close> for a context
  sends one request and makes the context's entry of \<^verbatim>\<open>ELEMENT_CACHE\<close> the dictionary
  of the batch it received: an id is mapped to the last element of the batch that carries
  it as \<^verbatim>\<open>'@id'\<close>, and an id that no element of the batch carries is absent, whatever
  the cache held for the context before. The number returned is the number of distinct
  ids of the batch. The entries of the other contexts and the two \<^verbatim>\<open>lru_cache\<close> memo
  tables are unchanged; so, in \<^verbatim>\<open>mbse4u_sysmlv2_api_helpers.py\<close>, a result of
  \<^verbatim>\<open>get_element_fromAPI\<close> memoized before the warm is still returned after it, with no
  request.
\<close>

theorem load_model_cache_replaces:
  assumes "load_model_cache remote server_url project_id commit_id page_size st = (Inr n, st')"
  shows "\<exists>els.
      remote (length (requests st))
        (Get (get_commit_url server_url project_id commit_id @ ''/elements?page%5Bsize%5D='' @ str_int page_size))
        = Response 200 (Some (JList els))
    \<and> ELEMENT_CACHE st' (get_commit_url server_url project_id commit_id) \<noteq> None
    \<and> (\<forall>k. cache_get st' (get_commit_url server_url project_id commit_id) k = batch_lookup els k)
    \<and> n = length (remdups (List.map_filter id_key els))
    \<and> (\<forall>q. q \<noteq> get_commit_url server_url project_id commit_id \<longrightarrow>
          ELEMENT_CACHE st' q = ELEMENT_CACHE st q)
    \<and> element_memo st' = element_memo st
    \<and> kind_memo st' = kind_memo st
    \<and> requests st' = requests st @
        [Get (get_commit_url server_url project_id commit_id @ ''/elements?page%5Bsize%5D='' @ str_int page_size)]
    \<and> (\<forall>q i v. hashable i \<and> map_of (element_memo st) (q, py_key i) = Some v \<longrightarrow>
          fst (get_element_fromAPI remote q i st') = Inr v
          \<and> requests (snd (get_element_fromAPI remote q i st')) = requests st')"
proof -
  from load_model_cache_success[OF assms] obtain els cache_entry where
    r: "remote (length (requests st))
        (Get (get_commit_url server_url project_id commit_id @ ''/elements?page%5Bsize%5D='' @ str_int page_size))
        = Response 200 (Some (JList els))"
    and p: "populate els [] = Inr cache_entry"
    and n: "n = length cache_entry"
    and st': "st' = st\<lparr>requests := requests st @
                [Get (get_commit_url server_url project_id commit_id @ ''/elements?page%5Bsize%5D='' @ str_int page_size)],
              ELEMENT_CACHE := (ELEMENT_CACHE st)(get_commit_url server_url project_id commit_id \<mapsto> cache_entry)\<rparr>"
    by blast
  have a: "ELEMENT_CACHE st' (get_commit_url server_url project_id commit_id) \<noteq> None"
    unfolding st' by simp
  have b: "cache_get st' (get_commit_url server_url project_id commit_id) k = batch_lookup els k" for k
  proof -
    have "cache_get st' (get_commit_url server_url project_id commit_id) k = map_of cache_entry (py_key k)"
      unfolding st' by (simp add: cache_get_def)
    also have "\<dots> = batch_lookup els k"
      unfolding populate_lookup[OF p] batch_lookup_def by (simp split: list.splits)
    finally show ?thesis .
  qed
  have c: "n = length (remdups (List.map_filter id_key els))"
    unfolding n by (rule populate_length[OF p])
  have d: "ELEMENT_CACHE st' q = ELEMENT_CACHE st q" if "q \<noteq> get_commit_url server_url project_id commit_id" for q
    unfolding st' using that by simp
  have e: "element_memo st' = element_memo st" "kind_memo st' = kind_memo st"
    "requests st' = requests st @
        [Get (get_commit_url server_url project_id commit_id @ ''/elements?page%5Bsize%5D='' @ str_int page_size)]"
    unfolding st' by simp_all
  have f: "fst (get_element_fromAPI remote q i st') = Inr v
          \<and> requests (snd (get_element_fromAPI remote q i st')) = requests st'"
    if "hashable i \<and> map_of (element_memo st) (q, py_key i) = Some v" for q i v
  proof -
    from that have "hashable i" "map_of (element_memo st') (q, py_key i) = Some v"
      by (simp_all add: e(1))
    from get_element_hit[OF this] show ?thesis by simp
  qed
  show ?thesis
    using r a b c d e f by blast
qed

lemma str_int_256: "str_int 256 = ''256''"
  by code_simp

lemma str_int_512: "str_int 512 = ''512''"
  by code_simp

lemma demo_load_1:
  "load_model_cache remote_batches ''http://mock-server'' ''proj1'' ''commit1'' 256 empty_state =
     (Inr 1, \<lparr>ELEMENT_CACHE = [demo_url \<mapsto> [(JStr ''el1'', demo_element ''el1'')]],
       element_memo = [], kind_memo = [],
       requests = [Get (demo_url @ ''/elements?page%5Bsize%5D=256'')]\<rparr>)"
  by (simp add: load_model_cache_def send_def str_int_256 remote_batches_def demo_element_def
      py_len_def py_contains_def py_subscript_def empty_state_def demo_url_def Let_def)

lemma first_warm_eq:
  "first_warm = \<lparr>ELEMENT_CACHE = [demo_url \<mapsto> [(JStr ''el1'', demo_element ''el1'')]],
       element_memo = [], kind_memo = [],
       requests = [Get (demo_url @ ''/elements?page%5Bsize%5D=256'')]\<rparr>"
  by (simp add: first_warm_def demo_load_1)

lemma demo_load_2:
  "load_model_cache remote_batches ''http://mock-server'' ''proj1'' ''commit1'' 256 first_warm =
     (Inr 1, \<lparr>ELEMENT_CACHE = [demo_url \<mapsto> [(JStr ''el2'', demo_element ''el2'')]],
       element_memo = [], kind_memo = [],
       requests = [Get (demo_url @ ''/elements?page%5Bsize%5D=256''),
                   Get (demo_url @ ''/elements?page%5Bsize%5D=256'')]\<rparr>)"
  by (simp add: first_warm_eq load_model_cache_def send_def str_int_256 remote_batches_def
      demo_element_def py_len_def py_contains_def py_subscript_def demo_url_def Let_def)

lemma second_warm_eq:
  "second_warm = \<lparr>ELEMENT_CACHE = [demo_url \<mapsto> [(JStr ''el2'', demo_element ''el2'')]],
       element_memo = [], kind_memo = [],
       requests = [Get (demo_url @ ''/elements?page%5Bsize%5D=256''),
                   Get (demo_url @ ''/elements?page%5Bsize%5D=256'')]\<rparr>"
  unfolding second_warm_def demo_load_2 by simp

lemma after_put_eq:
  "after_put = \<lparr>ELEMENT_CACHE = [demo_url \<mapsto> [(JStr ''el3'', demo_element ''el3'')]],
       element_memo = [], kind_memo = [],
       requests = [Get (demo_url @ ''/elements/el3'')]\<rparr>"
  by (simp add: after_put_def get_element_fromAPI_api_def element_try_body_def request_element_def
      send_def cache_put_def first_of_list_def empty_state_def remote_put_then_batch_def
      demo_element_def Let_def)

lemma put_then_warm_eq:
  "put_then_warm = \<lparr>ELEMENT_CACHE = [demo_url \<mapsto> [(JStr ''el2'', demo_element ''el2'')]],
       element_memo = [], kind_memo = [],
       requests = [Get (demo_url @ ''/elements/el3''),
                   Get (demo_url @ ''/elements?page%5Bsize%5D=512'')]\<rparr>"
  by (simp add: put_then_warm_def after_put_eq load_model_cache_api_def load_model_cache_def
      send_def str_int_512 remote_put_then_batch_def demo_element_def py_len_def py_contains_def
      py_subscript_def demo_url_def Let_def)

lemma after_put_memo_eq:
  "after_put_memo = \<lparr>ELEMENT_CACHE = [demo_url \<mapsto> [(JStr ''el3'', demo_element ''el3'')]],
       element_memo = [((demo_url, JStr ''el3''), demo_element ''el3'')], kind_memo = [],
       requests = [Get (demo_url @ ''/elements/el3'')]\<rparr>"
  by (simp add: after_put_memo_def get_element_fromAPI_def element_try_body_def request_element_def
      send_def cache_put_def first_of_list_def empty_state_def remote_put_then_batch_def
      demo_element_def lru_store_def Let_def)

lemma put_then_warm_memo_eq:
  "put_then_warm_memo = \<lparr>ELEMENT_CACHE = [demo_url \<mapsto> [(JStr ''el2'', demo_element ''el2'')]],
       element_memo = [((demo_url, JStr ''el3''), demo_element ''el3'')], kind_memo = [],
       requests = [Get (demo_url @ ''/elements/el3''),
                   Get (demo_url @ ''/elements?page%5Bsize%5D=256'')]\<rparr>"
  by (simp add: put_then_warm_memo_def after_put_memo_eq load_model_cache_def
      send_def str_int_256 remote_put_then_batch_def demo_element_def py_len_def py_contains_def
      py_subscript_def demo_url_def Let_def)

text \<open>
  C2 as stated fails, in both modules. Two warms of the same context with the disjoint
  batches \<open>[el1]\<close> and \<open>[el2]\<close>: after the second warm \<open>el2\<close> is cached and \<open>el1\<close>
  is not, and resolving \<open>el1\<close> sends a request. An element \<open>el3\<close> stored individually
  by \<^verbatim>\<open>get_element_fromAPI\<close> is gone from \<^verbatim>\<open>ELEMENT_CACHE\<close> after a warm with the
  batch \<open>[el2]\<close>.
\<close>

theorem warm_accumulation_counterexample:
  "cache_get first_warm demo_url (JStr ''el1'') = Some (demo_element ''el1'')
   \<and> fst (load_model_cache remote_batches ''http://mock-server'' ''proj1'' ''commit1'' 256 first_warm) = Inr 1
   \<and> cache_get second_warm demo_url (JStr ''el2'') = Some (demo_element ''el2'')
   \<and> cache_get second_warm demo_url (JStr ''el1'') = None
   \<and> requests (snd (get_element_fromAPI_api remote_batches demo_url (JStr ''el1'') second_warm))
       = requests second_warm @ [Get (demo_url @ ''/elements/el1'')]
   \<and> requests (snd (get_element_fromAPI remote_batches demo_url (JStr ''el1'') second_warm))
       = requests second_warm @ [Get (demo_url @ ''/elements/el1'')]
   \<and> cache_get after_put demo_url (JStr ''el3'') = Some (demo_element ''el3'')
   \<and> fst (load_model_cache_api remote_put_then_batch ''http://mock-server'' ''proj1'' ''commit1'' after_put) = Inr 1
   \<and> cache_get put_then_warm demo_url (JStr ''el3'') = None
   \<and> cache_get after_put_memo demo_url (JStr ''el3'') = Some (demo_element ''el3'')
   \<and> fst (load_model_cache remote_put_then_batch ''http://mock-server'' ''proj1'' ''commit1'' 256 after_put_memo) = Inr 1
   \<and> cache_get put_then_warm_memo demo_url (JStr ''el3'') = None"
proof -
  have a: "fst (load_model_cache_api remote_put_then_batch ''http://mock-server'' ''proj1'' ''commit1'' after_put) = Inr 1"
    by (simp add: after_put_eq load_model_cache_api_def load_model_cache_def
      send_def str_int_512 remote_put_then_batch_def demo_element_def py_len_def py_contains_def
      py_subscript_def demo_url_def Let_def)
  have b: "fst (load_model_cache remote_put_then_batch ''http://mock-server'' ''proj1'' ''commit1'' 256 after_put_memo) = Inr 1"
    by (simp add: after_put_memo_eq load_model_cache_def
      send_def str_int_256 remote_put_then_batch_def demo_element_def py_len_def py_contains_def
      py_subscript_def demo_url_def Let_def)
  have c: "cache_get first_warm demo_url (JStr ''el1'') = Some (demo_element ''el1'')
   \<and> fst (load_model_cache remote_batches ''http://mock-server'' ''proj1'' ''commit1'' 256 first_warm) = Inr 1
   \<and> cache_get second_warm demo_url (JStr ''el2'') = Some (demo_element ''el2'')
   \<and> cache_get second_warm demo_url (JStr ''el1'') = None
   \<and> requests (snd (get_element_fromAPI_api remote_batches demo_url (JStr ''el1'') second_warm))
       = requests second_warm @ [Get (demo_url @ ''/elements/el1'')]
   \<and> requests (snd (get_element_fromAPI remote_batches demo_url (JStr ''el1'') second_warm))
       = requests second_warm @ [Get (demo_url @ ''/elements/el1'')]
   \<and> cache_get after_put demo_url (JStr ''el3'') = Some (demo_element ''el3'')
   \<and> cache_get put_then_warm demo_url (JStr ''el3'') = None"
    unfolding demo_load_2 second_warm_eq
    by (simp add: first_warm_eq after_put_eq put_then_warm_eq cache_get_def
      get_element_fromAPI_api_def get_element_fromAPI_def element_try_body_def request_element_def
      send_def cache_put_def first_of_list_def remote_batches_def demo_element_def lru_store_def Let_def)
  have d: "cache_get after_put_memo demo_url (JStr ''el3'') = Some (demo_element ''el3'')
   \<and> cache_get put_then_warm_memo demo_url (JStr ''el3'') = None"
    by (simp add: after_put_memo_eq put_then_warm_memo_eq cache_get_def)
  show ?thesis using a b c d by simp
qed

theorem load_model_cache_replaces_witness:
  "load_model_cache remote_put_then_batch ''http://mock-server'' ''proj1'' ''commit1'' 256 after_put_memo
     = (Inr 1, put_then_warm_memo)
   \<and> (\<exists>els.
      remote_put_then_batch (length (requests after_put_memo))
        (Get (get_commit_url ''http://mock-server'' ''proj1'' ''commit1'' @ ''/elements?page%5Bsize%5D='' @ str_int 256))
        = Response 200 (Some (JList els))
    \<and> ELEMENT_CACHE put_then_warm_memo (get_commit_url ''http://mock-server'' ''proj1'' ''commit1'') \<noteq> None
    \<and> (\<forall>k. cache_get put_then_warm_memo (get_commit_url ''http://mock-server'' ''proj1'' ''commit1'') k
             = batch_lookup els k)
    \<and> (1::nat) = length (remdups (List.map_filter id_key els))
    \<and> (\<forall>q. q \<noteq> get_commit_url ''http://mock-server'' ''proj1'' ''commit1'' \<longrightarrow>
          ELEMENT_CACHE put_then_warm_memo q = ELEMENT_CACHE after_put_memo q)
    \<and> element_memo put_then_warm_memo = element_memo after_put_memo
    \<and> kind_memo put_then_warm_memo = kind_memo after_put_memo
    \<and> requests put_then_warm_memo = requests after_put_memo @
        [Get (get_commit_url ''http://mock-server'' ''proj1'' ''commit1'' @ ''/elements?page%5Bsize%5D='' @ str_int 256)]
    \<and> (\<forall>q i v. hashable i \<and> map_of (element_memo after_put_memo) (q, py_key i) = Some v \<longrightarrow>
          fst (get_element_fromAPI remote_put_then_batch q i put_then_warm_memo) = Inr v
          \<and> requests (snd (get_element_fromAPI remote_put_then_batch q i put_then_warm_memo))
              = requests put_then_warm_memo))"
proof -
  have h: "load_model_cache remote_put_then_batch ''http://mock-server'' ''proj1'' ''commit1'' 256 after_put_memo
     = (Inr 1, put_then_warm_memo)"
    unfolding put_then_warm_memo_def
    by (simp add: after_put_memo_eq load_model_cache_def
      send_def str_int_256 remote_put_then_batch_def demo_element_def py_len_def py_contains_def
      py_subscript_def demo_url_def Let_def)
  show ?thesis
    using h load_model_cache_replaces[OF h] by blast
qed

text \<open>
  In \<^verbatim>\<open>mbse4u_sysmlv2_api_helpers.py\<close> the element \<open>el3\<close>, gone from
  \<^verbatim>\<open>ELEMENT_CACHE\<close> after the warm, is still returned by \<^verbatim>\<open>get_element_fromAPI\<close>
  without a request: the \<^verbatim>\<open>lru_cache\<close> memo holds it.
\<close>

lemma warm_keeps_memo_demo:
  "fst (get_element_fromAPI remote_put_then_batch demo_url (JStr ''el3'') put_then_warm_memo)
     = Inr (demo_element ''el3'')
   \<and> requests (snd (get_element_fromAPI remote_put_then_batch demo_url (JStr ''el3'') put_then_warm_memo))
     = requests put_then_warm_memo"
  by (simp add: put_then_warm_memo_eq get_element_fromAPI_def Let_def)

section \<open>Cache monotonicity between warms\<close>

lemma load_model_cache_frame:
  "element_memo (snd (load_model_cache remote server_url project_id commit_id page_size st)) = element_memo st"
  "kind_memo (snd (load_model_cache remote server_url project_id commit_id page_size st)) = kind_memo st"
  "q \<noteq> get_commit_url server_url project_id commit_id \<Longrightarrow>
     ELEMENT_CACHE (snd (load_model_cache remote server_url project_id commit_id page_size st)) q
       = ELEMENT_CACHE st q"
  unfolding load_model_cache_def get_commit_url_def send_def Let_def
  by (auto split: response.splits if_splits option.splits sum.splits json.splits)

lemma load_model_cache_other:
  assumes "q \<noteq> get_commit_url server_url project_id commit_id"
  shows "cache_get (snd (load_model_cache remote server_url project_id commit_id page_size st)) q k
           = cache_get st q k"
  by (simp add: cache_get_def load_model_cache_frame(3)[OF assms])

lemma map_of_lru_hit_same:
  assumes "map_of memo key = Some v"
  shows "map_of (lru_hit key v memo) k = map_of memo k"
  using assms by (simp add: map_of_lru_hit)

lemma get_element_hashable:
  assumes "get_element_fromAPI remote q i st = (Inr e, st')"
  shows "hashable i"
  using assms by (cases "hashable i") (simp_all add: get_element_unhashable)

lemma stored_key_cong:
  assumes "stored st q i e" "py_key k = py_key i" "hashable k"
  shows "stored st q k e"
  using assms cache_get_key_cong[OF assms(2), of st q] by (simp add: stored_def)

lemma get_element_success_held:
  assumes "memo_agrees st q i" "get_element_fromAPI remote q i st = (Inr e, st')" "truthy e"
  shows "held st' q i e"
proof -
  have h: "hashable i" by (rule get_element_hashable[OF assms(2)])
  show ?thesis
  proof (cases "map_of (element_memo st) (q, py_key i)")
    case (Some v)
    from assms(2) have v: "v = e" and st': "st' = st\<lparr>element_memo := lru_hit (q, py_key i) v (element_memo st)\<rparr>"
      unfolding get_element_hit[OF h Some] by auto
    have "cache_get st q i = Some e"
      using assms(1,3) Some v by (simp add: memo_agrees_def)
    then show ?thesis
      using h assms(3) by (simp add: held_def stored_def st' map_of_lru_hit v)
  next
    case None
    obtain r st1 where body: "element_try_body remote q i st = (r, st1)"
      by (cases "element_try_body remote q i st") auto
    from assms(2) have r: "r = Inr e"
      and st': "st' = st1\<lparr>element_memo := lru_store 2048 (q, py_key i) e (element_memo st1)\<rparr>"
      unfolding get_element_miss[OF h None body] by (cases r; simp)+
    from element_try_body_effect[OF body] r assms(3) have c: "cache_get st1 q i = Some e"
      and m: "element_memo st1 = element_memo st"
      by (auto simp: stored_def)
    have "w = e" if "map_of (lru_store 2048 (q, py_key i) e (element_memo st1)) (q, py_key i) = Some w" for w
      using map_of_lru_store[OF that] None m by auto
    then show ?thesis
      using h assms(3) c by (auto simp: held_def stored_def st' split: option.splits)
  qed
qed

lemma held_step:
  assumes "held st q i e"
  shows "held (snd (get_element_fromAPI remote q' i' st)) q i e"
proof -
  have s: "stored st q i e"
    and f: "\<And>v. map_of (element_memo st) (q, py_key i) = Some v \<Longrightarrow> v = e"
    using assms by (auto simp: held_def)
  have s': "stored (snd (get_element_fromAPI remote q' i' st)) q i e"
    by (rule stored_step[OF s])
  have f': "v = e"
    if v: "map_of (element_memo (snd (get_element_fromAPI remote q' i' st))) (q, py_key i) = Some v" for v
  proof (cases "hashable i'")
    case False
    then show ?thesis using v f by (simp add: get_element_unhashable)
  next
    case True
    show ?thesis
    proof (cases "map_of (element_memo st) (q', py_key i')")
      case (Some v')
      from v have "map_of (element_memo st) (q, py_key i) = Some v"
        unfolding get_element_hit[OF True Some] by (simp add: map_of_lru_hit_same[OF Some])
      then show ?thesis by (rule f)
    next
      case None
      obtain r st1 where body: "element_try_body remote q' i' st = (r, st1)"
        by (cases "element_try_body remote q' i' st") auto
      have m: "element_memo st1 = element_memo st"
        using element_try_body_effect[OF body] by simp
      show ?thesis
      proof (cases r)
        case (Inl err)
        then show ?thesis
          using v f m unfolding get_element_miss[OF True None body] by simp
      next
        case (Inr w)
        from v have "map_of (lru_store 2048 (q', py_key i') w (element_memo st)) (q, py_key i) = Some v"
          unfolding get_element_miss[OF True None body] Inr by (simp add: m)
        from map_of_lru_store[OF this]
        consider "(q, py_key i) = (q', py_key i')" "v = w" | "map_of (element_memo st) (q, py_key i) = Some v"
          by blast
        then show ?thesis
        proof cases
          case 1
          then have "stored st q' i' e"
            using stored_key_cong[OF s _ True] by simp
          from element_try_body_hit[OF this, of remote] body Inr have "w = e" by simp
          then show ?thesis using 1 by simp
        next
          case 2
          then show ?thesis by (rule f)
        qed
      qed
    qed
  qed
  show ?thesis
    unfolding held_def using s' f' by (auto split: option.splits)
qed

lemma held_warm:
  assumes "held st q i e" "q \<noteq> get_commit_url server_url project_id commit_id"
  shows "held (snd (load_model_cache remote server_url project_id commit_id page_size st)) q i e"
  using assms(1)
  by (simp add: held_def stored_def load_model_cache_other[OF assms(2)] load_model_cache_frame(1)
      split: option.splits)

lemma run_keeps_held:
  assumes "held st q i e" "list_all (\<lambda>c. \<not> warms q c) calls"
  shows "held (run remote calls st) q i e"
  using assms
proof (induction calls arbitrary: st)
  case Nil
  then show ?case by simp
next
  case (Cons c calls)
  show ?case
  proof (cases c)
    case (Resolve q' i')
    show ?thesis unfolding Resolve run.simps
      by (rule Cons.IH) (use Cons.prems in \<open>simp_all add: held_step\<close>)
  next
    case (Warm s p c' ps)
    with Cons.prems(2) have "q \<noteq> get_commit_url s p c'" by (auto simp: warms_def)
    from held_warm[OF Cons.prems(1) this]
    show ?thesis unfolding Warm run.simps
      by (intro Cons.IH) (use Cons.prems in simp_all)
  qed
qed

lemma held_hit:
  assumes "held st q i e"
  shows "fst (get_element_fromAPI remote q i st) = Inr e
       \<and> requests (snd (get_element_fromAPI remote q i st)) = requests st"
proof -
  have s: "stored st q i e" using assms by (simp add: held_def)
  then have h: "hashable i" by (simp add: stored_def)
  show ?thesis
  proof (cases "map_of (element_memo st) (q, py_key i)")
    case (Some v)
    then have "v = e" using assms by (simp add: held_def)
    then show ?thesis unfolding get_element_hit[OF h Some] by simp
  next
    case None
    show ?thesis
      unfolding get_element_miss[OF h None element_try_body_hit[OF s]] by simp
  qed
qed

lemma stored_warm_api:
  assumes "stored st q i e" "q \<noteq> get_commit_url server_url project_id commit_id"
  shows "stored (snd (load_model_cache_api remote server_url project_id commit_id st)) q i e"
  using assms(1)
  by (simp add: stored_def load_model_cache_api_def load_model_cache_other[OF assms(2)])

lemma run_api_keeps_stored:
  assumes "stored st q i e" "list_all (\<lambda>c. \<not> warms q c) calls"
  shows "stored (run_api remote calls st) q i e"
  using assms
proof (induction calls arbitrary: st)
  case Nil
  then show ?case by simp
next
  case (Cons c calls)
  show ?case
  proof (cases c)
    case (Resolve q' i')
    show ?thesis unfolding Resolve run_api.simps
      by (rule Cons.IH) (use Cons.prems in \<open>simp_all add: stored_step_api\<close>)
  next
    case (Warm s p c' ps)
    with Cons.prems(2) have "q \<noteq> get_commit_url s p c'" by (auto simp: warms_def)
    from stored_warm_api[OF Cons.prems(1) this]
    show ?thesis unfolding Warm run_api.simps
      by (intro Cons.IH) (use Cons.prems in simp_all)
  qed
qed

lemma memo_agrees_step:
  assumes "memo_agrees st q i"
  shows "memo_agrees (snd (get_element_fromAPI remote q' i' st)) q i"
proof -
  have a: "cache_get st q i = Some v"
    if "map_of (element_memo st) (q, py_key i) = Some v" "truthy v" for v
    using assms that by (simp add: memo_agrees_def)
  have "cache_get (snd (get_element_fromAPI remote q' i' st)) q i = Some v"
    if v: "map_of (element_memo (snd (get_element_fromAPI remote q' i' st))) (q, py_key i) = Some v"
      and t: "truthy v" for v
  proof (cases "hashable i'")
    case False
    then show ?thesis using v t a by (simp add: get_element_unhashable)
  next
    case True
    show ?thesis
    proof (cases "map_of (element_memo st) (q', py_key i')")
      case (Some v')
      from v have "map_of (element_memo st) (q, py_key i) = Some v"
        unfolding get_element_hit[OF True Some] by (simp add: map_of_lru_hit_same[OF Some])
      from a[OF this t] show ?thesis
        unfolding get_element_hit[OF True Some] by simp
    next
      case None
      obtain r st1 where body: "element_try_body remote q' i' st = (r, st1)"
        by (cases "element_try_body remote q' i' st") auto
      note eff = element_try_body_effect[OF body]
      have m: "element_memo st1 = element_memo st"
        using eff by simp
      have keep: "cache_get st1 q i = Some v" if "map_of (element_memo st) (q, py_key i) = Some v"
        by (rule element_try_body_keeps[OF body t a[OF that t]])
      show ?thesis
      proof (cases r)
        case (Inl err)
        then show ?thesis
          using v keep m unfolding get_element_miss[OF True None body] by simp
      next
        case (Inr w)
        from v have "map_of (lru_store 2048 (q', py_key i') w (element_memo st)) (q, py_key i) = Some v"
          unfolding get_element_miss[OF True None body] Inr by (simp add: m)
        from map_of_lru_store[OF this]
        consider "(q, py_key i) = (q', py_key i')" "v = w" | "map_of (element_memo st) (q, py_key i) = Some v"
          by blast
        then have "cache_get st1 q i = Some v"
        proof cases
          case 1
          then have k: "q' = q" "py_key i = py_key i'" "w = v" by simp_all
          from eff Inr t k have "cache_get st1 q i' = Some v"
            by (auto simp: stored_def)
          then show ?thesis using cache_get_key_cong[OF k(2), of st1 q] by simp
        next
          case 2
          then show ?thesis by (rule keep)
        qed
        then show ?thesis
          unfolding get_element_miss[OF True None body] Inr by simp
      qed
    qed
  qed
  then show ?thesis
    unfolding memo_agrees_def by (auto split: option.splits)
qed

lemma memo_agrees_warm:
  assumes "memo_agrees st q i" "q \<noteq> get_commit_url server_url project_id commit_id"
  shows "memo_agrees (snd (load_model_cache remote server_url project_id commit_id page_size st)) q i"
  using assms(1)
  by (simp add: memo_agrees_def load_model_cache_other[OF assms(2)] load_model_cache_frame(1)
      split: option.splits)

lemma run_keeps_memo_agrees:
  assumes "memo_agrees st q i" "list_all (\<lambda>c. \<not> warms q c) calls"
  shows "memo_agrees (run remote calls st) q i"
  using assms
proof (induction calls arbitrary: st)
  case Nil
  then show ?case by simp
next
  case (Cons c calls)
  show ?case
  proof (cases c)
    case (Resolve q' i')
    show ?thesis unfolding Resolve run.simps
      by (rule Cons.IH) (use Cons.prems in \<open>simp_all add: memo_agrees_step\<close>)
  next
    case (Warm s p c' ps)
    with Cons.prems(2) have "q \<noteq> get_commit_url s p c'" by (auto simp: warms_def)
    from memo_agrees_warm[OF Cons.prems(1) this]
    show ?thesis unfolding Warm run.simps
      by (intro Cons.IH) (use Cons.prems in simp_all)
  qed
qed

lemma memo_agrees_empty: "memo_agrees empty_state q i"
  by (simp add: memo_agrees_def empty_state_def)

text \<open>
  C1, as amended (cache monotonicity between warms). Once \<^verbatim>\<open>get_element_fromAPI\<close> has
  returned an element for a context and an id, then after any further sequence of
  \<^verbatim>\<open>get_element_fromAPI\<close> calls (for any contexts and ids) and of
  \<^verbatim>\<open>load_model_cache\<close> calls for other contexts, whatever the remote answers, a call
  for the same context and id returns the same element and sends no request: the request
  log is unchanged. This holds in both helper modules. In the module with the
  \<^verbatim>\<open>lru_cache\<close> decorator the memo table must agree with \<^verbatim>\<open>ELEMENT_CACHE\<close> on the
  context and id when the element is returned; it does so when the module is loaded, and
  every call of \<^verbatim>\<open>get_element_fromAPI\<close> and every \<^verbatim>\<open>load_model_cache\<close> of another
  context keeps it so.
\<close>

theorem cache_monotonicity_between_warms:
  "(memo_agrees st0 q i \<and> get_element_fromAPI remote q i st0 = (Inr e, st1) \<and> truthy e
      \<and> list_all (\<lambda>c. \<not> warms q c) calls \<longrightarrow>
      fst (get_element_fromAPI remote q i (run remote calls st1)) = Inr e \<and>
      requests (snd (get_element_fromAPI remote q i (run remote calls st1)))
        = requests (run remote calls st1))
   \<and> (get_element_fromAPI_api remote q i st0 = (Inr e, st1) \<and> truthy e
      \<and> list_all (\<lambda>c. \<not> warms q c) calls \<longrightarrow>
      fst (get_element_fromAPI_api remote q i (run_api remote calls st1)) = Inr e \<and>
      requests (snd (get_element_fromAPI_api remote q i (run_api remote calls st1)))
        = requests (run_api remote calls st1))
   \<and> memo_agrees empty_state q i
   \<and> (memo_agrees st0 q i \<and> list_all (\<lambda>c. \<not> warms q c) calls \<longrightarrow>
        memo_agrees (run remote calls st0) q i)"
proof (intro conjI impI)
  assume a: "memo_agrees st0 q i \<and> get_element_fromAPI remote q i st0 = (Inr e, st1) \<and> truthy e
      \<and> list_all (\<lambda>c. \<not> warms q c) calls"
  then have "held st1 q i e"
    using get_element_success_held by blast
  then have k: "held (run remote calls st1) q i e"
    using a run_keeps_held by blast
  from held_hit[OF k]
  show "fst (get_element_fromAPI remote q i (run remote calls st1)) = Inr e"
    and "requests (snd (get_element_fromAPI remote q i (run remote calls st1)))
        = requests (run remote calls st1)"
    by simp_all
next
  assume a: "get_element_fromAPI_api remote q i st0 = (Inr e, st1) \<and> truthy e
      \<and> list_all (\<lambda>c. \<not> warms q c) calls"
  then have "stored st1 q i e"
    using get_element_api_success_stored by blast
  then have k: "stored (run_api remote calls st1) q i e"
    using a run_api_keeps_stored by blast
  show "fst (get_element_fromAPI_api remote q i (run_api remote calls st1)) = Inr e"
    and "requests (snd (get_element_fromAPI_api remote q i (run_api remote calls st1)))
        = requests (run_api remote calls st1)"
    by (simp_all add: get_element_api_stored_hit[OF k])
next
  show "memo_agrees empty_state q i" by (rule memo_agrees_empty)
next
  assume "memo_agrees st0 q i \<and> list_all (\<lambda>c. \<not> warms q c) calls"
  then show "memo_agrees (run remote calls st0) q i"
    using run_keeps_memo_agrees by blast
qed

theorem cache_monotonicity_between_warms_witness:
  "memo_agrees empty_state demo_url (JStr ''el1'') \<and> truthy (demo_element ''el1'')
   \<and> list_all (\<lambda>c. \<not> warms demo_url c)
        [Resolve demo_url (JStr ''el2''), Warm ''http://mock-server'' ''proj1'' ''commit2'' 256,
         Resolve demo_url (JStr ''el1'')]
   \<and> fst (get_element_fromAPI remote_ok demo_url (JStr ''el1'') empty_state) = Inr (demo_element ''el1'')
   \<and> fst (get_element_fromAPI remote_ok demo_url (JStr ''el1'')
         (run remote_ok
            [Resolve demo_url (JStr ''el2''), Warm ''http://mock-server'' ''proj1'' ''commit2'' 256,
             Resolve demo_url (JStr ''el1'')]
            (snd (get_element_fromAPI remote_ok demo_url (JStr ''el1'') empty_state))))
       = Inr (demo_element ''el1'')
   \<and> requests (snd (get_element_fromAPI remote_ok demo_url (JStr ''el1'')
         (run remote_ok
            [Resolve demo_url (JStr ''el2''), Warm ''http://mock-server'' ''proj1'' ''commit2'' 256,
             Resolve demo_url (JStr ''el1'')]
            (snd (get_element_fromAPI remote_ok demo_url (JStr ''el1'') empty_state)))))
       = requests (run remote_ok
            [Resolve demo_url (JStr ''el2''), Warm ''http://mock-server'' ''proj1'' ''commit2'' 256,
             Resolve demo_url (JStr ''el1'')]
            (snd (get_element_fromAPI remote_ok demo_url (JStr ''el1'') empty_state)))
   \<and> fst (get_element_fromAPI_api remote_ok demo_url (JStr ''el1'') empty_state) = Inr (demo_element ''el1'')
   \<and> fst (get_element_fromAPI_api remote_ok demo_url (JStr ''el1'')
         (run_api remote_ok
            [Resolve demo_url (JStr ''el2''), Warm ''http://mock-server'' ''proj1'' ''commit2'' 256,
             Resolve demo_url (JStr ''el1'')]
            (snd (get_element_fromAPI_api remote_ok demo_url (JStr ''el1'') empty_state))))
       = Inr (demo_element ''el1'')
   \<and> requests (snd (get_element_fromAPI_api remote_ok demo_url (JStr ''el1'')
         (run_api remote_ok
            [Resolve demo_url (JStr ''el2''), Warm ''http://mock-server'' ''proj1'' ''commit2'' 256,
             Resolve demo_url (JStr ''el1'')]
            (snd (get_element_fromAPI_api remote_ok demo_url (JStr ''el1'') empty_state)))))
       = requests (run_api remote_ok
            [Resolve demo_url (JStr ''el2''), Warm ''http://mock-server'' ''proj1'' ''commit2'' 256,
             Resolve demo_url (JStr ''el1'')]
            (snd (get_element_fromAPI_api remote_ok demo_url (JStr ''el1'') empty_state)))
   \<and> memo_agrees
        (run remote_ok
            [Resolve demo_url (JStr ''el2''), Warm ''http://mock-server'' ''proj1'' ''commit2'' 256,
             Resolve demo_url (JStr ''el1'')]
            empty_state)
        demo_url (JStr ''el1'')"
proof -
  have t: "truthy (demo_element ''el1'')" by (simp add: demo_element_def)
  have m: "memo_agrees empty_state demo_url (JStr ''el1'')"
    by (simp add: memo_agrees_def empty_state_def)
  have l: "list_all (\<lambda>c. \<not> warms demo_url c)
        [Resolve demo_url (JStr ''el2''), Warm ''http://mock-server'' ''proj1'' ''commit2'' 256,
         Resolve demo_url (JStr ''el1'')]"
    by (simp add: warms_def get_commit_url_def demo_url_def)
  have c1: "get_element_fromAPI remote_ok demo_url (JStr ''el1'') empty_state
      = (Inr (demo_element ''el1''), snd (get_element_fromAPI remote_ok demo_url (JStr ''el1'') empty_state))"
    by (simp add: demo_first_call)
  have c2: "get_element_fromAPI_api remote_ok demo_url (JStr ''el1'') empty_state
      = (Inr (demo_element ''el1''), snd (get_element_fromAPI_api remote_ok demo_url (JStr ''el1'') empty_state))"
    by (simp add: demo_first_call_api)
  note thm1 = cache_monotonicity_between_warms[of empty_state demo_url "JStr ''el1''" remote_ok
        "demo_element ''el1''"
        "snd (get_element_fromAPI remote_ok demo_url (JStr ''el1'') empty_state)"
        "[Resolve demo_url (JStr ''el2''), Warm ''http://mock-server'' ''proj1'' ''commit2'' 256,
          Resolve demo_url (JStr ''el1'')]"]
  note thm2 = cache_monotonicity_between_warms[of empty_state demo_url "JStr ''el1''" remote_ok
        "demo_element ''el1''"
        "snd (get_element_fromAPI_api remote_ok demo_url (JStr ''el1'') empty_state)"
        "[Resolve demo_url (JStr ''el2''), Warm ''http://mock-server'' ''proj1'' ''commit2'' 256,
          Resolve demo_url (JStr ''el1'')]"]
  have p1: "fst (get_element_fromAPI remote_ok demo_url (JStr ''el1'') empty_state) = Inr (demo_element ''el1'')"
    by (simp add: demo_first_call)
  have p2: "fst (get_element_fromAPI_api remote_ok demo_url (JStr ''el1'') empty_state) = Inr (demo_element ''el1'')"
    by (simp add: demo_first_call_api)
  from thm1 t m l c1 have r1:
    "fst (get_element_fromAPI remote_ok demo_url (JStr ''el1'')
         (run remote_ok
            [Resolve demo_url (JStr ''el2''), Warm ''http://mock-server'' ''proj1'' ''commit2'' 256,
             Resolve demo_url (JStr ''el1'')]
            (snd (get_element_fromAPI remote_ok demo_url (JStr ''el1'') empty_state))))
       = Inr (demo_element ''el1'')"
    "requests (snd (get_element_fromAPI remote_ok demo_url (JStr ''el1'')
         (run remote_ok
            [Resolve demo_url (JStr ''el2''), Warm ''http://mock-server'' ''proj1'' ''commit2'' 256,
             Resolve demo_url (JStr ''el1'')]
            (snd (get_element_fromAPI remote_ok demo_url (JStr ''el1'') empty_state)))))
       = requests (run remote_ok
            [Resolve demo_url (JStr ''el2''), Warm ''http://mock-server'' ''proj1'' ''commit2'' 256,
             Resolve demo_url (JStr ''el1'')]
            (snd (get_element_fromAPI remote_ok demo_url (JStr ''el1'') empty_state)))"
    "memo_agrees
        (run remote_ok
            [Resolve demo_url (JStr ''el2''), Warm ''http://mock-server'' ''proj1'' ''commit2'' 256,
             Resolve demo_url (JStr ''el1'')]
            empty_state)
        demo_url (JStr ''el1'')"
    by blast+
  from thm2 t l c2 have r2:
    "fst (get_element_fromAPI_api remote_ok demo_url (JStr ''el1'')
         (run_api remote_ok
            [Resolve demo_url (JStr ''el2''), Warm ''http://mock-server'' ''proj1'' ''commit2'' 256,
             Resolve demo_url (JStr ''el1'')]
            (snd (get_element_fromAPI_api remote_ok demo_url (JStr ''el1'') empty_state))))
       = Inr (demo_element ''el1'')"
    "requests (snd (get_element_fromAPI_api remote_ok demo_url (JStr ''el1'')
         (run_api remote_ok
            [Resolve demo_url (JStr ''el2''), Warm ''http://mock-server'' ''proj1'' ''commit2'' 256,
             Resolve demo_url (JStr ''el1'')]
            (snd (get_element_fromAPI_api remote_ok demo_url (JStr ''el1'') empty_state)))))
       = requests (run_api remote_ok
            [Resolve demo_url (JStr ''el2''), Warm ''http://mock-server'' ''proj1'' ''commit2'' 256,
             Resolve demo_url (JStr ''el1'')]
            (snd (get_element_fromAPI_api remote_ok demo_url (JStr ''el1'') empty_state)))"
    by blast+
  show ?thesis
    using t m l p1 p2 r1 r2 by (intro conjI)
qed

lemma api_resolved_eq:
  "api_resolved = \<lparr>ELEMENT_CACHE = [demo_url \<mapsto> [(JStr ''el3'', demo_element ''el3'')]],
       element_memo = [], kind_memo = [],
       requests = [Get (demo_url @ ''/elements/el3'')]\<rparr>"
  by (simp add: api_resolved_def get_element_fromAPI_api_def element_try_body_def request_element_def
      send_def cache_put_def first_of_list_def empty_state_def remote_then_gone_def
      demo_element_def Let_def)

lemma api_warm_result:
  "load_model_cache_api remote_then_gone ''http://mock-server'' ''proj1'' ''commit1'' api_resolved =
     (Inr 1, \<lparr>ELEMENT_CACHE = [demo_url \<mapsto> [(JStr ''el2'', demo_element ''el2'')]],
       element_memo = [], kind_memo = [],
       requests = [Get (demo_url @ ''/elements/el3''),
                   Get (demo_url @ ''/elements?page%5Bsize%5D=512'')]\<rparr>)"
  by (simp add: api_resolved_eq load_model_cache_api_def load_model_cache_def
      send_def str_int_512 remote_then_gone_def demo_element_def py_len_def py_contains_def
      py_subscript_def demo_url_def Let_def)

lemma api_warmed_eq:
  "api_warmed = \<lparr>ELEMENT_CACHE = [demo_url \<mapsto> [(JStr ''el2'', demo_element ''el2'')]],
       element_memo = [], kind_memo = [],
       requests = [Get (demo_url @ ''/elements/el3''),
                   Get (demo_url @ ''/elements?page%5Bsize%5D=512'')]\<rparr>"
  unfolding api_warmed_def api_warm_result by simp

lemma memo_resolved_eq:
  "memo_resolved = \<lparr>ELEMENT_CACHE = [demo_url \<mapsto> [(JStr ''el3'', demo_element ''el3'')]],
       element_memo = [((demo_url, JStr ''el3''), demo_element ''el3'')], kind_memo = [],
       requests = [Get (demo_url @ ''/elements/el3'')]\<rparr>"
  by (simp add: memo_resolved_def get_element_fromAPI_def element_try_body_def request_element_def
      send_def cache_put_def first_of_list_def empty_state_def remote_then_gone_def
      demo_element_def lru_store_def Let_def)

lemma memo_warm_result:
  "load_model_cache remote_then_gone ''http://mock-server'' ''proj1'' ''commit1'' 256 memo_resolved =
     (Inr 1, \<lparr>ELEMENT_CACHE = [demo_url \<mapsto> [(JStr ''el2'', demo_element ''el2'')]],
       element_memo = [((demo_url, JStr ''el3''), demo_element ''el3'')], kind_memo = [],
       requests = [Get (demo_url @ ''/elements/el3''),
                   Get (demo_url @ ''/elements?page%5Bsize%5D=256'')]\<rparr>)"
  by (simp add: memo_resolved_eq load_model_cache_def
      send_def str_int_256 remote_then_gone_def demo_element_def py_len_def py_contains_def
      py_subscript_def demo_url_def Let_def)

lemma memo_warmed_eq:
  "memo_warmed = \<lparr>ELEMENT_CACHE = [demo_url \<mapsto> [(JStr ''el2'', demo_element ''el2'')]],
       element_memo = [((demo_url, JStr ''el3''), demo_element ''el3'')], kind_memo = [],
       requests = [Get (demo_url @ ''/elements/el3''),
                   Get (demo_url @ ''/elements?page%5Bsize%5D=256'')]\<rparr>"
  unfolding memo_warmed_def memo_warm_result by simp

lemma memo_serve_result:
  "get_element_fromAPI remote_then_gone demo_url (JStr ''el3'') memo_warmed =
     (Inr (demo_element ''el3''),
      \<lparr>ELEMENT_CACHE = [demo_url \<mapsto> [(JStr ''el2'', demo_element ''el2'')]],
       element_memo = [((demo_url, JStr ''el3''), demo_element ''el3'')], kind_memo = [],
       requests = [Get (demo_url @ ''/elements/el3''),
                   Get (demo_url @ ''/elements?page%5Bsize%5D=256'')]\<rparr>)"
  by (simp add: memo_warmed_eq get_element_fromAPI_def lru_hit_def Let_def)

lemma memo_served_eq:
  "memo_served = \<lparr>ELEMENT_CACHE = [demo_url \<mapsto> [(JStr ''el2'', demo_element ''el2'')]],
       element_memo = [((demo_url, JStr ''el3''), demo_element ''el3'')], kind_memo = [],
       requests = [Get (demo_url @ ''/elements/el3''),
                   Get (demo_url @ ''/elements?page%5Bsize%5D=256'')]\<rparr>"
  unfolding memo_served_def memo_serve_result by simp

lemma run_append: "run remote (xs @ ys) st = run remote ys (run remote xs st)"
proof (induction xs arbitrary: st)
  case Nil
  then show ?case by simp
next
  case (Cons c xs)
  then show ?case by (cases c) simp_all
qed

lemma other_calls_Suc:
  "other_calls (Suc n) = other_calls n @ [Resolve demo_url (JStr (other_id n))]"
  by (simp add: other_calls_def)

lemma take_Cons_take: "take n (x # take n xs) = take n (x # xs)"
  by (cases n) (simp_all add: min_def)

lemma map_of_take_None: "map_of xs k = None \<Longrightarrow> map_of (take n xs) k = None"
  using map_of_take_Some[of n xs k] by (cases "map_of (take n xs) k") auto

text \<open>
  A call for an id that is neither memoized nor in \<^verbatim>\<open>ELEMENT_CACHE\<close>, answered with a
  status other than 200: the request is sent, \<^verbatim>\<open>None\<close> is returned and memoized.
\<close>

lemma get_element_gone:
  assumes "map_of (element_memo st) (q, JStr s) = None" "cache_get st q (JStr s) = None"
    and "remote (length (requests st)) (Get (q @ ''/elements/'' @ s)) = Response status body"
    and "status \<noteq> 200"
  shows "get_element_fromAPI remote q (JStr s) st =
     (Inr JNull,
      st\<lparr>requests := requests st @ [Get (q @ ''/elements/'' @ s)],
         element_memo := lru_store 2048 (q, JStr s) JNull (element_memo st)\<rparr>)"
proof -
  have rq: "request_element remote q (JStr s) st =
      (Inr JNull, st\<lparr>requests := requests st @ [Get (q @ ''/elements/'' @ s)]\<rparr>)"
    using assms(3,4) by (simp add: request_element_def send_def)
  have body: "element_try_body remote q (JStr s) st =
      (Inr JNull, st\<lparr>requests := requests st @ [Get (q @ ''/elements/'' @ s)]\<rparr>)"
    using assms(2) rq by (simp add: element_try_body_def cache_get_def split: option.splits)
  have h: "hashable (JStr s)" by simp
  have m: "map_of (element_memo st) (q, py_key (JStr s)) = None"
    using assms(1) by simp
  show ?thesis
    unfolding get_element_miss[OF h m body] by simp
qed

lemma other_id_inj: "other_id k = other_id n \<longleftrightarrow> k = n"
  by (simp add: other_id_def replicate_eq_replicate)

lemma other_id_not_el: "other_id n \<noteq> ''el3''" "other_id n \<noteq> ''el2''"
  by (simp_all add: other_id_def)

lemma other_memo_fresh:
  "map_of (rev (map (\<lambda>k. ((demo_url, JStr (other_id k)), JNull)) [0..<n])
           @ [((demo_url, JStr ''el3''), demo_element ''el3'')])
     (demo_url, JStr (other_id n)) = None"
proof -
  have "(demo_url, JStr (other_id n)) \<notin>
      fst ` set (rev (map (\<lambda>k. ((demo_url, JStr (other_id k)), JNull)) [0..<n])
           @ [((demo_url, JStr ''el3''), demo_element ''el3'')])"
    by (auto simp: other_id_inj other_id_not_el)
  then show ?thesis by (rule iffD2[OF map_of_eq_None_iff])
qed

text \<open>
  Each of the other calls sends its request, is answered 404, and puts \<^verbatim>\<open>None\<close> at
  the front of the memo table, which keeps its 2048 most recent entries.
\<close>

lemma other_calls_state:
  "run remote_then_gone (other_calls n) memo_served =
     \<lparr>ELEMENT_CACHE = [demo_url \<mapsto> [(JStr ''el2'', demo_element ''el2'')]],
      element_memo = take 2048 (rev (map (\<lambda>k. ((demo_url, JStr (other_id k)), JNull)) [0..<n])
           @ [((demo_url, JStr ''el3''), demo_element ''el3'')]),
      kind_memo = [],
      requests = [Get (demo_url @ ''/elements/el3''), Get (demo_url @ ''/elements?page%5Bsize%5D=256'')]
           @ map (\<lambda>k. Get (demo_url @ ''/elements/'' @ other_id k)) [0..<n]\<rparr>"
proof (induction n)
  case 0
  show ?case by (simp add: other_calls_def memo_served_eq fun_upd_def)
next
  case (Suc n)
  define st where "st =
     \<lparr>ELEMENT_CACHE = [demo_url \<mapsto> [(JStr ''el2'', demo_element ''el2'')]],
      element_memo = take 2048 (rev (map (\<lambda>k. ((demo_url, JStr (other_id k)), JNull)) [0..<n])
           @ [((demo_url, JStr ''el3''), demo_element ''el3'')]),
      kind_memo = [],
      requests = [Get (demo_url @ ''/elements/el3''), Get (demo_url @ ''/elements?page%5Bsize%5D=256'')]
           @ map (\<lambda>k. Get (demo_url @ ''/elements/'' @ other_id k)) [0..<n]\<rparr>"
  have a: "map_of (element_memo st) (demo_url, JStr (other_id n)) = None"
    using map_of_take_None[OF other_memo_fresh, of 2048 n] unfolding st_def
    by (simp del: take_append)
  have b: "cache_get st demo_url (JStr (other_id n)) = None"
    unfolding st_def by (simp add: cache_get_def other_id_not_el)
  have c: "remote_then_gone (length (requests st)) (Get (demo_url @ ''/elements/'' @ other_id n))
      = Response 404 None"
    unfolding st_def by (simp add: remote_then_gone_def)
  have d: "(404::int) \<noteq> 200" by simp
  have "run remote_then_gone (other_calls (Suc n)) memo_served
      = snd (get_element_fromAPI remote_then_gone demo_url (JStr (other_id n)) st)"
    unfolding other_calls_Suc run_append Suc.IH st_def by simp
  also have "\<dots> = st\<lparr>requests := requests st @ [Get (demo_url @ ''/elements/'' @ other_id n)],
         element_memo := lru_store 2048 (demo_url, JStr (other_id n)) JNull (element_memo st)\<rparr>"
    unfolding get_element_gone[where remote = remote_then_gone and st = st and q = demo_url
        and s = "other_id n" and status = 404 and body = None, OF a b c d] by simp
  also have "\<dots> =
     \<lparr>ELEMENT_CACHE = [demo_url \<mapsto> [(JStr ''el2'', demo_element ''el2'')]],
      element_memo = take 2048 (rev (map (\<lambda>k. ((demo_url, JStr (other_id k)), JNull)) [0..<Suc n])
           @ [((demo_url, JStr ''el3''), demo_element ''el3'')]),
      kind_memo = [],
      requests = [Get (demo_url @ ''/elements/el3''), Get (demo_url @ ''/elements?page%5Bsize%5D=256'')]
           @ map (\<lambda>k. Get (demo_url @ ''/elements/'' @ other_id k)) [0..<Suc n]\<rparr>"
    unfolding st_def by (simp add: lru_store_def take_Cons_take del: take_append)
  finally show ?case .
qed

lemma memo_evicted_eq:
  "memo_evicted =
     \<lparr>ELEMENT_CACHE = [demo_url \<mapsto> [(JStr ''el2'', demo_element ''el2'')]],
      element_memo = rev (map (\<lambda>k. ((demo_url, JStr (other_id k)), JNull)) [0..<2048]),
      kind_memo = [],
      requests = [Get (demo_url @ ''/elements/el3''), Get (demo_url @ ''/elements?page%5Bsize%5D=256'')]
           @ map (\<lambda>k. Get (demo_url @ ''/elements/'' @ other_id k)) [0..<2048]\<rparr>"
  unfolding memo_evicted_def other_calls_state by simp

lemma memo_evicted_miss:
  "map_of (element_memo memo_evicted) (demo_url, JStr ''el3'') = None"
proof -
  have "(demo_url, JStr ''el3'') \<notin>
      fst ` set (rev (map (\<lambda>k. ((demo_url, JStr (other_id k)), JNull)) [0..<2048]))"
  proof
    assume "(demo_url, JStr ''el3'') \<in>
      fst ` set (rev (map (\<lambda>k. ((demo_url, JStr (other_id k)), JNull)) [0..<2048]))"
    then obtain k where "other_id k = ''el3''"
      by (auto simp del: upt_Suc)
    then show False using other_id_not_el(1)[of k] by simp
  qed
  then have "map_of (rev (map (\<lambda>k. ((demo_url, JStr (other_id k)), JNull)) [0..<2048]))
      (demo_url, JStr ''el3'') = None"
    by (rule iffD2[OF map_of_eq_None_iff])
  then show ?thesis
    unfolding memo_evicted_eq by (simp del: upt_Suc)
qed

lemma memo_evicted_request:
  "get_element_fromAPI remote_then_gone demo_url (JStr ''el3'') memo_evicted =
     (Inr JNull,
      memo_evicted\<lparr>requests := requests memo_evicted @ [Get (demo_url @ ''/elements/'' @ ''el3'')],
         element_memo := lru_store 2048 (demo_url, JStr ''el3'') JNull (element_memo memo_evicted)\<rparr>)"
proof -
  have b: "cache_get memo_evicted demo_url (JStr ''el3'') = None"
    unfolding memo_evicted_eq by (simp add: cache_get_def)
  have c: "remote_then_gone (length (requests memo_evicted)) (Get (demo_url @ ''/elements/'' @ ''el3''))
      = Response 404 None"
    unfolding memo_evicted_eq by (simp add: remote_then_gone_def del: upt_Suc)
  have d: "(404::int) \<noteq> 200" by simp
  show ?thesis
    by (rule get_element_gone[where remote = remote_then_gone and st = memo_evicted and q = demo_url
        and s = "''el3''" and status = 404 and body = None, OF memo_evicted_miss b c d])
qed


text \<open>
  C1 as stated fails, in both modules. In \<^verbatim>\<open>api/sysmod_api_helpers.py\<close>: \<open>el3\<close>
  is resolved, its context is warmed with the batch \<open>[el2]\<close>, and the next call for
  \<open>el3\<close> sends a request again. In \<^verbatim>\<open>mbse4u_sysmlv2_api_helpers.py\<close>: after the
  same resolve and warm a call for \<open>el3\<close> still returns it, from the memo table; the
  memo table does not agree with \<^verbatim>\<open>ELEMENT_CACHE\<close> there, and after 2048 calls for
  other ids (none of them a \<^verbatim>\<open>load_model_cache\<close>) the next call for \<open>el3\<close> sends a
  request again.
\<close>

theorem cache_monotonicity_counterexample:
  "fst (get_element_fromAPI_api remote_then_gone demo_url (JStr ''el3'') empty_state)
       = Inr (demo_element ''el3'')
   \<and> fst (load_model_cache_api remote_then_gone ''http://mock-server'' ''proj1'' ''commit1'' api_resolved)
       = Inr 1
   \<and> fst (get_element_fromAPI_api remote_then_gone demo_url (JStr ''el3'') api_warmed) = Inr JNull
   \<and> requests (snd (get_element_fromAPI_api remote_then_gone demo_url (JStr ''el3'') api_warmed))
       = requests api_warmed @ [Get (demo_url @ ''/elements/el3'')]
   \<and> fst (get_element_fromAPI remote_then_gone demo_url (JStr ''el3'') empty_state)
       = Inr (demo_element ''el3'')
   \<and> fst (load_model_cache remote_then_gone ''http://mock-server'' ''proj1'' ''commit1'' 256 memo_resolved)
       = Inr 1
   \<and> get_element_fromAPI remote_then_gone demo_url (JStr ''el3'') memo_warmed
       = (Inr (demo_element ''el3''), memo_served)
   \<and> requests memo_served = requests memo_warmed
   \<and> \<not> memo_agrees memo_warmed demo_url (JStr ''el3'')
   \<and> list_all (\<lambda>c. \<not> warms demo_url c) (other_calls 2048)
   \<and> fst (get_element_fromAPI remote_then_gone demo_url (JStr ''el3'') memo_evicted) = Inr JNull
   \<and> requests (snd (get_element_fromAPI remote_then_gone demo_url (JStr ''el3'') memo_evicted))
       = requests memo_evicted @ [Get (demo_url @ ''/elements/el3'')]"
proof -
  have a1: "fst (get_element_fromAPI_api remote_then_gone demo_url (JStr ''el3'') empty_state)
       = Inr (demo_element ''el3'')"
    by (simp add: get_element_fromAPI_api_def element_try_body_def request_element_def
      send_def cache_put_def first_of_list_def empty_state_def remote_then_gone_def
      demo_element_def Let_def)
  have a2: "fst (load_model_cache_api remote_then_gone ''http://mock-server'' ''proj1'' ''commit1'' api_resolved)
       = Inr 1"
    unfolding api_warm_result by simp
  have a3: "fst (get_element_fromAPI_api remote_then_gone demo_url (JStr ''el3'') api_warmed) = Inr JNull
   \<and> requests (snd (get_element_fromAPI_api remote_then_gone demo_url (JStr ''el3'') api_warmed))
       = requests api_warmed @ [Get (demo_url @ ''/elements/el3'')]"
    by (simp add: api_warmed_eq get_element_fromAPI_api_def element_try_body_def request_element_def
      send_def remote_then_gone_def Let_def)
  have m1: "fst (get_element_fromAPI remote_then_gone demo_url (JStr ''el3'') empty_state)
       = Inr (demo_element ''el3'')"
    by (simp add: get_element_fromAPI_def element_try_body_def request_element_def
      send_def cache_put_def first_of_list_def empty_state_def remote_then_gone_def
      demo_element_def lru_store_def Let_def)
  have m2: "fst (load_model_cache remote_then_gone ''http://mock-server'' ''proj1'' ''commit1'' 256 memo_resolved)
       = Inr 1"
    unfolding memo_warm_result by simp
  have m3: "get_element_fromAPI remote_then_gone demo_url (JStr ''el3'') memo_warmed
       = (Inr (demo_element ''el3''), memo_served)"
    unfolding memo_served_def by (simp add: memo_serve_result)
  have m4: "requests memo_served = requests memo_warmed"
    by (simp add: memo_served_eq memo_warmed_eq)
  have m5: "\<not> memo_agrees memo_warmed demo_url (JStr ''el3'')"
    by (simp add: memo_agrees_def memo_warmed_eq cache_get_def demo_element_def)
  have m6: "list_all (\<lambda>c. \<not> warms demo_url c) (other_calls 2048)"
    unfolding other_calls_def list_all_iff by (auto simp: warms_def simp del: upt_Suc)
  have m7: "fst (get_element_fromAPI remote_then_gone demo_url (JStr ''el3'') memo_evicted) = Inr JNull
   \<and> requests (snd (get_element_fromAPI remote_then_gone demo_url (JStr ''el3'') memo_evicted))
       = requests memo_evicted @ [Get (demo_url @ ''/elements/el3'')]"
    unfolding memo_evicted_request by simp
  show ?thesis
    using a1 a2 a3 m1 m2 m3 m4 m5 m6 m7 by (intro conjI) simp_all
qed

section \<open>Properties of the bulk queries\<close>

lemma and_then_ret [simp]: "and_then (ret v) f = f v"
  by (rule ext) (simp add: and_then_def ret_def)

lemma and_then_lift_Inr [simp]: "and_then (lift (Inr v)) f = f v"
  by (rule ext) (simp add: and_then_def lift_def)

lemma and_then_lift_Inl [simp]: "and_then (lift (Inl e)) f = lift (Inl e)"
  by (rule ext) (simp add: and_then_def lift_def)

lemma post_query_failure:
  assumes "remote (length (requests st)) (Post url property val) = Response status body" "status \<noteq> 200"
  shows "post_query remote url property val failure st =
     (Inl (ValueError failure (Some status)), st\<lparr>requests := requests st @ [Post url property val]\<rparr>)"
  using assms by (simp add: post_query_def send_def)

lemma byKind_returns:
  "\<exists>v st'. get_elements_byKind_fromAPI remote server_url project_id commit_id kind st = (Inr v, st')"
  by (auto simp: get_elements_byKind_fromAPI_def catch_all_def split: prod.splits sum.splits)

lemma byKind_api_returns:
  assumes "hashable kind"
  shows "\<exists>v st'. get_elements_byKind_fromAPI_api remote server_url project_id commit_id kind st = (Inr v, st')"
proof (cases "map_of (kind_memo st) (server_url, project_id, commit_id, py_key kind)")
  case None
  obtain v st1 where "get_elements_byKind_fromAPI remote server_url project_id commit_id kind st = (Inr v, st1)"
    using byKind_returns by blast
  with None assms show ?thesis by (simp add: get_elements_byKind_fromAPI_api_def)
next
  case (Some v)
  with assms show ?thesis by (simp add: get_elements_byKind_fromAPI_api_def)
qed

text \<open>
  C4, as amended. A response with a status other than 200 to the query of
  \<^verbatim>\<open>get_elements_byKind_fromAPI\<close> does not reach the caller as an error: the function
  returns the empty list, having sent the one request. This is so in
  \<^verbatim>\<open>mbse4u_sysmlv2_api_helpers.py\<close> for every call, and in
  \<^verbatim>\<open>api/sysmod_api_helpers.py\<close> for every call that reaches the remote (a hashable kind
  whose arguments are not in the memo table). Whatever the remote does, the function does
  not raise, in either module (in the second, for a hashable kind).
\<close>

theorem bulk_query_failure_returns_empty:
  assumes "remote (length (requests st)) (Post (query_results_url server_url project_id commit_id) ''@type'' kind)
             = Response status body"
    and "status \<noteq> 200"
  shows "get_elements_byKind_fromAPI remote server_url project_id commit_id kind st =
           (Inr (JList []),
            st\<lparr>requests := requests st @ [Post (query_results_url server_url project_id commit_id) ''@type'' kind]\<rparr>)
       \<and> (hashable kind \<and> map_of (kind_memo st) (server_url, project_id, commit_id, py_key kind) = None \<longrightarrow>
            fst (get_elements_byKind_fromAPI_api remote server_url project_id commit_id kind st) = Inr (JList [])
            \<and> requests (snd (get_elements_byKind_fromAPI_api remote server_url project_id commit_id kind st))
                = requests st @ [Post (query_results_url server_url project_id commit_id) ''@type'' kind])
       \<and> (\<exists>v st'. get_elements_byKind_fromAPI remote' server_url' project_id' commit_id' kind' st0 = (Inr v, st'))
       \<and> (hashable kind' \<longrightarrow>
            (\<exists>v st'. get_elements_byKind_fromAPI_api remote' server_url' project_id' commit_id' kind' st0 = (Inr v, st')))"
proof (intro conjI)
  show a: "get_elements_byKind_fromAPI remote server_url project_id commit_id kind st =
           (Inr (JList []),
            st\<lparr>requests := requests st @ [Post (query_results_url server_url project_id commit_id) ''@type'' kind]\<rparr>)"
    using assms by (simp add: get_elements_byKind_fromAPI_def catch_all_def post_query_def send_def)
  show "hashable kind \<and> map_of (kind_memo st) (server_url, project_id, commit_id, py_key kind) = None \<longrightarrow>
         fst (get_elements_byKind_fromAPI_api remote server_url project_id commit_id kind st) = Inr (JList [])
         \<and> requests (snd (get_elements_byKind_fromAPI_api remote server_url project_id commit_id kind st))
                = requests st @ [Post (query_results_url server_url project_id commit_id) ''@type'' kind]"
    by (simp add: get_elements_byKind_fromAPI_api_def a)
  show "\<exists>v st'. get_elements_byKind_fromAPI remote' server_url' project_id' commit_id' kind' st0 = (Inr v, st')"
    by (rule byKind_returns)
  show "hashable kind' \<longrightarrow>
         (\<exists>v st'. get_elements_byKind_fromAPI_api remote' server_url' project_id' commit_id' kind' st0 = (Inr v, st'))"
    using byKind_api_returns by blast
qed

text \<open>
  C4 as stated fails: with the remote answering 500, both modules return the empty
  list, not an error.
\<close>

theorem bulk_query_failure_counterexample:
  "get_elements_byKind_fromAPI remote_down ''http://mock-server'' ''proj1'' ''commit1''
       (JStr ''MetadataUsage'') empty_state
     = (Inr (JList []),
        empty_state\<lparr>requests :=
          [Post (query_results_url ''http://mock-server'' ''proj1'' ''commit1'') ''@type'' (JStr ''MetadataUsage'')]\<rparr>)
   \<and> fst (get_elements_byKind_fromAPI_api remote_down ''http://mock-server'' ''proj1'' ''commit1''
       (JStr ''MetadataUsage'') empty_state) = Inr (JList [])"
  by (simp add: get_elements_byKind_fromAPI_api_def get_elements_byKind_fromAPI_def catch_all_def
      post_query_def send_def remote_down_def empty_state_def lru_store_def)

theorem bulk_query_failure_returns_empty_witness:
  "remote_down (length (requests empty_state))
      (Post (query_results_url ''http://mock-server'' ''proj1'' ''commit1'') ''@type'' (JStr ''MetadataUsage''))
     = Response 500 None
   \<and> (500::int) \<noteq> 200
   \<and> hashable (JStr ''MetadataUsage'')
   \<and> map_of (kind_memo empty_state) (''http://mock-server'', ''proj1'', ''commit1'', py_key (JStr ''MetadataUsage'')) = None
   \<and> get_elements_byKind_fromAPI remote_down ''http://mock-server'' ''proj1'' ''commit1''
       (JStr ''MetadataUsage'') empty_state
     = (Inr (JList []),
        empty_state\<lparr>requests := requests empty_state @
          [Post (query_results_url ''http://mock-server'' ''proj1'' ''commit1'') ''@type'' (JStr ''MetadataUsage'')]\<rparr>)
   \<and> fst (get_elements_byKind_fromAPI_api remote_down ''http://mock-server'' ''proj1'' ''commit1''
       (JStr ''MetadataUsage'') empty_state) = Inr (JList [])
   \<and> requests (snd (get_elements_byKind_fromAPI_api remote_down ''http://mock-server'' ''proj1'' ''commit1''
       (JStr ''MetadataUsage'') empty_state))
     = requests empty_state @
          [Post (query_results_url ''http://mock-server'' ''proj1'' ''commit1'') ''@type'' (JStr ''MetadataUsage'')]"
proof -
  have h1: "remote_down (length (requests empty_state))
      (Post (query_results_url ''http://mock-server'' ''proj1'' ''commit1'') ''@type'' (JStr ''MetadataUsage''))
     = Response 500 None"
    by (simp add: remote_down_def)
  have h2: "(500::int) \<noteq> 200" by simp
  have h3: "hashable (JStr ''MetadataUsage'')
     \<and> map_of (kind_memo empty_state) (''http://mock-server'', ''proj1'', ''commit1'', py_key (JStr ''MetadataUsage'')) = None"
    by (simp add: empty_state_def)
  show ?thesis
    using h1 h2 h3
      bulk_query_failure_returns_empty[where remote = remote_down and st = empty_state
        and server_url = "''http://mock-server''" and project_id = "''proj1''" and commit_id = "''commit1''"
        and kind = "JStr ''MetadataUsage''" and status = 500 and body = None]
    by simp
qed

lemma and_then_apply: "and_then m f st = (case m st of (Inl e, st') \<Rightarrow> (Inl e, st') | (Inr v, st') \<Rightarrow> f v st')"
  by (simp add: and_then_def)

lemma byProperty_demo:
  "get_elements_byProperty_fromAPI remote_one ''http://mock-server'' ''proj1'' ''commit1''
       ''qualifiedName'' ''SYSMOD::Project'' empty_state
     = (Inr (JList [demo_part, JList []]),
        empty_state\<lparr>requests :=
          [Post (query_results_url ''http://mock-server'' ''proj1'' ''commit1'') ''qualifiedName'' (JStr ''SYSMOD::Project''),
           Post (query_results_url ''http://mock-server'' ''proj1'' ''commit1'') ''@type'' (JStr ''PartDefinition'')]\<rparr>)"
  by (simp add: get_elements_byProperty_fromAPI_def get_elements_byKind_fromAPI_def catch_all_def
      and_then_apply post_query_def send_def remote_one_def demo_part_def empty_state_def
      py_iter_def py_get_default_def py_get_def py_append_def lift_def ret_def)

text \<open>
  C9 (fetchByProperty returns a flat list). The remote answers the property query with
  the one-element list \<open>[demo_part]\<close>. The function returns a list of two items: the
  element, and the list of additional elements (here empty) that
  \<^verbatim>\<open>query_response_json.append(additional_elements)\<close> added as a single item. The
  last item of the result is a list, not an element dictionary.
\<close>

theorem byProperty_appends_nested_list:
  "fst (get_elements_byProperty_fromAPI remote_one ''http://mock-server'' ''proj1'' ''commit1''
          ''qualifiedName'' ''SYSMOD::Project'' empty_state)
     = Inr (JList [demo_part, JList []])"
  by (simp add: byProperty_demo)

text \<open>
  In general: whatever \<^verbatim>\<open>get_elements_byProperty_fromAPI\<close> returns is the empty list
  (after an exception) or a list whose last item is the nested list of additional elements.
\<close>

lemma byProperty_result_shape:
  assumes "get_elements_byProperty_fromAPI remote server_url project_id commit_id property val st = (r, st')"
  shows "r = Inr (JList []) \<or> (\<exists>xs additional. r = Inr (JList (xs @ [JList additional])))"
  using assms
  unfolding get_elements_byProperty_fromAPI_def catch_all_def and_then_apply lift_def py_append_def
  by (auto split: prod.splits sum.splits json.splits)

section \<open>Properties of the specialization check\<close>

lemma py_eq_refl_hashable: "hashable i \<Longrightarrow> py_eq i i"
  by (cases i) auto

lemma py_get_dict: "py_get X k = Inr v \<Longrightarrow> \<exists>kvs. X = JObj kvs"
  by (cases X) (auto simp: py_get_def py_get_default_def)

lemma py_get_total: "py_get (JObj kvs) k = Inr (case map_of kvs k of None \<Rightarrow> JNull | Some v \<Rightarrow> v)"
  by (auto simp: py_get_def py_get_default_def split: option.splits)

lemma lift_apply: "lift r st = (r, st)"
  by (simp add: lift_def)

lemma ret_apply: "ret v st = (Inr v, st)"
  by (simp add: ret_def)

lemma check_self:
  assumes "py_get X ''@id'' = Inr i" "hashable i"
  shows "check_specialization_hierarchy (Suc depth) remote query_url X X [] st = (Inr (True, [py_key i]), st)"
proof -
  from py_get_dict[OF assms(1)] obtain kvs where X: "X = JObj kvs" by blast
  have n: "py_get X ''name'' = Inr (case map_of kvs ''name'' of None \<Rightarrow> JNull | Some v \<Rightarrow> v)"
    unfolding X by (rule py_get_total)
  show ?thesis
    using assms n py_eq_refl_hashable[OF assms(2)] by (simp add: ret_apply)
qed

lemma check_True_hashable:
  assumes "check_specialization_hierarchy depth remote query_url el super_element [] st = (Inr (True, v), st')"
  shows "\<exists>i. py_get el ''@id'' = Inr i \<and> hashable i"
proof (cases depth)
  case 0
  with assms show ?thesis by (simp add: lift_apply)
next
  case (Suc d)
  show ?thesis
  proof (cases "py_get el ''@id''")
    case (Inl e)
    with assms Suc show ?thesis by (simp add: lift_apply)
  next
    case (Inr i)
    with assms Suc show ?thesis by (cases "hashable i") (simp_all add: lift_apply)
  qed
qed

lemma specializing_loop_excludes:
  assumes "specializing_loop depth remote query_url els super_element element_kind found st = (Inr found', st')"
    and "\<forall>el\<in>set found. el \<in> set cands \<and>
           (\<exists>eid sid. py_get el ''@id'' = Inr eid \<and> hashable eid
               \<and> py_get super_element ''@id'' = Inr sid \<and> \<not> py_eq eid sid)"
    and "set els \<subseteq> set cands"
  shows "\<forall>el\<in>set found'. el \<in> set cands \<and>
           (\<exists>eid sid. py_get el ''@id'' = Inr eid \<and> hashable eid
               \<and> py_get super_element ''@id'' = Inr sid \<and> \<not> py_eq eid sid)"
  using assms
proof (induction els arbitrary: found st)
  case Nil
  then show ?case by (simp add: ret_apply)
next
  case (Cons el els)
  let ?Q = "\<lambda>fs. \<forall>el\<in>set fs. el \<in> set cands \<and>
           (\<exists>eid sid. py_get el ''@id'' = Inr eid \<and> hashable eid
               \<and> py_get super_element ''@id'' = Inr sid \<and> \<not> py_eq eid sid)"
  have sub: "set els \<subseteq> set cands" and el_in: "el \<in> set cands"
    using Cons.prems(3) by auto
  have step: "?Q found'" if "specializing_loop depth remote query_url els super_element element_kind fs st1 = (Inr found', st')"
      "?Q fs" for fs st1
    using Cons.IH[OF that(1) that(2) sub] .
  obtain g where g: "g = (case element_kind of
          None \<Rightarrow> ret False
        | Some k \<Rightarrow>
            if k = [] then ret False
            else and_then (lift (py_get el ''@type'')) (\<lambda>ty. ret (\<not> py_eq ty (JStr k))))" by simp
  obtain sk st0 where sk: "g st = (sk, st0)" by (cases "g st") auto
  have st0: "st0 = st"
    using sk unfolding g by (auto simp: ret_apply lift_apply and_then_apply split: option.splits if_splits sum.splits)
  from Cons.prems(1) obtain skip where skip: "sk = Inr skip"
    unfolding specializing_loop.simps g[symmetric] and_then_apply sk by (cases sk) auto
  show ?case
  proof (cases skip)
    case True
    with Cons.prems(1) have "specializing_loop depth remote query_url els super_element element_kind found st0 = (Inr found', st')"
      unfolding specializing_loop.simps g[symmetric] and_then_apply sk skip by simp
    from step[OF this Cons.prems(2)] show ?thesis .
  next
    case False
    obtain r st1 where chk: "check_specialization_hierarchy depth remote query_url el super_element [] st0 = (r, st1)"
      by (cases "check_specialization_hierarchy depth remote query_url el super_element [] st0") auto
    from Cons.prems(1) obtain b v where r: "r = Inr (b, v)"
      unfolding specializing_loop.simps g[symmetric] and_then_apply sk skip using False chk
      by (cases r) auto
    show ?thesis
    proof (cases b)
      case False
      with Cons.prems(1) have "specializing_loop depth remote query_url els super_element element_kind found st1 = (Inr found', st')"
        unfolding specializing_loop.simps g[symmetric] and_then_apply sk skip using \<open>\<not> skip\<close> chk r by simp
      from step[OF this Cons.prems(2)] show ?thesis .
    next
      case True
      from check_True_hashable[of depth remote query_url el super_element st0 v st1] chk r True
      obtain eid where eid: "py_get el ''@id'' = Inr eid" "hashable eid" by auto
      from Cons.prems(1) obtain sid where sid: "py_get super_element ''@id'' = Inr sid"
        unfolding specializing_loop.simps g[symmetric] and_then_apply sk skip using \<open>\<not> skip\<close> chk r True eid
        by (cases "py_get super_element ''@id''") (auto simp: lift_apply)
      from Cons.prems(1) have rest: "specializing_loop depth remote query_url els super_element element_kind
           (if \<not> py_eq eid sid then found @ [el] else found) st1 = (Inr found', st')"
        unfolding specializing_loop.simps g[symmetric] and_then_apply sk skip using \<open>\<not> skip\<close> chk r True eid sid
        by (simp add: lift_apply)
      have "?Q (if \<not> py_eq eid sid then found @ [el] else found)"
        using Cons.prems(2) el_in eid sid by auto
      from step[OF rest this] show ?thesis .
    qed
  qed
qed

lemma find_elements_specializing_excludes:
  assumes "get_elements_byProperty_fromAPI remote server_url project_id commit_id ''qualifiedName'' name st
             = (Inr (JList (X # rest)), st1)"
    and "find_elements_specializing depth remote server_url project_id commit_id elements name kind st
             = (Inr found, st')"
  shows "\<forall>el\<in>set found. el \<in> set elements \<and>
           (\<exists>eid sid. py_get el ''@id'' = Inr eid \<and> hashable eid
               \<and> py_get X ''@id'' = Inr sid \<and> \<not> py_eq eid sid)"
proof -
  from assms(2) obtain n where n: "py_get X ''name'' = Inr n"
    unfolding find_elements_specializing_def and_then_apply assms(1)
    by (cases "py_get X ''name''") (auto simp: py_first_def lift_apply)
  from assms(2) have loop: "specializing_loop depth remote (get_commit_url server_url project_id commit_id)
             elements X kind [] st1 = (Inr found, st')"
    unfolding find_elements_specializing_def and_then_apply assms(1) using n
    by (simp add: py_first_def lift_apply)
  show ?thesis
    by (rule specializing_loop_excludes[OF loop]) simp_all
qed

text \<open>
  C6 (reflexivity via identity, with self-exclusion). For an element \<open>X\<close> with a hashable
  id (a string, in every element the API serves) and a recursion depth of at least one
  call, \<^verbatim>\<open>check_specialization_hierarchy\<close> of \<open>X\<close> against \<open>X\<close> returns
  \<^verbatim>\<open>True\<close>, sending no request. And when the qualified-name query of
  \<^verbatim>\<open>find_elements_specializing\<close> yields \<open>X\<close> as its first match, the returned list
  does not contain \<open>X\<close>: it holds candidates only, none of them with an id equal to
  the id of \<open>X\<close>.
\<close>

theorem specialization_reflexive_self_excluded:
  "(py_get X ''@id'' = Inr i \<and> hashable i \<longrightarrow>
      check_specialization_hierarchy (Suc depth) remote query_url X X [] st = (Inr (True, [py_key i]), st))
   \<and> (get_elements_byProperty_fromAPI remote server_url project_id commit_id ''qualifiedName'' name st
             = (Inr (JList (X # rest)), st1)
      \<and> find_elements_specializing depth' remote server_url project_id commit_id elements name kind st
             = (Inr found, st')
      \<longrightarrow> X \<notin> set found
        \<and> (\<forall>el\<in>set found. el \<in> set elements \<and>
             (\<exists>eid sid. py_get el ''@id'' = Inr eid \<and> py_get X ''@id'' = Inr sid \<and> \<not> py_eq eid sid)))"
proof (intro conjI impI)
  assume "py_get X ''@id'' = Inr i \<and> hashable i"
  then show "check_specialization_hierarchy (Suc depth) remote query_url X X [] st = (Inr (True, [py_key i]), st)"
    using check_self by blast
next
  assume a: "get_elements_byProperty_fromAPI remote server_url project_id commit_id ''qualifiedName'' name st
             = (Inr (JList (X # rest)), st1)
      \<and> find_elements_specializing depth' remote server_url project_id commit_id elements name kind st
             = (Inr found, st')"
  note ex = find_elements_specializing_excludes[OF conjunct1[OF a] conjunct2[OF a]]
  show "X \<notin> set found"
  proof
    assume "X \<in> set found"
    with ex obtain eid sid where "py_get X ''@id'' = Inr eid" "hashable eid"
      "py_get X ''@id'' = Inr sid" "\<not> py_eq eid sid" by blast
    then show False using py_eq_refl_hashable by auto
  qed
  show "\<forall>el\<in>set found. el \<in> set elements \<and>
          (\<exists>eid sid. py_get el ''@id'' = Inr eid \<and> py_get X ''@id'' = Inr sid \<and> \<not> py_eq eid sid)"
    using ex by blast
qed

lemma find_demo:
  "find_elements_specializing (Suc 0) remote_one ''http://mock-server'' ''proj1'' ''commit1''
       [demo_part] ''SYSMOD::Project'' None empty_state
     = (Inr [],
        empty_state\<lparr>requests :=
          [Post (query_results_url ''http://mock-server'' ''proj1'' ''commit1'') ''qualifiedName'' (JStr ''SYSMOD::Project''),
           Post (query_results_url ''http://mock-server'' ''proj1'' ''commit1'') ''@type'' (JStr ''PartDefinition'')]\<rparr>)"
  unfolding find_elements_specializing_def and_then_apply byProperty_demo
  by (simp add: py_first_def lift_apply ret_apply and_then_apply demo_part_def py_get_def py_get_default_def)

theorem specialization_reflexive_self_excluded_witness:
  "py_get demo_part ''@id'' = Inr (JStr ''x'') \<and> hashable (JStr ''x'')
   \<and> check_specialization_hierarchy (Suc 0) remote_one demo_url demo_part demo_part [] empty_state
        = (Inr (True, [py_key (JStr ''x'')]), empty_state)
   \<and> fst (get_elements_byProperty_fromAPI remote_one ''http://mock-server'' ''proj1'' ''commit1''
          ''qualifiedName'' ''SYSMOD::Project'' empty_state) = Inr (JList (demo_part # [JList []]))
   \<and> fst (find_elements_specializing (Suc 0) remote_one ''http://mock-server'' ''proj1'' ''commit1''
       [demo_part] ''SYSMOD::Project'' None empty_state) = Inr []
   \<and> demo_part \<notin> set []"
proof -
  have h1: "py_get demo_part ''@id'' = Inr (JStr ''x'') \<and> hashable (JStr ''x'')"
    by (simp add: demo_part_def py_get_def py_get_default_def)
  have h2: "get_elements_byProperty_fromAPI remote_one ''http://mock-server'' ''proj1'' ''commit1''
          ''qualifiedName'' ''SYSMOD::Project'' empty_state
        = (Inr (JList (demo_part # [JList []])),
           snd (get_elements_byProperty_fromAPI remote_one ''http://mock-server'' ''proj1'' ''commit1''
          ''qualifiedName'' ''SYSMOD::Project'' empty_state))
      \<and> find_elements_specializing (Suc 0) remote_one ''http://mock-server'' ''proj1'' ''commit1''
       [demo_part] ''SYSMOD::Project'' None empty_state
        = (Inr [], snd (find_elements_specializing (Suc 0) remote_one ''http://mock-server'' ''proj1'' ''commit1''
       [demo_part] ''SYSMOD::Project'' None empty_state))"
    by (simp add: byProperty_demo find_demo)
  note inst = specialization_reflexive_self_excluded[where X = demo_part and i = "JStr ''x''" and depth = 0
      and remote = remote_one and query_url = demo_url and st = empty_state
      and server_url = "''http://mock-server''" and project_id = "''proj1''" and commit_id = "''commit1''"
      and name = "''SYSMOD::Project''" and rest = "[JList []]" and elements = "[demo_part]"
      and kind = None and depth' = "Suc 0" and found = "[]"]
  have r1: "check_specialization_hierarchy (Suc 0) remote_one demo_url demo_part demo_part [] empty_state
        = (Inr (True, [py_key (JStr ''x'')]), empty_state)"
    using inst h1 by blast
  have r2: "demo_part \<notin> set []"
    using inst h2 by blast
  have f1: "fst (get_elements_byProperty_fromAPI remote_one ''http://mock-server'' ''proj1'' ''commit1''
          ''qualifiedName'' ''SYSMOD::Project'' empty_state) = Inr (JList (demo_part # [JList []]))"
    by (simp add: byProperty_demo)
  have f2: "fst (find_elements_specializing (Suc 0) remote_one ''http://mock-server'' ''proj1'' ''commit1''
       [demo_part] ''SYSMOD::Project'' None empty_state) = Inr []"
    by (simp add: find_demo)
  show ?thesis
    using h1 r1 r2 f1 f2 by blast
qed

lemma py_eq_JStr_left: "py_eq (JStr s) t = (t = JStr s)"
  by simp

lemma check_step:
  assumes "py_get element ''@id'' = Inr (JStr i)" "JStr i \<notin> set visited"
    and "py_get super_element ''@id'' = Inr t" "t \<noteq> JStr i"
    and "py_get_default element ''ownedSpecialization'' (JList []) = Inr (JList rel_refs)"
  shows "check_specialization_hierarchy (Suc depth) remote query_url element super_element visited st
       = specialization_loop depth remote query_url rel_refs super_element (visited @ [JStr i]) st"
proof -
  from py_get_dict[OF assms(1)] obtain kvs where "element = JObj kvs" by blast
  then have n: "py_get element ''name'' = Inr (case map_of kvs ''name'' of None \<Rightarrow> JNull | Some v \<Rightarrow> v)"
    by (simp add: py_get_total)
  from py_get_dict[OF assms(3)] obtain kws where "super_element = JObj kws" by blast
  then have m: "py_get super_element ''name'' = Inr (case map_of kws ''name'' of None \<Rightarrow> JNull | Some v \<Rightarrow> v)"
    by (simp add: py_get_total)
  show ?thesis
    using assms n m by (simp add: py_iter_def)
qed

lemma check_revisit:
  assumes "py_get element ''@id'' = Inr (JStr i)" "JStr i \<in> set visited"
  shows "check_specialization_hierarchy (Suc depth) remote query_url element super_element visited st
       = (Inr (False, visited), st)"
  using assms by (simp add: ret_apply)

lemma loop_step:
  assumes "py_subscript rel_ref ''@id'' = Inr (JStr r)"
    and "get_element_fromAPI remote query_url (JStr r) st = (Inr rel, st1)" "truthy rel"
    and "py_get rel ''general'' = Inr general" "truthy general"
    and "py_subscript general ''@id'' = Inr (JStr g)"
    and "get_element_fromAPI remote query_url (JStr g) st1 = (Inr general_el, st2)" "truthy general_el"
    and "check_specialization_hierarchy depth remote query_url general_el super_element visited st2
           = (Inr (False, visited'), st3)"
  shows "specialization_loop depth remote query_url [rel_ref] super_element visited st
       = (Inr (False, visited'), st3)"
  using assms by (simp add: and_then_apply lift_apply ret_apply)

lemma specialization_loop_Cons:
  assumes "py_subscript rel_ref ''@id'' = Inr rel_id"
    and "get_element_fromAPI remote q rel_id st = (Inr rel, st1)"
  shows "specialization_loop depth remote q (rel_ref # rest) super visited st =
    (if truthy rel then
       (case py_get rel ''general'' of
          Inl e \<Rightarrow> (Inl e, st1)
        | Inr general \<Rightarrow>
            if truthy general then
              (case py_subscript general ''@id'' of
                 Inl e \<Rightarrow> (Inl e, st1)
               | Inr gid \<Rightarrow>
                   (case get_element_fromAPI remote q gid st1 of
                      (Inl e, st2) \<Rightarrow> (Inl e, st2)
                    | (Inr general_el, st2) \<Rightarrow>
                        if truthy general_el then
                          (case check_specialization_hierarchy depth remote q general_el super visited st2 of
                             (Inl e, st3) \<Rightarrow> (Inl e, st3)
                           | (Inr r, st3) \<Rightarrow>
                               if fst r then (Inr (True, snd r), st3)
                               else specialization_loop depth remote q rest super (snd r) st3)
                        else specialization_loop depth remote q rest super visited st2))
            else specialization_loop depth remote q rest super visited st1)
     else specialization_loop depth remote q rest super visited st1)"
  using assms
  by (simp add: and_then_apply lift_apply ret_apply split: sum.splits prod.splits)

lemma visited_distinct_aux:
  "(\<forall>st b v st'. check_specialization_hierarchy depth remote q el super visited st = (Inr (b, v), st')
       \<longrightarrow> distinct visited \<longrightarrow> distinct v \<and> set visited \<subseteq> set v)"
  "(\<forall>st b v st'. specialization_loop depth remote q rel_refs super visited st = (Inr (b, v), st')
       \<longrightarrow> distinct visited \<longrightarrow> distinct v \<and> set visited \<subseteq> set v)"
proof (induction depth remote q el super visited and depth remote q rel_refs super visited
    rule: check_specialization_hierarchy_specialization_loop.induct)
  case (1 remote query_url element super_element visited)
  then show ?case by (simp add: lift_apply)
next
  case (2 depth remote query_url element super_element visited)
  show ?case
  proof (intro allI impI)
    fix st b v st'
    assume run: "check_specialization_hierarchy (Suc depth) remote query_url element super_element visited st = (Inr (b, v), st')"
      and d: "distinct visited"
    from run obtain el_id where id: "py_get element ''@id'' = Inr el_id"
      by (cases "py_get element ''@id''") (auto simp: lift_apply)
    from run id have h: "hashable el_id"
      by (cases "hashable el_id") (auto simp: lift_apply)
    show "distinct v \<and> set visited \<subseteq> set v"
    proof (cases "py_key el_id \<in> set visited")
      case True
      with run id h d show ?thesis by (simp add: ret_apply)
    next
      case False
      from run id h False obtain n where n: "py_get element ''name'' = Inr n"
        by (cases "py_get element ''name''") (auto simp: lift_apply)
      from run id h False n obtain m where m: "py_get super_element ''name'' = Inr m"
        by (cases "py_get super_element ''name''") (auto simp: lift_apply)
      from run id h False n m obtain sid where sid: "py_get super_element ''@id'' = Inr sid"
        by (cases "py_get super_element ''@id''") (auto simp: lift_apply)
      show ?thesis
      proof (cases "py_eq el_id sid")
        case True
        with run id h False n m sid d \<open>py_key el_id \<notin> set visited\<close> show ?thesis
          by (auto simp: ret_apply)
      next
        case ne: False
        from run id h False n m sid ne obtain refs where refs: "py_get_default element ''ownedSpecialization'' (JList []) = Inr refs"
          by (cases "py_get_default element ''ownedSpecialization'' (JList [])") (auto simp: lift_apply)
        from run id h False n m sid ne refs obtain rel_refs where rr: "py_iter refs = Inr rel_refs"
          by (cases "py_iter refs") (auto simp: lift_apply)
        from run id h False n m sid ne refs rr
        have loop: "specialization_loop depth remote query_url rel_refs super_element (visited @ [py_key el_id]) st = (Inr (b, v), st')"
          by simp
        have d': "distinct (visited @ [py_key el_id])" using d False by simp
        have "\<forall>st b v st'. specialization_loop depth remote query_url rel_refs super_element (visited @ [py_key el_id]) st = (Inr (b, v), st')
           \<longrightarrow> distinct (visited @ [py_key el_id]) \<longrightarrow> distinct v \<and> set (visited @ [py_key el_id]) \<subseteq> set v"
          using "2.IH" h False ne by blast
        with loop d'
        have "distinct v \<and> set (visited @ [py_key el_id]) \<subseteq> set v" by blast
        then show ?thesis by auto
      qed
    qed
  qed
next
  case (3 depth remote query_url super_element visited)
  then show ?case by (simp add: ret_apply)
next
  case (4 depth remote query_url rel_ref rest super_element visited)
  show ?case
  proof (intro allI impI)
    fix st b v st'
    assume run: "specialization_loop depth remote query_url (rel_ref # rest) super_element visited st = (Inr (b, v), st')"
      and d: "distinct visited"
    from run obtain rel_id where rid: "py_subscript rel_ref ''@id'' = Inr rel_id"
      by (cases "py_subscript rel_ref ''@id''") (auto simp: lift_apply)
    obtain r1 st1 where g1: "get_element_fromAPI remote query_url rel_id st = (r1, st1)"
      by (cases "get_element_fromAPI remote query_url rel_id st") auto
    from run rid g1 obtain rel where rel: "r1 = Inr rel"
      by (cases r1) (auto simp: and_then_apply)
    note run' = run[unfolded specialization_loop_Cons[OF rid g1[unfolded rel]]]
    show "distinct v \<and> set visited \<subseteq> set v"
    proof (cases "truthy rel")
      case False
      with run' have "specialization_loop depth remote query_url rest super_element visited st1 = (Inr (b, v), st')"
        by simp
      moreover have "\<forall>st b v st'. specialization_loop depth remote query_url rest super_element visited st = (Inr (b, v), st')
           \<longrightarrow> distinct visited \<longrightarrow> distinct v \<and> set visited \<subseteq> set v"
        using "4.IH"(5) False by blast
      ultimately show ?thesis using d by blast
    next
      case trel: True
      from run' trel obtain general where gen: "py_get rel ''general'' = Inr general"
        by (cases "py_get rel ''general''") auto
      show ?thesis
      proof (cases "truthy general")
        case False
        with run' trel gen have "specialization_loop depth remote query_url rest super_element visited st1 = (Inr (b, v), st')"
          by simp
        moreover have "\<forall>st b v st'. specialization_loop depth remote query_url rest super_element visited st = (Inr (b, v), st')
           \<longrightarrow> distinct visited \<longrightarrow> distinct v \<and> set visited \<subseteq> set v"
          using "4.IH"(4) trel False by blast
        ultimately show ?thesis using d by blast
      next
        case tgen: True
        from run' trel gen tgen obtain gid where gid: "py_subscript general ''@id'' = Inr gid"
          by (cases "py_subscript general ''@id''") auto
        obtain r2 st2 where g2: "get_element_fromAPI remote query_url gid st1 = (r2, st2)"
          by (cases "get_element_fromAPI remote query_url gid st1") auto
        from run' trel gen tgen gid g2 obtain general_el where gel: "r2 = Inr general_el"
          by (cases r2) auto
        show ?thesis
        proof (cases "truthy general_el")
          case False
          with run' trel gen tgen gid g2 gel
          have "specialization_loop depth remote query_url rest super_element visited st2 = (Inr (b, v), st')"
            by simp
          moreover have "\<forall>st b v st'. specialization_loop depth remote query_url rest super_element visited st = (Inr (b, v), st')
             \<longrightarrow> distinct visited \<longrightarrow> distinct v \<and> set visited \<subseteq> set v"
            using "4.IH"(3) trel tgen False by blast
          ultimately show ?thesis using d by blast
        next
          case tel: True
          obtain r3 st3 where c3: "check_specialization_hierarchy depth remote query_url general_el super_element visited st2 = (r3, st3)"
            by (cases "check_specialization_hierarchy depth remote query_url general_el super_element visited st2") auto
          from run' trel gen tgen gid g2 gel tel c3 obtain b3 v3 where r3: "r3 = Inr (b3, v3)"
            by (cases r3) auto
          have "\<forall>st b v st'. check_specialization_hierarchy depth remote query_url general_el super_element visited st = (Inr (b, v), st')
             \<longrightarrow> distinct visited \<longrightarrow> distinct v \<and> set visited \<subseteq> set v"
            using "4.IH"(1) trel tgen tel by blast
          with c3 r3 d have v3: "distinct v3" "set visited \<subseteq> set v3" by blast+
          show ?thesis
          proof (cases b3)
            case True
            with run' trel gen tgen gid g2 gel tel c3 r3 have "v = v3"
              by (simp add: ret_apply)
            with v3 show ?thesis by simp
          next
            case False
            with run' trel gen tgen gid g2 gel tel c3 r3
            have "specialization_loop depth remote query_url rest super_element v3 st3 = (Inr (b, v), st')"
              by simp
            moreover have "\<forall>st b v st'. specialization_loop depth remote query_url rest super_element (snd (b3, v3)) st = (Inr (b, v), st')
               \<longrightarrow> distinct (snd (b3, v3)) \<longrightarrow> distinct v \<and> set (snd (b3, v3)) \<subseteq> set v"
              using "4.IH"(2)[OF trel tgen tel, of "(b3, v3)"] False by simp
            ultimately have "distinct v \<and> set v3 \<subseteq> set v" using v3 by auto
            with v3 show ?thesis by blast
          qed
        qed
      qed
    qed
  qed
qed

section \<open>Properties of the metadata lookup\<close>

lemma annotated_ids_references:
  "list_all is_reference xs \<Longrightarrow> annotated_ids xs = Inr (map (\<lambda>r. field r ''@id'') xs)"
proof (induction xs)
  case Nil
  then show ?case by simp
next
  case (Cons x xs)
  then show ?case
    by (auto simp: is_reference_def field_def py_get_def py_get_default_def split: json.splits option.splits)
qed

lemma wf_usage_contribution:
  assumes "wf_usage usage"
  shows "usage_contribution usage = Inr (spec_annotated_ids usage)"
proof -
  from assms obtain kvs where u: "usage = JObj kvs"
    by (cases usage) (auto simp: wf_usage_def)
  show ?thesis
  proof (cases "map_of kvs ''annotatedElement''")
    case None
    then show ?thesis
      by (simp add: u usage_contribution_def spec_annotated_ids_def field_def py_get_def py_get_default_def
          split: option.splits)
  next
    case (Some a)
    with assms u obtain xs where a: "a = JList xs" "list_all is_reference xs"
      by (cases a) (auto simp: wf_usage_def)
    show ?thesis
    proof (cases xs)
      case Nil
      with Some a show ?thesis
        by (simp add: u usage_contribution_def spec_annotated_ids_def field_def py_get_def py_get_default_def
            split: option.splits)
    next
      case (Cons x xs')
      with Some a annotated_ids_references[OF a(2)] show ?thesis
        by (simp add: u usage_contribution_def spec_annotated_ids_def field_def py_get_default_def)
    qed
  qed
qed

lemma wf_metadata_id:
  assumes "wf_usage usage"
  shows "metadata_id_of usage = Inr (field (field usage ''metadataDefinition'') ''@id'')"
  using assms
  by (auto simp: wf_usage_def metadata_id_of_def field_def py_get_def py_get_default_def
      split: json.splits option.splits)

lemma definition_loop_result:
  assumes "usage_contribution item = Inr c"
  shows "definition_loop item metadata_id dict results =
     Inr (map (\<lambda>(k, old). (k, old @ concat (map (\<lambda>(key, d). if key = k \<and> py_eq metadata_id d then c else []) dict)))
            results)"
proof (induction dict arbitrary: results)
  case Nil
  then show ?case by (simp add: case_prod_beta)
next
  case (Cons kd dict)
  obtain key d where kd: "kd = (key, d)" by (cases kd)
  show ?case
    unfolding kd using assms
    by (auto simp: Cons.IH results_append_def case_prod_beta)
qed

lemma concat_distinct_key:
  assumes "distinct (map fst dict)" "(k, d0) \<in> set dict"
  shows "concat (map (\<lambda>(key, d). if key = k \<and> P d then c else []) dict) = (if P d0 then c else [])"
  using assms
proof (induction dict)
  case Nil
  then show ?case by simp
next
  case (Cons kd dict)
  obtain key d where kd: "kd = (key, d)" by (cases kd)
  show ?case
  proof (cases "key = k")
    case True
    with Cons.prems kd have "d = d0" "k \<notin> fst ` set dict"
      by (auto simp: image_iff)
    then have "concat (map (\<lambda>(key, d). if key = k \<and> P d then c else []) dict) = []"
      by (induction dict) (auto simp: image_iff)
    with True kd \<open>d = d0\<close> show ?thesis by simp
  next
    case False
    with Cons kd show ?thesis by auto
  qed
qed

lemma usage_loop_result:
  assumes "list_all wf_usage items" "distinct (map fst dict)"
  shows "usage_loop items dict (map (\<lambda>(k, d). (k, acc d)) dict) =
     Inr (map (\<lambda>(k, d). (k, acc d @ concat (map spec_annotated_ids (filter (spec_matches d) items)))) dict)"
  using assms(1)
proof (induction items arbitrary: acc)
  case Nil
  then show ?case by simp
next
  case (Cons item items)
  then have wf: "wf_usage item" and rest: "list_all wf_usage items" by simp_all
  let ?mid = "field (field item ''metadataDefinition'') ''@id''"
  let ?c = "spec_annotated_ids item"
  have one: "definition_loop item ?mid dict (map (\<lambda>(k, d). (k, acc d)) dict) =
      Inr (map (\<lambda>(k, d). (k, acc d @ (if py_eq ?mid d then ?c else []))) dict)"
    unfolding definition_loop_result[OF wf_usage_contribution[OF wf]]
    using concat_distinct_key[OF assms(2), where P = "py_eq ?mid" and c = ?c]
    by (auto simp: case_prod_beta)
  have "usage_loop (item # items) dict (map (\<lambda>(k, d). (k, acc d)) dict)
      = usage_loop items dict (map (\<lambda>(k, d). (k, acc d @ (if py_eq ?mid d then ?c else []))) dict)"
    by (simp add: wf_metadata_id[OF wf] one)
  also have "\<dots> = Inr (map (\<lambda>(k, d). (k, (acc d @ (if py_eq ?mid d then ?c else []))
                  @ concat (map spec_annotated_ids (filter (spec_matches d) items)))) dict)"
    by (rule Cons.IH[OF rest])
  also have "\<dots> = Inr (map (\<lambda>(k, d). (k, acc d @ concat (map spec_annotated_ids (filter (spec_matches d) (item # items))))) dict)"
    by (simp add: spec_matches_def case_prod_beta)
  finally show ?case .
qed

text \<open>
  C8 (metadata self-annotation fallback). When the query for the metadata usages returns
  a list of well-formed usages, and the requested definitions are a dictionary (each key
  once), \<^verbatim>\<open>get_metadatausage_annotatedElement_ids\<close> returns what the specification
  describes: under each key, for every usage whose \<^verbatim>\<open>metadataDefinition\<close> reference
  matches the key's definition id, in order, the ids in the usage's \<^verbatim>\<open>annotatedElement\<close>
  list or, when that list is empty (or missing), the usage's own id. This holds in both
  helper modules.
\<close>

theorem annotatedElement_ids_as_specified:
  assumes "list_all wf_usage usages" "distinct (map fst metadefinition_dict)"
  shows "(get_elements_byKind_fromAPI remote server_url project_id commit_id (JStr ''MetadataUsage'') st
            = (Inr (JList usages), st')
          \<longrightarrow> get_metadatausage_annotatedElement_ids remote server_url project_id commit_id metadefinition_dict st
            = (Inr (spec_annotatedElementIds usages metadefinition_dict), st'))
       \<and> (get_elements_byKind_fromAPI_api remote server_url project_id commit_id (JStr ''MetadataUsage'') st
            = (Inr (JList usages), st')
          \<longrightarrow> get_metadatausage_annotatedElement_ids_api remote server_url project_id commit_id metadefinition_dict st
            = (Inr (spec_annotatedElementIds usages metadefinition_dict), st'))"
proof -
  have loop: "usage_loop usages metadefinition_dict (map (\<lambda>(k, d). (k, [])) metadefinition_dict)
      = Inr (spec_annotatedElementIds usages metadefinition_dict)"
    using usage_loop_result[OF assms, of "\<lambda>d. []"] by (simp add: spec_annotatedElementIds_def)
  show ?thesis
    by (simp add: get_metadatausage_annotatedElement_ids_def get_metadatausage_annotatedElement_ids_api_def
        and_then_apply lift_apply py_len_def py_iter_def loop)
qed

lemma demo_usages_wf: "list_all wf_usage demo_usages"
  by (simp add: demo_usages_def wf_usage_def is_reference_def)

lemma demo_usages_query:
  "get_elements_byKind_fromAPI remote_usages ''http://mock-server'' ''proj1'' ''commit1''
      (JStr ''MetadataUsage'') empty_state
    = (Inr (JList demo_usages),
       empty_state\<lparr>requests :=
         [Post (query_results_url ''http://mock-server'' ''proj1'' ''commit1'') ''@type'' (JStr ''MetadataUsage'')]\<rparr>)"
  by (simp add: get_elements_byKind_fromAPI_def catch_all_def post_query_def send_def remote_usages_def
      empty_state_def)

lemma demo_usages_spec:
  "spec_annotatedElementIds demo_usages [(''FB'', JStr ''D'')] = [(''FB'', [JStr ''u1'', JStr ''e1'', JStr ''e2''])]"
  by (simp add: spec_annotatedElementIds_def spec_matches_def spec_annotated_ids_def field_def demo_usages_def)

theorem annotatedElement_ids_as_specified_witness:
  "list_all wf_usage demo_usages \<and> distinct (map fst [(''FB'', JStr ''D'')])
   \<and> fst (get_elements_byKind_fromAPI remote_usages ''http://mock-server'' ''proj1'' ''commit1''
        (JStr ''MetadataUsage'') empty_state) = Inr (JList demo_usages)
   \<and> fst (get_metadatausage_annotatedElement_ids remote_usages ''http://mock-server'' ''proj1'' ''commit1''
        [(''FB'', JStr ''D'')] empty_state)
       = Inr [(''FB'', [JStr ''u1'', JStr ''e1'', JStr ''e2''])]"
proof -
  have d: "distinct (map fst [(''FB'', JStr ''D'')])" by simp
  note inst = annotatedElement_ids_as_specified[OF demo_usages_wf d, where remote = remote_usages
      and server_url = "''http://mock-server''" and project_id = "''proj1''" and commit_id = "''commit1''"
      and st = empty_state,
      THEN conjunct1, rule_format, OF demo_usages_query]
  show ?thesis
    using demo_usages_wf d inst by (simp add: demo_usages_query demo_usages_spec)
qed

section \<open>Properties of the feature lookup\<close>

lemma get_elements_fromAPI_returns:
  "\<exists>els st'. get_elements_fromAPI remote query_url ids elements st = (Inr els, st')"
proof (induction ids arbitrary: elements st)
  case Nil
  then show ?case by (simp add: ret_apply)
next
  case (Cons i ids)
  obtain r st1 where g: "get_element_fromAPI remote query_url i st = (r, st1)"
    by (cases "get_element_fromAPI remote query_url i st") auto
  show ?case
  proof (cases r)
    case (Inl e)
    with g Cons.IH[of elements st1] show ?thesis by simp
  next
    case (Inr v)
    show ?thesis
    proof (cases "\<exists>xs. v = JList xs")
      case True
      then obtain xs where "v = JList xs" by blast
      with g Inr Cons.IH[of "elements @ xs" st1] show ?thesis by simp
    next
      case False
      with g Inr Cons.IH[of "elements @ [v]" st1] show ?thesis
        by (cases v) simp_all
    qed
  qed
qed

text \<open>
  C10. For an owner dictionary without an \<^verbatim>\<open>inheritedFeature\<close> key whose direct
  features of the requested kind were resolved and scanned without finding the requested
  name, \<^verbatim>\<open>get_feature\<close> raises \<^verbatim>\<open>TypeError\<close> (\<^verbatim>\<open>len(None)\<close>) instead of returning
  \<^verbatim>\<open>None\<close>, and so does \<^verbatim>\<open>get_feature_value\<close>.
\<close>

theorem get_feature_without_inheritedFeature_raises:
  assumes "owner = JObj kvs" "map_of kvs ''inheritedFeature'' = None"
    and "feature_ids_of owner feature_kind = Inr feature_ids"
    and "get_elements_fromAPI remote (get_commit_url server_url project_id commit_id) feature_ids [] st
           = (Inr owned_usages, st')"
    and "find_usage feature_kind feature_name owned_usages = Inr None"
  shows "get_feature remote server_url project_id commit_id owner feature_name feature_kind st
           = (Inl TypeError, st')
       \<and> get_feature_value remote server_url project_id commit_id owner feature_name feature_kind st
           = (Inl TypeError, st')"
proof -
  have o: "py_get owner ''@id'' = Inr (case map_of kvs ''@id'' of None \<Rightarrow> JNull | Some v \<Rightarrow> v)"
    "py_get owner ''inheritedFeature'' = Inr JNull"
    using assms(1,2) by (simp_all add: py_get_total)
  have f: "get_feature remote server_url project_id commit_id owner feature_name feature_kind st
           = (Inl TypeError, st')"
    using o assms(3,4,5)
    by (simp add: get_feature_def and_then_apply lift_apply py_len_def)
  then show ?thesis
    using o by (simp add: get_feature_value_def and_then_apply lift_apply)
qed

lemma demo_owner_steps:
  "feature_ids_of demo_owner ''AttributeUsage'' = Inr [JStr ''f1'']"
  "get_elements_fromAPI remote_feature (get_commit_url ''http://mock-server'' ''proj1'' ''commit1'')
       [JStr ''f1''] [] empty_state
     = (Inr [demo_feature],
        snd (get_elements_fromAPI remote_feature (get_commit_url ''http://mock-server'' ''proj1'' ''commit1'')
       [JStr ''f1''] [] empty_state))"
  "find_usage ''AttributeUsage'' ''risk'' [demo_feature] = Inr None"
  by (simp_all add: feature_ids_of_def feature_kind_mapping_def demo_owner_def demo_feature_def
      py_get_default_def py_get_def py_iter_def py_subscript_def
      get_element_fromAPI_def element_try_body_def request_element_def send_def cache_put_def
      first_of_list_def empty_state_def lru_store_def remote_feature_def ret_apply Let_def)

theorem get_feature_without_inheritedFeature_raises_witness:
  "map_of [(''@id'', JStr ''o1''), (''@type'', JStr ''PartUsage''),
           (''ownedFeature'', JList [JObj [(''@id'', JStr ''f1'')]])] ''inheritedFeature'' = None
   \<and> feature_ids_of demo_owner ''AttributeUsage'' = Inr [JStr ''f1'']
   \<and> find_usage ''AttributeUsage'' ''risk'' [demo_feature] = Inr None
   \<and> fst (get_feature remote_feature ''http://mock-server'' ''proj1'' ''commit1'' demo_owner
          ''risk'' ''AttributeUsage'' empty_state) = Inl TypeError
   \<and> fst (get_feature_value remote_feature ''http://mock-server'' ''proj1'' ''commit1'' demo_owner
          ''risk'' ''AttributeUsage'' empty_state) = Inl TypeError"
proof -
  have k: "map_of [(''@id'', JStr ''o1''), (''@type'', JStr ''PartUsage''),
           (''ownedFeature'', JList [JObj [(''@id'', JStr ''f1'')]])] ''inheritedFeature'' = None"
    by simp
  note inst = get_feature_without_inheritedFeature_raises[OF demo_owner_def k demo_owner_steps]
  show ?thesis
    using k demo_owner_steps(1,3) inst by simp
qed

text \<open>
  C7 (feature-value terminal interpretation). The clause that absence is returned, not an
  error, fails on the code. With the remote answering 404 to every request, the owned
  relationship \<open>r1\<close> does not resolve: \<^verbatim>\<open>get_element_fromAPI\<close> returns \<^verbatim>\<open>None\<close> and
  the print before the \<^verbatim>\<open>if rel and ...\<close> guard calls \<^verbatim>\<open>rel.get\<close> on it. With the
  relationship served and its value \<open>v1\<close> answered by 404, \<^verbatim>\<open>value.get('@type')\<close> is
  called on \<^verbatim>\<open>None\<close> one line before the \<^verbatim>\<open>if value:\<close> guard. Both calls raise
  \<^verbatim>\<open>AttributeError\<close>.
\<close>

theorem unresolved_relationship_raises:
  "fst (get_attribute_value_from_usage remote_not_found demo_url demo_attr empty_state) = Inl AttributeError
   \<and> fst (get_attribute_value_from_usage remote_value_missing demo_url demo_attr empty_state)
       = Inl AttributeError"
  by (simp add: get_attribute_value_from_usage_def and_then_apply lift_apply ret_apply
      demo_attr_def demo_feature_value_def py_get_def py_get_default_def py_len_def py_iter_def
      py_subscript_def get_element_fromAPI_def element_try_body_def request_element_def send_def
      cache_put_def first_of_list_def empty_state_def lru_store_def remote_not_found_def
      remote_value_missing_def demo_url_def Let_def)

text \<open>
  The parts of C7 that hold. The terminal interpretation of a resolved value element: a
  \<^verbatim>\<open>value\<close> field is returned as it is; a FeatureReferenceExpression without one
  returns the declared name of its resolved referent; an EnumerationUsage without one
  returns its own name.
\<close>

lemma interpret_value_literal:
  assumes "py_subscript val ''value'' = Inr v"
  shows "interpret_value remote query_url val st = (Inr (Some v), st)"
proof -
  from assms obtain kvs where "val = JObj kvs" "map_of kvs ''value'' = Some v"
    by (cases val) (auto simp: py_subscript_def split: option.splits)
  then show ?thesis
    by (simp add: interpret_value_def and_then_apply lift_apply ret_apply py_get_total
        py_contains_def py_subscript_def)
qed

lemma interpret_value_reference:
  assumes "val = JObj kvs" "map_of kvs ''value'' = None"
    and "map_of kvs ''@type'' = Some (JStr ''FeatureReferenceExpression'')"
    and "map_of kvs ''referent'' = Some referent" "py_get referent ''@id'' = Inr referent_id"
    and "get_element_fromAPI remote query_url referent_id st = (Inr enumeration, st')"
    and "truthy enumeration" "py_get enumeration ''declaredName'' = Inr n"
  shows "interpret_value remote query_url val st = (Inr (Some n), st')"
  using assms
  by (simp add: interpret_value_def and_then_apply lift_apply ret_apply py_get_total py_contains_def)

lemma interpret_value_enumeration_usage:
  assumes "val = JObj kvs" "map_of kvs ''value'' = None"
    and "map_of kvs ''@type'' = Some (JStr ''EnumerationUsage'')"
  shows "interpret_value remote query_url val st = (Inr (Some (field val ''name'')), st)"
  using assms
  by (simp add: interpret_value_def and_then_apply lift_apply ret_apply py_get_total py_contains_def
      field_def)

text \<open>
  The first owned relationship is a FeatureValue whose value resolves to an element that
  is not a FeatureChainExpression: the function returns what \<open>interpret_value\<close> returns
  for it, and goes on to the next relationship when that is nothing.
\<close>

lemma relationship_loop_feature_value:
  assumes "py_subscript rel_ref ''@id'' = Inr rel_id"
    and "get_element_fromAPI remote query_url rel_id st = (Inr (JObj rel), st1)"
    and "map_of rel ''@type'' = Some (JStr ''FeatureValue'')"
    and "map_of rel ''value'' = Some value_id" "truthy value_id" "py_get value_id ''@id'' = Inr vid"
    and "get_element_fromAPI remote query_url vid st1 = (Inr (JObj val), st2)" "val \<noteq> []"
    and "map_of val ''@type'' \<noteq> Some (JStr ''FeatureChainExpression'')"
  shows "relationship_loop remote query_url (rel_ref # rest) st =
     (case interpret_value remote query_url (JObj val) st2 of
        (Inl e, st3) \<Rightarrow> (Inl e, st3)
      | (Inr (Some v), st3) \<Rightarrow> (Inr v, st3)
      | (Inr None, st3) \<Rightarrow> relationship_loop remote query_url rest st3)"
proof -
  have rel_ne: "rel \<noteq> []" using assms(3) by auto
  have ty: "\<not> py_eq (case map_of val ''@type'' of None \<Rightarrow> JNull | Some v \<Rightarrow> v) (JStr ''FeatureChainExpression'')"
    using assms(9) by (cases "map_of val ''@type''"; cases "the (map_of val ''@type'')") auto
  show ?thesis
    using assms(1-8) rel_ne ty
    by (simp add: and_then_apply lift_apply ret_apply py_get_total split: sum.splits option.splits prod.splits)
qed

text \<open>An attribute usage without owned relationships has no value: \<^verbatim>\<open>None\<close> is returned.\<close>

lemma no_relationship_returns_None:
  assumes "map_of kvs ''ownedRelationship'' = None \<or> map_of kvs ''ownedRelationship'' = Some (JList [])"
  shows "get_attribute_value_from_usage remote query_url (JObj kvs) st = (Inr JNull, st)"
  using assms
  by (auto simp: get_attribute_value_from_usage_def and_then_apply lift_apply ret_apply py_get_total
      py_get_default_def py_len_def py_iter_def)

text \<open>The specification's round trip: the literal 42 and the enumeration usage HIGH.\<close>

lemma feature_value_round_trip:
  "fst (get_attribute_value_from_usage remote_literal demo_url demo_attr empty_state) = Inr (JInt 42)"
  "fst (get_attribute_value_from_usage remote_enumeration demo_url demo_attr empty_state) = Inr (JStr ''HIGH'')"
  by (simp_all add: get_attribute_value_from_usage_def interpret_value_def and_then_apply lift_apply ret_apply
      demo_attr_def demo_feature_value_def py_get_def py_get_default_def py_len_def py_iter_def
      py_subscript_def py_contains_def get_element_fromAPI_def element_try_body_def request_element_def
      send_def cache_put_def first_of_list_def empty_state_def lru_store_def remote_literal_def
      remote_enumeration_def demo_url_def Let_def)

section \<open>The specialization check on a cycle\<close>

lemma resolvable_now:
  assumes "resolvable remote st q i e"
  shows "get_element_fromAPI remote q i st = (Inr e, snd (get_element_fromAPI remote q i st))"
  using assms[unfolded resolvable_def, rule_format, of "[]"] by (simp add: prod_eq_iff)

lemma resolvable_step:
  assumes "resolvable remote st q i e"
  shows "resolvable remote (snd (get_element_fromAPI remote q' j st)) q i e"
  unfolding resolvable_def
proof
  fix calls
  show "fst (get_element_fromAPI remote q i (resolve_all remote calls (snd (get_element_fromAPI remote q' j st)))) = Inr e"
    using assms[unfolded resolvable_def, rule_format, of "(q', j) # calls"] by simp
qed

lemma stored_resolvable:
  assumes "memo_backed st" "stored st q i e"
  shows "resolvable remote st q i e"
  unfolding resolvable_def
proof
  fix calls
  from resolve_all_keeps[OF assms, of remote calls]
  have "memo_backed (resolve_all remote calls st)" "stored (resolve_all remote calls st) q i e"
    by simp_all
  from get_element_stored_hit[OF this]
  show "fst (get_element_fromAPI remote q i (resolve_all remote calls st)) = Inr e" by simp
qed

lemma py_get_truthy: "py_get X k = Inr v \<Longrightarrow> v \<noteq> JNull \<Longrightarrow> truthy X"
  by (cases X) (auto simp: py_get_def py_get_default_def split: option.splits)

lemma cycle_returns_False:
  assumes A: "py_get A ''@id'' = Inr (JStr a)"
      "py_get_default A ''ownedSpecialization'' (JList []) = Inr (JList [refA])"
      "py_subscript refA ''@id'' = Inr (JStr ra)"
    and RA: "py_get RA ''general'' = Inr gA" "truthy gA" "py_subscript gA ''@id'' = Inr (JStr b)"
    and B: "py_get B ''@id'' = Inr (JStr b)"
      "py_get_default B ''ownedSpecialization'' (JList []) = Inr (JList [refB])"
      "py_subscript refB ''@id'' = Inr (JStr rb)"
    and RB: "py_get RB ''general'' = Inr gB" "truthy gB" "py_subscript gB ''@id'' = Inr (JStr a)"
    and T: "py_get T ''@id'' = Inr t" "t \<noteq> JStr a" "t \<noteq> JStr b"
    and ab: "a \<noteq> b"
    and st: "resolvable remote st q (JStr ra) RA" "resolvable remote st q (JStr b) B"
      "resolvable remote st q (JStr rb) RB" "resolvable remote st q (JStr a) A"
  shows "\<exists>st'. check_specialization_hierarchy (Suc (Suc (Suc depth))) remote q A T [] st
             = (Inr (False, [JStr a, JStr b]), st')"
proof -
  define st1 where "st1 = snd (get_element_fromAPI remote q (JStr ra) st)"
  have 1: "get_element_fromAPI remote q (JStr ra) st = (Inr RA, st1)"
    unfolding st1_def by (rule resolvable_now[OF st(1)])
  have s1: "resolvable remote st1 q (JStr b) B" "resolvable remote st1 q (JStr rb) RB"
      "resolvable remote st1 q (JStr a) A"
    unfolding st1_def
    by (rule resolvable_step[OF st(2)] resolvable_step[OF st(3)] resolvable_step[OF st(4)])+
  define st2 where "st2 = snd (get_element_fromAPI remote q (JStr b) st1)"
  have 2: "get_element_fromAPI remote q (JStr b) st1 = (Inr B, st2)"
    unfolding st2_def by (rule resolvable_now[OF s1(1)])
  have s2: "resolvable remote st2 q (JStr rb) RB" "resolvable remote st2 q (JStr a) A"
    unfolding st2_def by (rule resolvable_step[OF s1(2)] resolvable_step[OF s1(3)])+
  define st3 where "st3 = snd (get_element_fromAPI remote q (JStr rb) st2)"
  have 3: "get_element_fromAPI remote q (JStr rb) st2 = (Inr RB, st3)"
    unfolding st3_def by (rule resolvable_now[OF s2(1)])
  have s3: "resolvable remote st3 q (JStr a) A"
    unfolding st3_def by (rule resolvable_step[OF s2(2)])
  define st4 where "st4 = snd (get_element_fromAPI remote q (JStr a) st3)"
  have 4: "get_element_fromAPI remote q (JStr a) st3 = (Inr A, st4)"
    unfolding st4_def by (rule resolvable_now[OF s3])
  have gA: "gA \<noteq> JNull" and gB: "gB \<noteq> JNull" using RA(2) RB(2) by auto
  have tr: "truthy RA" "truthy B" "truthy RB" "truthy A"
    using py_get_truthy[OF RA(1) gA] py_get_truthy[OF B(1)] py_get_truthy[OF RB(1) gB]
      py_get_truthy[OF A(1)] by simp_all
  have inner: "check_specialization_hierarchy (Suc depth) remote q A T [JStr a, JStr b] st4
       = (Inr (False, [JStr a, JStr b]), st4)"
    by (rule check_revisit[OF A(1)]) simp
  have loopB: "specialization_loop (Suc depth) remote q [refB] T [JStr a, JStr b] st2
       = (Inr (False, [JStr a, JStr b]), st4)"
    by (rule loop_step[OF B(3) 3 tr(3) RB 4 tr(4) inner])
  have nb: "JStr b \<notin> set [JStr a]" using ab by simp
  have checkB: "check_specialization_hierarchy (Suc (Suc depth)) remote q B T [JStr a] st2
       = (Inr (False, [JStr a, JStr b]), st4)"
    unfolding check_step[OF B(1) nb T(1) T(3) B(2)] using loopB by (simp only: append.simps)
  have loopA: "specialization_loop (Suc (Suc depth)) remote q [refA] T [JStr a] st
       = (Inr (False, [JStr a, JStr b]), st4)"
    by (rule loop_step[OF A(3) 1 tr(1) RA 2 tr(2) checkB])
  have na: "JStr a \<notin> set []" by simp
  have "check_specialization_hierarchy (Suc (Suc (Suc depth))) remote q A T [] st
       = (Inr (False, [JStr a, JStr b]), st4)"
    unfolding check_step[OF A(1) na T(1) T(2) A(2)] using loopA by (simp only: append.simps)
  then show ?thesis by blast
qed

text \<open>
  C5 (termination under cycles). \<open>A\<close> has the one owned specialization \<open>refA\<close>, which
  resolves to a relationship whose \<^verbatim>\<open>general\<close> is \<open>B\<close>, and \<open>B\<close> likewise back to
  \<open>A\<close>; the four elements are resolvable (from the cache or from the remote); the
  target's id differs from both. Then \<^verbatim>\<open>check_specialization_hierarchy\<close> on \<open>A\<close>,
  given a recursion depth of at least three calls, returns \<^verbatim>\<open>False\<close>, having visited
  \<open>A\<close> and \<open>B\<close> once each. In general, a call that returns has added each id to the
  visited set at most once: from a duplicate-free set it returns a duplicate-free superset.
\<close>

theorem specialization_cycle_returns_False:
  assumes "py_get A ''@id'' = Inr (JStr a)"
      "py_get_default A ''ownedSpecialization'' (JList []) = Inr (JList [refA])"
      "py_subscript refA ''@id'' = Inr (JStr ra)"
    and "py_get RA ''general'' = Inr gA" "truthy gA" "py_subscript gA ''@id'' = Inr (JStr b)"
    and "py_get B ''@id'' = Inr (JStr b)"
      "py_get_default B ''ownedSpecialization'' (JList []) = Inr (JList [refB])"
      "py_subscript refB ''@id'' = Inr (JStr rb)"
    and "py_get RB ''general'' = Inr gB" "truthy gB" "py_subscript gB ''@id'' = Inr (JStr a)"
    and "py_get T ''@id'' = Inr t" "t \<noteq> JStr a" "t \<noteq> JStr b"
    and "a \<noteq> b"
    and "resolvable remote st q (JStr ra) RA" "resolvable remote st q (JStr b) B"
      "resolvable remote st q (JStr rb) RB" "resolvable remote st q (JStr a) A"
  shows "(\<exists>st'. check_specialization_hierarchy (Suc (Suc (Suc depth))) remote q A T [] st
             = (Inr (False, [JStr a, JStr b]), st'))
       \<and> (\<forall>depth' remote' q' el super visited st0 r v st1.
             check_specialization_hierarchy depth' remote' q' el super visited st0 = (Inr (r, v), st1)
             \<and> distinct visited \<longrightarrow> distinct v \<and> set visited \<subseteq> set v)"
proof
  show "\<exists>st'. check_specialization_hierarchy (Suc (Suc (Suc depth))) remote q A T [] st
             = (Inr (False, [JStr a, JStr b]), st')"
    by (rule cycle_returns_False[OF assms])
  show "\<forall>depth' remote' q' el super visited st0 r v st1.
             check_specialization_hierarchy depth' remote' q' el super visited st0 = (Inr (r, v), st1)
             \<and> distinct visited \<longrightarrow> distinct v \<and> set visited \<subseteq> set v"
    using visited_distinct_aux(1) by blast
qed

lemma cycle_facts:
  "py_get cycle_A ''@id'' = Inr (JStr ''A'')"
  "py_get_default cycle_A ''ownedSpecialization'' (JList []) = Inr (JList [JObj [(''@id'', JStr ''rA'')]])"
  "py_subscript (JObj [(''@id'', JStr ''rA'')]) ''@id'' = Inr (JStr ''rA'')"
  "py_get cycle_rA ''general'' = Inr (JObj [(''@id'', JStr ''B'')])"
  "truthy (JObj [(''@id'', JStr ''B'')])"
  "py_subscript (JObj [(''@id'', JStr ''B'')]) ''@id'' = Inr (JStr ''B'')"
  "py_get cycle_B ''@id'' = Inr (JStr ''B'')"
  "py_get_default cycle_B ''ownedSpecialization'' (JList []) = Inr (JList [JObj [(''@id'', JStr ''rB'')]])"
  "py_subscript (JObj [(''@id'', JStr ''rB'')]) ''@id'' = Inr (JStr ''rB'')"
  "py_get cycle_rB ''general'' = Inr (JObj [(''@id'', JStr ''A'')])"
  "truthy (JObj [(''@id'', JStr ''A'')])"
  "py_subscript (JObj [(''@id'', JStr ''A'')]) ''@id'' = Inr (JStr ''A'')"
  "py_get cycle_target ''@id'' = Inr (JStr ''T'')"
  "JStr ''T'' \<noteq> JStr ''A''" "JStr ''T'' \<noteq> JStr ''B''"
  "''A'' \<noteq> ''B''"
  by (simp_all add: cycle_A_def cycle_B_def cycle_rA_def cycle_rB_def cycle_target_def
      py_get_def py_get_default_def py_subscript_def)

lemma cycle_state_facts:
  "memo_backed cycle_state"
  "stored cycle_state demo_url (JStr ''rA'') cycle_rA"
  "stored cycle_state demo_url (JStr ''B'') cycle_B"
  "stored cycle_state demo_url (JStr ''rB'') cycle_rB"
  "stored cycle_state demo_url (JStr ''A'') cycle_A"
  by (simp_all add: memo_backed_def stored_def cache_get_def cycle_state_def
      cycle_A_def cycle_B_def cycle_rA_def cycle_rB_def)

theorem specialization_cycle_returns_False_witness:
  "py_get cycle_A ''@id'' = Inr (JStr ''A'')
   \<and> py_get cycle_B ''@id'' = Inr (JStr ''B'')
   \<and> py_get cycle_target ''@id'' = Inr (JStr ''T'')
   \<and> resolvable remote_down cycle_state demo_url (JStr ''A'') cycle_A
   \<and> resolvable remote_down cycle_state demo_url (JStr ''B'') cycle_B
   \<and> (\<exists>st'. check_specialization_hierarchy (Suc (Suc (Suc 0))) remote_down demo_url cycle_A cycle_target [] cycle_state
          = (Inr (False, [JStr ''A'', JStr ''B'']), st'))"
proof -
  note r = stored_resolvable[OF cycle_state_facts(1) cycle_state_facts(2), of remote_down]
    stored_resolvable[OF cycle_state_facts(1) cycle_state_facts(3), of remote_down]
    stored_resolvable[OF cycle_state_facts(1) cycle_state_facts(4), of remote_down]
    stored_resolvable[OF cycle_state_facts(1) cycle_state_facts(5), of remote_down]
  show ?thesis
    using cycle_facts(1,7,13) r(2,4)
      conjunct1[OF specialization_cycle_returns_False[OF cycle_facts r, of 0]]
    by blast
qed

text \<open>
  The same cycle with an empty cache and the remote serving the elements: the call
  fetches each of the four elements once and returns \<^verbatim>\<open>False\<close>.
\<close>

lemma cycle_cold_cache:
  "fst (check_specialization_hierarchy (Suc (Suc (Suc 0))) remote_cycle demo_url cycle_A cycle_target []
          empty_state) = Inr (False, [JStr ''A'', JStr ''B''])"
  "requests (snd (check_specialization_hierarchy (Suc (Suc (Suc 0))) remote_cycle demo_url cycle_A
          cycle_target [] empty_state))
     = [Get (demo_url @ ''/elements/rA''), Get (demo_url @ ''/elements/B''),
        Get (demo_url @ ''/elements/rB''), Get (demo_url @ ''/elements/A'')]"
  by (simp_all add: and_then_apply lift_apply ret_apply cycle_A_def cycle_B_def cycle_rA_def cycle_rB_def
      cycle_target_def py_get_def py_get_default_def py_subscript_def py_iter_def
      get_element_fromAPI_def element_try_body_def request_element_def send_def cache_put_def
      first_of_list_def empty_state_def lru_store_def remote_cycle_def demo_url_def Let_def)


end
